theory Spec2Isabelle
  imports Main "HOL-Library.Word"
begin

unbundle bit_operations_syntax

section \<open>Data model of \<open>src/game/Chat/Channel.cpp\<close>\<close>

text \<open>
  An \<open>ObjectGuid\<close> wraps a 64-bit raw value; the default-constructed guid is the raw value 0
  and \<open>bool(guid)\<close> / \<open>!guid\<close> test the raw value against 0.
\<close>

type_synonym ObjectGuid = "64 word"

text \<open>
  Modelled from the spec: the enumerations of the absent header \<open>Chat/Channel.h\<close> and of
  \<open>Common.h\<close>. The member role bits (owner, moderator, muted) and the channel flag bits
  (General, Trade, City, LFG/NotLFG, Custom) of spec section 3 are independent single bits
  of one byte; the account security levels are ordered, game master and above being "GM+".
\<close>

definition MEMBER_FLAG_NONE :: "8 word" where "MEMBER_FLAG_NONE = 0x00"
definition MEMBER_FLAG_OWNER :: "8 word" where "MEMBER_FLAG_OWNER = 0x01"
definition MEMBER_FLAG_MODERATOR :: "8 word" where "MEMBER_FLAG_MODERATOR = 0x02"
definition MEMBER_FLAG_MUTED :: "8 word" where "MEMBER_FLAG_MUTED = 0x08"

definition CHANNEL_FLAG_CUSTOM :: "8 word" where "CHANNEL_FLAG_CUSTOM = 0x01"
definition CHANNEL_FLAG_TRADE :: "8 word" where "CHANNEL_FLAG_TRADE = 0x04"
definition CHANNEL_FLAG_NOT_LFG :: "8 word" where "CHANNEL_FLAG_NOT_LFG = 0x08"
definition CHANNEL_FLAG_GENERAL :: "8 word" where "CHANNEL_FLAG_GENERAL = 0x10"
definition CHANNEL_FLAG_CITY :: "8 word" where "CHANNEL_FLAG_CITY = 0x20"
definition CHANNEL_FLAG_LFG :: "8 word" where "CHANNEL_FLAG_LFG = 0x40"

definition CHANNEL_DBC_FLAG_TRADE :: "32 word" where "CHANNEL_DBC_FLAG_TRADE = 0x00008"
definition CHANNEL_DBC_FLAG_CITY_ONLY2 :: "32 word" where "CHANNEL_DBC_FLAG_CITY_ONLY2 = 0x00020"
definition CHANNEL_DBC_FLAG_LFG :: "32 word" where "CHANNEL_DBC_FLAG_LFG = 0x40000"

definition CHANNEL_ID_LOCAL_DEFENSE :: "32 word" where "CHANNEL_ID_LOCAL_DEFENSE = 22"
definition CHANNEL_ID_WORLD_DEFENSE :: "32 word" where "CHANNEL_ID_WORLD_DEFENSE = 23"

definition LANG_UNIVERSAL :: "32 word" where "LANG_UNIVERSAL = 0"

datatype AccountTypes = SEC_PLAYER | SEC_MODERATOR | SEC_GAMEMASTER | SEC_ADMINISTRATOR

primrec sec_level :: "AccountTypes \<Rightarrow> nat" where
  "sec_level SEC_PLAYER = 0"
| "sec_level SEC_MODERATOR = 1"
| "sec_level SEC_GAMEMASTER = 2"
| "sec_level SEC_ADMINISTRATOR = 3"

datatype ChatNotify =
    CHAT_JOINED_NOTICE | CHAT_LEFT_NOTICE | CHAT_YOU_JOINED_NOTICE | CHAT_YOU_LEFT_NOTICE
  | CHAT_WRONG_PASSWORD_NOTICE | CHAT_NOT_MEMBER_NOTICE | CHAT_NOT_MODERATOR_NOTICE
  | CHAT_PASSWORD_CHANGED_NOTICE | CHAT_OWNER_CHANGED_NOTICE | CHAT_PLAYER_NOT_FOUND_NOTICE
  | CHAT_NOT_OWNER_NOTICE | CHAT_CHANNEL_OWNER_NOTICE | CHAT_MODE_CHANGE_NOTICE
  | CHAT_ANNOUNCEMENTS_ON_NOTICE | CHAT_ANNOUNCEMENTS_OFF_NOTICE | CHAT_MODERATION_ON_NOTICE
  | CHAT_MODERATION_OFF_NOTICE | CHAT_MUTED_NOTICE | CHAT_PLAYER_KICKED_NOTICE
  | CHAT_BANNED_NOTICE | CHAT_PLAYER_BANNED_NOTICE | CHAT_PLAYER_UNBANNED_NOTICE
  | CHAT_PLAYER_NOT_BANNED_NOTICE | CHAT_PLAYER_ALREADY_MEMBER_NOTICE | CHAT_INVITE_NOTICE
  | CHAT_INVITE_WRONG_FACTION_NOTICE | CHAT_WRONG_FACTION_NOTICE | CHAT_INVALID_NAME_NOTICE
  | CHAT_NOT_MODERATED_NOTICE | CHAT_PLAYER_INVITED_NOTICE | CHAT_PLAYER_INVITE_BANNED_NOTICE
  | CHAT_THROTTLED_NOTICE

text \<open>
  A \<open>WorldPacket\<close> is an opcode and the values streamed into it with \<open><<\<close>, in order.
  The chat packet is the argument list handed to \<open>ChatHandler::BuildChatPacket\<close>.
\<close>

datatype Field = FGuid ObjectGuid | FString string | FUint8 "8 word" | FUint32 "32 word"

datatype WorldPacket =
    SMSG_CHANNEL_NOTIFY ChatNotify string "Field list"
  | SMSG_CHANNEL_LIST string "8 word" "(ObjectGuid \<times> 8 word) list"
  | CHAT_MSG_CHANNEL string "32 word" ObjectGuid string string nat

text \<open>A delivery is a packet handed to the session of the player with the given guid.\<close>

type_synonym Sent = "(ObjectGuid \<times> WorldPacket) list"

record PlayerInfo =
  player :: ObjectGuid
  flags :: "8 word"

text \<open>
  Modelled from the spec: the inline accessors of \<open>Channel::PlayerInfo\<close> (header absent).
  Each role is one bit of \<open>flags\<close>; a setter sets or clears that bit only.
\<close>

definition IsOwner :: "PlayerInfo \<Rightarrow> bool" where
  "IsOwner p = (flags p AND MEMBER_FLAG_OWNER \<noteq> 0)"

definition IsModerator :: "PlayerInfo \<Rightarrow> bool" where
  "IsModerator p = (flags p AND MEMBER_FLAG_MODERATOR \<noteq> 0)"

definition IsMuted :: "PlayerInfo \<Rightarrow> bool" where
  "IsMuted p = (flags p AND MEMBER_FLAG_MUTED \<noteq> 0)"

definition PlayerInfo_SetOwner :: "bool \<Rightarrow> PlayerInfo \<Rightarrow> PlayerInfo" where
  "PlayerInfo_SetOwner state p =
     (if state then p\<lparr>flags := flags p OR MEMBER_FLAG_OWNER\<rparr>
      else p\<lparr>flags := flags p AND NOT MEMBER_FLAG_OWNER\<rparr>)"

definition PlayerInfo_SetModerator :: "bool \<Rightarrow> PlayerInfo \<Rightarrow> PlayerInfo" where
  "PlayerInfo_SetModerator state p =
     (if state then p\<lparr>flags := flags p OR MEMBER_FLAG_MODERATOR\<rparr>
      else p\<lparr>flags := flags p AND NOT MEMBER_FLAG_MODERATOR\<rparr>)"

definition PlayerInfo_SetMuted :: "bool \<Rightarrow> PlayerInfo \<Rightarrow> PlayerInfo" where
  "PlayerInfo_SetMuted state p =
     (if state then p\<lparr>flags := flags p OR MEMBER_FLAG_MUTED\<rparr>
      else p\<lparr>flags := flags p AND NOT MEMBER_FLAG_MUTED\<rparr>)"

text \<open>
  \<open>PlayerList\<close> is a \<open>std::map<ObjectGuid, PlayerInfo>\<close>: an association list kept in
  ascending key order, which is the order in which \<open>begin() .. end()\<close> visits it.
  \<open>operator[]\<close> inserts a value-initialised entry (empty guid, flags 0) when the key is
  absent and then yields the entry.
\<close>

type_synonym PlayerList = "(ObjectGuid \<times> PlayerInfo) list"

definition players_find :: "PlayerList \<Rightarrow> ObjectGuid \<Rightarrow> PlayerInfo option" where
  "players_find pl g = map_of pl g"

fun players_insert :: "ObjectGuid \<Rightarrow> PlayerInfo \<Rightarrow> PlayerList \<Rightarrow> PlayerList" where
  "players_insert g v [] = [(g, v)]"
| "players_insert g v ((k, x) # pl) =
     (if g < k then (g, v) # (k, x) # pl else (k, x) # players_insert g v pl)"

definition players_erase :: "ObjectGuid \<Rightarrow> PlayerList \<Rightarrow> PlayerList" where
  "players_erase g pl = filter (\<lambda>e. fst e \<noteq> g) pl"

definition players_index :: "PlayerList \<Rightarrow> ObjectGuid \<Rightarrow> PlayerList" where
  "players_index pl g =
     (case players_find pl g of
        Some v \<Rightarrow> pl
      | None \<Rightarrow> players_insert g \<lparr>player = 0, flags = 0\<rparr> pl)"

definition players_get :: "PlayerList \<Rightarrow> ObjectGuid \<Rightarrow> PlayerInfo" where
  "players_get pl g =
     (case players_find pl g of Some v \<Rightarrow> v | None \<Rightarrow> \<lparr>player = 0, flags = 0\<rparr>)"

definition players_apply ::
  "(PlayerInfo \<Rightarrow> PlayerInfo) \<Rightarrow> ObjectGuid \<Rightarrow> PlayerList \<Rightarrow> PlayerList" where
  "players_apply f g pl = map (\<lambda>e. if fst e = g then (fst e, f (snd e)) else e) pl"

record Channel =
  m_announce :: bool
  m_moderate :: bool
  m_name :: string
  m_flags :: "8 word"
  m_static :: bool
  m_realmzone :: bool
  m_channelId :: "32 word"
  m_password :: string
  m_ownerGuid :: ObjectGuid
  m_banned :: "ObjectGuid set"
  m_players :: PlayerList

text \<open>
  The collaborators of spec section 6 that the channel consults: what it reads from the
  acting \<open>Player\<close> and its session, and what it asks of \<open>sObjectMgr\<close> and \<open>sWorld\<close>.
  The two speech rank constants are not defined in this file and are taken as parameters.
\<close>

record Player =
  GetObjectGuid :: ObjectGuid
  GetName :: string
  GetSecurity :: AccountTypes
  GetTeam :: nat
  GetGuildId :: "32 word"
  visualRank :: nat
  rank :: nat
  GetChatTag :: string
  HasIgnore :: "ObjectGuid \<Rightarrow> bool"

record World =
  GetPlayer :: "ObjectGuid \<Rightarrow> Player option"
  GetPlayerByName :: "string \<Rightarrow> Player option"
  GetPlayerNameByGUID :: "ObjectGuid \<Rightarrow> string option"
  CheckPublicMessageLanguage :: "string \<Rightarrow> bool"
  IsVisibleGloballyFor :: "Player \<Rightarrow> Player \<Rightarrow> bool"
  CONFIG_BOOL_CHANNEL_GM_JOIN_SILENTLY :: bool
  CONFIG_BOOL_ALLOW_TWO_SIDE_INTERACTION_CHANNEL :: bool
  CONFIG_UINT32_CHANNEL_RESTRICTED_LANGUAGE_MODE :: "32 word"
  CONFIG_UINT32_CHANNEL_STATIC_AUTO_TRESHOLD :: "32 word"
  CONFIG_UINT32_GM_LEVEL_IN_WHO_LIST :: "32 word"
  SPEAK_IN_LOCALDEFENSE_RANK :: nat
  SPEAK_IN_WORLDDEFENSE_RANK :: nat

record ChatChannelsEntry =
  ChannelID :: "32 word"
  dbc_flags :: "32 word"


section \<open>Accessors and packet builders\<close>

text \<open>
  Modelled from the spec: the inline accessors of \<open>Channel\<close> (header absent). A built-in
  channel is one with a non-zero catalog identity; a channel is public when it is built-in
  or static (ownership applies to non-public channels only).
\<close>

definition GetFlags :: "Channel \<Rightarrow> 8 word" where
  "GetFlags c = m_flags c"

definition GetChannelId :: "Channel \<Rightarrow> 32 word" where
  "GetChannelId c = m_channelId c"

definition HasFlag :: "Channel \<Rightarrow> 8 word \<Rightarrow> bool" where
  "HasFlag c flag = (m_flags c AND flag \<noteq> 0)"

definition IsConstant :: "Channel \<Rightarrow> bool" where
  "IsConstant c = (m_channelId c \<noteq> 0)"

definition IsPublic :: "Channel \<Rightarrow> bool" where
  "IsPublic c = (IsConstant c \<or> m_static c)"

definition GetNumPlayers :: "Channel \<Rightarrow> 32 word" where
  "GetNumPlayers c = word_of_nat (length (m_players c))"

definition IsOn :: "Channel \<Rightarrow> ObjectGuid \<Rightarrow> bool" where
  "IsOn c who = (players_find (m_players c) who \<noteq> None)"

definition IsBanned :: "Channel \<Rightarrow> ObjectGuid \<Rightarrow> bool" where
  "IsBanned c guid = (guid \<in> m_banned c)"

definition GetPlayerFlags :: "Channel \<Rightarrow> ObjectGuid \<Rightarrow> 8 word" where
  "GetPlayerFlags c guid =
     (case players_find (m_players c) guid of None \<Rightarrow> 0 | Some p \<Rightarrow> flags p)"

text \<open>\<open>m_players[guid]\<close>: the channel after the possible insertion, and the entry.\<close>

definition index_players :: "Channel \<Rightarrow> ObjectGuid \<Rightarrow> Channel \<times> PlayerInfo" where
  "index_players c guid =
     (c\<lparr>m_players := players_index (m_players c) guid\<rparr>, players_get (m_players c) guid)"

text \<open>\<open>m_players[guid].f()\<close> for a mutating \<open>f\<close>.\<close>

definition modify_player ::
  "(PlayerInfo \<Rightarrow> PlayerInfo) \<Rightarrow> ObjectGuid \<Rightarrow> Channel \<Rightarrow> Channel" where
  "modify_player f guid c =
     c\<lparr>m_players := players_apply f guid (players_index (m_players c) guid)\<rparr>"

definition MakeNotifyPacket :: "string \<Rightarrow> ChatNotify \<Rightarrow> Field list \<Rightarrow> WorldPacket" where
  "MakeNotifyPacket channel type payload = SMSG_CHANNEL_NOTIFY type channel payload"

definition MakeJoined :: "string \<Rightarrow> ObjectGuid \<Rightarrow> WorldPacket" where
  "MakeJoined channel guid = MakeNotifyPacket channel CHAT_JOINED_NOTICE [FGuid guid]"

definition MakeLeft :: "string \<Rightarrow> ObjectGuid \<Rightarrow> WorldPacket" where
  "MakeLeft channel guid = MakeNotifyPacket channel CHAT_LEFT_NOTICE [FGuid guid]"

definition MakeYouJoined :: "string \<Rightarrow> Channel \<Rightarrow> WorldPacket" where
  "MakeYouJoined channel which =
     MakeNotifyPacket channel CHAT_YOU_JOINED_NOTICE
       [FUint8 (GetFlags which), FUint32 (GetChannelId which), FUint32 0]"

definition MakeYouLeft :: "string \<Rightarrow> WorldPacket" where
  "MakeYouLeft channel = MakeNotifyPacket channel CHAT_YOU_LEFT_NOTICE []"

definition MakeWrongPassword :: "string \<Rightarrow> WorldPacket" where
  "MakeWrongPassword channel = MakeNotifyPacket channel CHAT_WRONG_PASSWORD_NOTICE []"

definition MakeNotMember :: "string \<Rightarrow> WorldPacket" where
  "MakeNotMember channel = MakeNotifyPacket channel CHAT_NOT_MEMBER_NOTICE []"

definition MakeNotModerator :: "string \<Rightarrow> WorldPacket" where
  "MakeNotModerator channel = MakeNotifyPacket channel CHAT_NOT_MODERATOR_NOTICE []"

definition MakePasswordChanged :: "string \<Rightarrow> ObjectGuid \<Rightarrow> WorldPacket" where
  "MakePasswordChanged channel guid =
     MakeNotifyPacket channel CHAT_PASSWORD_CHANGED_NOTICE [FGuid guid]"

definition MakeOwnerChanged :: "string \<Rightarrow> ObjectGuid \<Rightarrow> WorldPacket" where
  "MakeOwnerChanged channel guid =
     MakeNotifyPacket channel CHAT_OWNER_CHANGED_NOTICE [FGuid guid]"

definition MakePlayerNotFound :: "string \<Rightarrow> string \<Rightarrow> WorldPacket" where
  "MakePlayerNotFound channel name =
     MakeNotifyPacket channel CHAT_PLAYER_NOT_FOUND_NOTICE [FString name]"

definition MakeNotOwner :: "string \<Rightarrow> WorldPacket" where
  "MakeNotOwner channel = MakeNotifyPacket channel CHAT_NOT_OWNER_NOTICE []"

definition MakeChannelOwner :: "World \<Rightarrow> string \<Rightarrow> ObjectGuid \<Rightarrow> WorldPacket" where
  "MakeChannelOwner w channel guid =
     (let name =
        (if guid = 0 then ''Nobody''
         else (case GetPlayerNameByGUID w guid of
                 None \<Rightarrow> ''PLAYER_NOT_FOUND''
               | Some n \<Rightarrow> if n = [] then ''PLAYER_NOT_FOUND'' else n))
      in MakeNotifyPacket channel CHAT_CHANNEL_OWNER_NOTICE [FString name])"

definition MakeModeChange ::
  "string \<Rightarrow> ObjectGuid \<Rightarrow> 8 word \<Rightarrow> 8 word \<Rightarrow> WorldPacket" where
  "MakeModeChange channel guid oldflags newFlags =
     MakeNotifyPacket channel CHAT_MODE_CHANGE_NOTICE
       [FGuid guid, FUint8 oldflags, FUint8 newFlags]"

definition MakeAnnouncementsOn :: "string \<Rightarrow> ObjectGuid \<Rightarrow> WorldPacket" where
  "MakeAnnouncementsOn channel guid =
     MakeNotifyPacket channel CHAT_ANNOUNCEMENTS_ON_NOTICE [FGuid guid]"

definition MakeAnnouncementsOff :: "string \<Rightarrow> ObjectGuid \<Rightarrow> WorldPacket" where
  "MakeAnnouncementsOff channel guid =
     MakeNotifyPacket channel CHAT_ANNOUNCEMENTS_OFF_NOTICE [FGuid guid]"

definition MakeModerationOn :: "string \<Rightarrow> ObjectGuid \<Rightarrow> WorldPacket" where
  "MakeModerationOn channel guid =
     MakeNotifyPacket channel CHAT_MODERATION_ON_NOTICE [FGuid guid]"

definition MakeModerationOff :: "string \<Rightarrow> ObjectGuid \<Rightarrow> WorldPacket" where
  "MakeModerationOff channel guid =
     MakeNotifyPacket channel CHAT_MODERATION_OFF_NOTICE [FGuid guid]"

definition MakeMuted :: "string \<Rightarrow> WorldPacket" where
  "MakeMuted channel = MakeNotifyPacket channel CHAT_MUTED_NOTICE []"

definition MakePlayerKicked :: "string \<Rightarrow> ObjectGuid \<Rightarrow> ObjectGuid \<Rightarrow> WorldPacket" where
  "MakePlayerKicked channel target source =
     MakeNotifyPacket channel CHAT_PLAYER_KICKED_NOTICE [FGuid target, FGuid source]"

definition MakeBanned :: "string \<Rightarrow> WorldPacket" where
  "MakeBanned channel = MakeNotifyPacket channel CHAT_BANNED_NOTICE []"

definition MakePlayerBanned :: "string \<Rightarrow> ObjectGuid \<Rightarrow> ObjectGuid \<Rightarrow> WorldPacket" where
  "MakePlayerBanned channel target source =
     MakeNotifyPacket channel CHAT_PLAYER_BANNED_NOTICE [FGuid target, FGuid source]"

definition MakePlayerUnbanned :: "string \<Rightarrow> ObjectGuid \<Rightarrow> ObjectGuid \<Rightarrow> WorldPacket" where
  "MakePlayerUnbanned channel target source =
     MakeNotifyPacket channel CHAT_PLAYER_UNBANNED_NOTICE [FGuid target, FGuid source]"

definition MakePlayerNotBanned :: "string \<Rightarrow> string \<Rightarrow> WorldPacket" where
  "MakePlayerNotBanned channel name =
     MakeNotifyPacket channel CHAT_PLAYER_NOT_BANNED_NOTICE [FString name]"

definition MakePlayerAlreadyMember :: "string \<Rightarrow> ObjectGuid \<Rightarrow> WorldPacket" where
  "MakePlayerAlreadyMember channel guid =
     MakeNotifyPacket channel CHAT_PLAYER_ALREADY_MEMBER_NOTICE [FGuid guid]"

definition MakeInvite :: "string \<Rightarrow> ObjectGuid \<Rightarrow> WorldPacket" where
  "MakeInvite channel guid = MakeNotifyPacket channel CHAT_INVITE_NOTICE [FGuid guid]"

definition MakeInviteWrongFaction :: "string \<Rightarrow> WorldPacket" where
  "MakeInviteWrongFaction channel =
     MakeNotifyPacket channel CHAT_INVITE_WRONG_FACTION_NOTICE []"

definition MakePlayerInvited :: "string \<Rightarrow> string \<Rightarrow> WorldPacket" where
  "MakePlayerInvited channel name =
     MakeNotifyPacket channel CHAT_PLAYER_INVITED_NOTICE [FString name]"

definition MakePlayerInviteBanned :: "string \<Rightarrow> string \<Rightarrow> WorldPacket" where
  "MakePlayerInviteBanned channel name =
     MakeNotifyPacket channel CHAT_PLAYER_INVITE_BANNED_NOTICE [FString name]"

section \<open>Dispatch\<close>

definition SendToOne :: "World \<Rightarrow> WorldPacket \<Rightarrow> ObjectGuid \<Rightarrow> Sent" where
  "SendToOne w data receiver =
     (case GetPlayer w receiver of
        Some plr \<Rightarrow> [(GetObjectGuid plr, data)]
      | None \<Rightarrow> [])"

definition SendToAll :: "World \<Rightarrow> Channel \<Rightarrow> WorldPacket \<Rightarrow> Sent" where
  "SendToAll w c data = concat (map (\<lambda>i. SendToOne w data (fst i)) (m_players c))"

definition SendMessage :: "World \<Rightarrow> Channel \<Rightarrow> WorldPacket \<Rightarrow> ObjectGuid \<Rightarrow> Sent" where
  "SendMessage w c data sender =
     concat (map (\<lambda>i.
       (case GetPlayer w (fst i) of
          Some plr \<Rightarrow>
            if sender = 0 \<or> \<not> HasIgnore plr sender then [(GetObjectGuid plr, data)] else []
        | None \<Rightarrow> [])) (m_players c))"


section \<open>Roles and ownership\<close>

text \<open>
  Modelled from the spec: the inline helpers \<open>Channel::SetModerator(guid, set)\<close> and
  \<open>Channel::SetMute(guid, set)\<close> (header absent). Spec 4.2: toggling moderator or mute
  flips the corresponding role bit of the member and emits a role-change notice carrying
  the old and the new flag byte; nothing happens when the bit already has the value.
\<close>

definition SetModerator :: "World \<Rightarrow> ObjectGuid \<Rightarrow> bool \<Rightarrow> Channel \<Rightarrow> Channel \<times> Sent" where
  "SetModerator w guid setv c =
     (case players_find (m_players c) guid of
        None \<Rightarrow> (c, [])
      | Some pinfo \<Rightarrow>
          if IsModerator pinfo \<noteq> setv then
            (let oldFlag = flags pinfo;
                 c1 = c\<lparr>m_players := players_apply (PlayerInfo_SetModerator setv) guid (m_players c)\<rparr>
             in (c1, SendToAll w c1 (MakeModeChange (m_name c1) guid oldFlag (GetPlayerFlags c1 guid))))
          else (c, []))"

definition SetMute :: "World \<Rightarrow> ObjectGuid \<Rightarrow> bool \<Rightarrow> Channel \<Rightarrow> Channel \<times> Sent" where
  "SetMute w guid setv c =
     (case players_find (m_players c) guid of
        None \<Rightarrow> (c, [])
      | Some pinfo \<Rightarrow>
          if IsMuted pinfo \<noteq> setv then
            (let oldFlag = flags pinfo;
                 c1 = c\<lparr>m_players := players_apply (PlayerInfo_SetMuted setv) guid (m_players c)\<rparr>
             in (c1, SendToAll w c1 (MakeModeChange (m_name c1) guid oldFlag (GetPlayerFlags c1 guid))))
          else (c, []))"

text \<open>The loop of \<open>SelectNewOwner\<close>: it returns at the first entry that is a moderator.\<close>

fun first_moderator :: "PlayerList \<Rightarrow> ObjectGuid option" where
  "first_moderator [] = None"
| "first_moderator (i # rest) =
     (if IsModerator (snd i) then Some (player (snd i)) else first_moderator rest)"

definition SelectNewOwner :: "Channel \<Rightarrow> ObjectGuid" where
  "SelectNewOwner c =
     (case first_moderator (m_players c) of
        Some g \<Rightarrow> g
      | None \<Rightarrow> (case m_players c of [] \<Rightarrow> 0 | i # rest \<Rightarrow> player (snd i)))"

definition SetOwner :: "World \<Rightarrow> ObjectGuid \<Rightarrow> bool \<Rightarrow> Channel \<Rightarrow> Channel \<times> Sent" where
  "SetOwner w guid exclaim c =
     (let (c1, out1) =
        (if m_ownerGuid c \<noteq> 0 then
           (case players_find (m_players c) (m_ownerGuid c) of
              Some p \<Rightarrow>
                (let p1 = PlayerInfo_SetModerator (guid \<noteq> 0) p;
                     oldFlag = flags p1;
                     p2 = PlayerInfo_SetOwner False p1;
                     ca = c\<lparr>m_players := players_apply (\<lambda>x. p2) (m_ownerGuid c) (m_players c)\<rparr>
                 in (ca, SendToAll w ca
                           (MakeModeChange (m_name ca) guid oldFlag (GetPlayerFlags ca guid))))
            | None \<Rightarrow> (c, []))
         else (c, []));
         c2 = c1\<lparr>m_ownerGuid := guid\<rparr>;
         (c3, out2) =
           (if m_ownerGuid c2 \<noteq> 0 then
              (let ca = modify_player (PlayerInfo_SetModerator True) (m_ownerGuid c2) c2;
                   oldFlag = GetPlayerFlags ca (m_ownerGuid ca);
                   cb = modify_player (PlayerInfo_SetOwner True) (m_ownerGuid ca) ca
               in (cb, SendToAll w cb
                         (MakeModeChange (m_name cb) guid oldFlag (GetPlayerFlags cb guid))))
            else (c2, []));
         out3 = (if exclaim then SendToAll w c3 (MakeOwnerChanged (m_name c3) guid) else [])
      in (c3, out1 @ out2 @ out3))"

text \<open>
  Modelled from the spec: the default value of the \<open>exclaim\<close> parameter of
  \<open>SetOwner(ObjectGuid, bool)\<close>, declared in the absent header. Spec 4.3: on becoming
  dynamic succession is assigned without exclaim.
\<close>

definition SetOwner_exclaim_default :: bool where
  "SetOwner_exclaim_default = False"

section \<open>Static conversion\<close>

text \<open>
  The moderator-stripping loop of \<open>SetStatic\<close> walks the table once; each visited entry is
  read in the table as it is at that moment.
\<close>

fun strip_moderators :: "World \<Rightarrow> ObjectGuid list \<Rightarrow> Channel \<Rightarrow> Channel \<times> Sent" where
  "strip_moderators w [] c = (c, [])"
| "strip_moderators w (k # ks) c =
     (case players_find (m_players c) k of
        None \<Rightarrow> strip_moderators w ks c
      | Some i \<Rightarrow>
          if IsModerator i then
            (let (c1, out1) = SetModerator w (player i) False c;
                 (c2, out2) = strip_moderators w ks c1
             in (c2, out1 @ out2))
          else strip_moderators w ks c)"

definition SetStatic :: "World \<Rightarrow> bool \<Rightarrow> bool \<Rightarrow> Channel \<Rightarrow> Channel \<times> Sent \<times> bool" where
  "SetStatic w state command c =
     (if IsConstant c \<or> \<not> HasFlag c CHANNEL_FLAG_CUSTOM \<or> m_static c = state then (c, [], False)
      else if state \<and> m_password c \<noteq> [] then (c, [], False)
      else
        (let treshold = CONFIG_UINT32_CHANNEL_STATIC_AUTO_TRESHOLD w in
         if \<not> command \<and> (treshold = 0 \<or> state \<noteq> (GetNumPlayers c \<ge> treshold)) then (c, [], False)
         else
           (let (c1, out1) =
                  (if state then strip_moderators w (map fst (m_players c)) c else (c, []));
                (c2, out2) =
                  (if state = (m_ownerGuid c1 \<noteq> 0)
                   then SetOwner w (if state then 0 else SelectNewOwner c1)
                          SetOwner_exclaim_default c1
                   else (c1, []));
                (c3, out3) =
                  (if state \<and> m_moderate c2
                   then (let ca = c2\<lparr>m_moderate := False\<rparr>
                         in (ca, SendToAll w ca (MakeModerationOff (m_name ca) 0)))
                   else (c2, []));
                (c4, out4) =
                  (if state \<and> m_announce c3
                   then (let ca = c3\<lparr>m_announce := False\<rparr>
                         in (ca, SendToAll w ca (MakeAnnouncementsOff (m_name ca) 0)))
                   else (c3, []))
            in (c4\<lparr>m_static := state\<rparr>, out1 @ out2 @ out3 @ out4, True))))"

section \<open>Construction\<close>

text \<open>
  The constructor; \<open>ch\<close> is the result of \<open>GetChannelEntryFor(name)\<close>. Password, owner,
  ban set and member table start empty; a custom channel has channel id 0.
\<close>

definition Channel_new :: "World \<Rightarrow> ChatChannelsEntry option \<Rightarrow> string \<Rightarrow> Channel" where
  "Channel_new w ch name =
     (case ch of
        Some e \<Rightarrow>
          \<lparr>m_announce = False, m_moderate = False, m_name = name,
           m_flags = CHANNEL_FLAG_GENERAL
             OR (if dbc_flags e AND CHANNEL_DBC_FLAG_TRADE \<noteq> 0 then CHANNEL_FLAG_TRADE else 0)
             OR (if dbc_flags e AND CHANNEL_DBC_FLAG_CITY_ONLY2 \<noteq> 0 then CHANNEL_FLAG_CITY else 0)
             OR (if dbc_flags e AND CHANNEL_DBC_FLAG_LFG \<noteq> 0 then CHANNEL_FLAG_LFG
                 else CHANNEL_FLAG_NOT_LFG),
           m_static = False, m_realmzone = True, m_channelId = ChannelID e,
           m_password = [], m_ownerGuid = 0, m_banned = {}, m_players = []\<rparr>
      | None \<Rightarrow>
          \<lparr>m_announce = True, m_moderate = False, m_name = name,
           m_flags = CHANNEL_FLAG_CUSTOM,
           m_static = False, m_realmzone = CheckPublicMessageLanguage w name, m_channelId = 0,
           m_password = [], m_ownerGuid = 0, m_banned = {}, m_players = []\<rparr>)"


section \<open>The command surface\<close>

text \<open>
  Every command takes the world it consults and the channel, and returns the channel it
  leaves behind together with the packets it handed to sessions, in order. The calls
  \<open>player->JoinedChannel(this)\<close> and \<open>LeftChannel(this)\<close> update the player's own channel
  list, which is no part of the channel, and are left out. \<open>strcmp\<close> on two C strings is
  non-zero exactly when they differ.
\<close>

definition announces :: "World \<Rightarrow> Player \<Rightarrow> Channel \<Rightarrow> bool" where
  "announces w plr c =
     (m_announce c \<and>
      (sec_level (GetSecurity plr) < sec_level SEC_GAMEMASTER
       \<or> \<not> CONFIG_BOOL_CHANNEL_GM_JOIN_SILENTLY w))"

definition Join :: "World \<Rightarrow> Player \<Rightarrow> string \<Rightarrow> Channel \<Rightarrow> Channel \<times> Sent" where
  "Join w plr password c =
     (let guid = GetObjectGuid plr in
      if IsOn c guid then
        (if \<not> IsConstant c
         then (c, SendToOne w (MakePlayerAlreadyMember (m_name c) guid) guid)
         else (c, []))
      else if IsBanned c guid then (c, SendToOne w (MakeBanned (m_name c)) guid)
      else if length (m_password c) > 0 \<and> password \<noteq> m_password c
        then (c, SendToOne w (MakeWrongPassword (m_name c)) guid)
      else if GetGuildId plr \<noteq> 0 \<and> GetFlags c = 0x38 then (c, [])
      else
        (let out1 = (if announces w plr c then SendToAll w c (MakeJoined (m_name c) guid) else []);
             c1 = modify_player (\<lambda>pinfo. pinfo\<lparr>player := guid, flags := MEMBER_FLAG_NONE\<rparr>) guid c;
             out2 = SendToOne w (MakeYouJoined (m_name c1) c1) guid;
             (c2, out3) =
               (if \<not> IsPublic c1 \<and> m_ownerGuid c1 = 0
                then SetOwner w guid (length (m_players c1) > 1) c1
                else (c1, []));
             (c3, out4, r) = SetStatic w True False c2
         in (c3, out1 @ out2 @ out3 @ out4)))"

definition Leave :: "World \<Rightarrow> Player \<Rightarrow> bool \<Rightarrow> Channel \<Rightarrow> Channel \<times> Sent" where
  "Leave w plr send c =
     (let guid = GetObjectGuid plr in
      if \<not> IsOn c guid then
        (c, if send then SendToOne w (MakeNotMember (m_name c)) guid else [])
      else
        (let out1 = (if send then SendToOne w (MakeYouLeft (m_name c)) guid else []);
             (c1, pinfo) = index_players c guid;
             changeowner = IsOwner pinfo;
             c2 = c1\<lparr>m_players := players_erase guid (m_players c1)\<rparr>;
             out2 = (if announces w plr c2 then SendToAll w c2 (MakeLeft (m_name c2) guid) else []);
             (c3, out3) =
               (if changeowner \<and> \<not> IsPublic c2
                then SetOwner w (SelectNewOwner c2) (length (m_players c2) > 1) c2
                else (c2, []))
         in (c3, out1 @ out2 @ out3)))"

definition KickOrBan :: "World \<Rightarrow> Player \<Rightarrow> string \<Rightarrow> bool \<Rightarrow> Channel \<Rightarrow> Channel \<times> Sent" where
  "KickOrBan w plr targetName ban c =
     (let guid = GetObjectGuid plr in
      if \<not> IsOn c guid then (c, SendToOne w (MakeNotMember (m_name c)) guid)
      else
        (let (c0, pinfo) = index_players c guid in
         if \<not> IsModerator pinfo \<and> sec_level (GetSecurity plr) < sec_level SEC_GAMEMASTER
         then (c0, SendToOne w (MakeNotModerator (m_name c0)) guid)
         else
           (case GetPlayerByName w targetName of
              None \<Rightarrow> (c0, SendToOne w (MakePlayerNotFound (m_name c0) targetName) guid)
            | Some target \<Rightarrow>
                (let targetGuid = GetObjectGuid target in
                 if \<not> IsOn c0 targetGuid
                 then (c0, SendToOne w (MakePlayerNotFound (m_name c0) targetName) guid)
                 else
                   (let changeowner = (m_ownerGuid c0 = targetGuid) in
                    if sec_level (GetSecurity plr) < sec_level SEC_GAMEMASTER
                       \<and> changeowner \<and> guid \<noteq> m_ownerGuid c0
                    then (c0, SendToOne w (MakeNotOwner (m_name c0)) guid)
                    else
                      (let (c1, data) =
                             (if ban \<and> \<not> IsBanned c0 targetGuid
                              then (c0\<lparr>m_banned := insert targetGuid (m_banned c0)\<rparr>,
                                    MakePlayerBanned (m_name c0) targetGuid guid)
                              else (c0, MakePlayerKicked (m_name c0) targetGuid guid));
                           out1 = SendToAll w c1 data;
                           c2 = c1\<lparr>m_players := players_erase targetGuid (m_players c1)\<rparr>;
                           (c3, out2) =
                             (if changeowner \<and> \<not> IsPublic c2
                              then SetOwner w (SelectNewOwner c2) (length (m_players c2) > 1) c2
                              else (c2, []))
                       in (c3, out1 @ out2)))))))"

definition UnBan :: "World \<Rightarrow> Player \<Rightarrow> string \<Rightarrow> Channel \<Rightarrow> Channel \<times> Sent" where
  "UnBan w plr targetName c =
     (let guid = GetObjectGuid plr in
      if \<not> IsOn c guid then (c, SendToOne w (MakeNotMember (m_name c)) guid)
      else
        (let (c0, pinfo) = index_players c guid in
         if \<not> IsModerator pinfo \<and> sec_level (GetSecurity plr) < sec_level SEC_GAMEMASTER
         then (c0, SendToOne w (MakeNotModerator (m_name c0)) guid)
         else
           (case GetPlayerByName w targetName of
              None \<Rightarrow> (c0, SendToOne w (MakePlayerNotFound (m_name c0) targetName) guid)
            | Some target \<Rightarrow>
                (let targetGuid = GetObjectGuid target in
                 if \<not> IsBanned c0 targetGuid
                 then (c0, SendToOne w (MakePlayerNotBanned (m_name c0) targetName) guid)
                 else
                   (let c1 = c0\<lparr>m_banned := m_banned c0 - {targetGuid}\<rparr>
                    in (c1, SendToAll w c1 (MakePlayerUnbanned (m_name c1) targetGuid guid)))))))"

definition Password :: "World \<Rightarrow> Player \<Rightarrow> string \<Rightarrow> Channel \<Rightarrow> Channel \<times> Sent" where
  "Password w plr password c =
     (let guid = GetObjectGuid plr in
      if \<not> IsOn c guid then (c, SendToOne w (MakeNotMember (m_name c)) guid)
      else
        (let (c0, pinfo) = index_players c guid in
         if \<not> IsModerator pinfo \<and> sec_level (GetSecurity plr) < sec_level SEC_GAMEMASTER
         then (c0, SendToOne w (MakeNotModerator (m_name c0)) guid)
         else
           (let c1 = c0\<lparr>m_password := password\<rparr>
            in (c1, SendToAll w c1 (MakePasswordChanged (m_name c1) guid)))))"

definition SetMode ::
  "World \<Rightarrow> Player \<Rightarrow> string \<Rightarrow> bool \<Rightarrow> bool \<Rightarrow> Channel \<Rightarrow> Channel \<times> Sent" where
  "SetMode w plr targetName moderator setv c =
     (let guid = GetObjectGuid plr in
      if \<not> IsOn c guid then (c, SendToOne w (MakeNotMember (m_name c)) guid)
      else
        (let (c0, pinfo) = index_players c guid in
         if \<not> IsModerator pinfo \<and> sec_level (GetSecurity plr) < sec_level SEC_GAMEMASTER
         then (c0, SendToOne w (MakeNotModerator (m_name c0)) guid)
         else
           (case GetPlayerByName w targetName of
              None \<Rightarrow> (c0, SendToOne w (MakePlayerNotFound (m_name c0) targetName) guid)
            | Some target \<Rightarrow>
                (let targetGuid = GetObjectGuid target in
                 if moderator \<and> guid = m_ownerGuid c0 \<and> targetGuid = m_ownerGuid c0 then (c0, [])
                 else if \<not> IsOn c0 targetGuid
                 then (c0, SendToOne w (MakePlayerNotFound (m_name c0) targetName) guid)
                 else if (sec_level (GetSecurity plr) < sec_level SEC_GAMEMASTER
                          \<or> sec_level (GetSecurity target) < sec_level SEC_GAMEMASTER)
                         \<and> GetTeam plr \<noteq> GetTeam target
                         \<and> \<not> CONFIG_BOOL_ALLOW_TWO_SIDE_INTERACTION_CHANNEL w
                 then (c0, SendToOne w (MakePlayerNotFound (m_name c0) targetName) guid)
                 else if m_ownerGuid c0 = targetGuid \<and> m_ownerGuid c0 \<noteq> guid
                 then (c0, SendToOne w (MakeNotOwner (m_name c0)) guid)
                 else if moderator then SetModerator w targetGuid setv c0
                 else SetMute w targetGuid setv c0))))"

definition SetOwner_cmd :: "World \<Rightarrow> Player \<Rightarrow> string \<Rightarrow> Channel \<Rightarrow> Channel \<times> Sent" where
  "SetOwner_cmd w plr targetName c =
     (let guid = GetObjectGuid plr in
      if \<not> IsOn c guid then (c, SendToOne w (MakeNotMember (m_name c)) guid)
      else if sec_level (GetSecurity plr) < sec_level SEC_GAMEMASTER \<and> guid \<noteq> m_ownerGuid c
      then (c, SendToOne w (MakeNotOwner (m_name c)) guid)
      else
        (case GetPlayerByName w targetName of
           None \<Rightarrow> (c, SendToOne w (MakePlayerNotFound (m_name c) targetName) guid)
         | Some target \<Rightarrow>
             (let targetGuid = GetObjectGuid target in
              if \<not> IsOn c targetGuid
              then (c, SendToOne w (MakePlayerNotFound (m_name c) targetName) guid)
              else if GetTeam target \<noteq> GetTeam plr
                      \<and> \<not> CONFIG_BOOL_ALLOW_TWO_SIDE_INTERACTION_CHANNEL w
              then (c, SendToOne w (MakePlayerNotFound (m_name c) targetName) guid)
              else SetOwner w targetGuid (length (m_players c) > 1) c)))"

definition Announce :: "World \<Rightarrow> Player \<Rightarrow> Channel \<Rightarrow> Channel \<times> Sent" where
  "Announce w plr c =
     (let guid = GetObjectGuid plr in
      if \<not> IsOn c guid then (c, SendToOne w (MakeNotMember (m_name c)) guid)
      else
        (let (c0, pinfo) = index_players c guid in
         if \<not> IsModerator pinfo \<and> sec_level (GetSecurity plr) < sec_level SEC_GAMEMASTER
         then (c0, SendToOne w (MakeNotModerator (m_name c0)) guid)
         else
           (let c1 = c0\<lparr>m_announce := \<not> m_announce c0\<rparr>;
                data = (if m_announce c1 then MakeAnnouncementsOn (m_name c1) guid
                        else MakeAnnouncementsOff (m_name c1) guid)
            in (c1, SendToAll w c1 data))))"

definition Moderate :: "World \<Rightarrow> Player \<Rightarrow> Channel \<Rightarrow> Channel \<times> Sent" where
  "Moderate w plr c =
     (let guid = GetObjectGuid plr in
      if \<not> IsOn c guid then (c, SendToOne w (MakeNotMember (m_name c)) guid)
      else
        (let (c0, pinfo) = index_players c guid in
         if \<not> IsModerator pinfo \<and> sec_level (GetSecurity plr) < sec_level SEC_GAMEMASTER
         then (c0, SendToOne w (MakeNotModerator (m_name c0)) guid)
         else
           (let c1 = c0\<lparr>m_moderate := \<not> m_moderate c0\<rparr>;
                data = (if m_moderate c1 then MakeModerationOn (m_name c1) guid
                        else MakeModerationOff (m_name c1) guid)
            in (c1, SendToAll w c1 data))))"

text \<open>
  \<open>Say\<close>: a null \<open>text\<close> is \<open>None\<close>. \<open>restricted\<close> is the value the switch on the
  language-restriction mode leaves in the local of that name.
\<close>

definition restricted :: "World \<Rightarrow> Channel \<Rightarrow> bool" where
  "restricted w c =
     (let restriction = CONFIG_UINT32_CHANNEL_RESTRICTED_LANGUAGE_MODE w in
      if restriction = 1 then IsConstant c
      else if restriction = 2 then (IsPublic c \<and> m_realmzone c)
      else if restriction = 3 then True
      else False)"

definition Say :: "World \<Rightarrow> Player \<Rightarrow> string option \<Rightarrow> 32 word \<Rightarrow> Channel \<Rightarrow> Channel \<times> Sent" where
  "Say w plr text lang c =
     (case text of
        None \<Rightarrow> (c, [])
      | Some txt \<Rightarrow>
          (let guid = GetObjectGuid plr in
           if \<not> IsOn c guid then (c, SendToOne w (MakeNotMember (m_name c)) guid)
           else
             (let (c0, pinfo) = index_players c guid in
              if IsMuted pinfo
                 \<or> (GetChannelId c0 = CHANNEL_ID_LOCAL_DEFENSE
                     \<and> visualRank plr < SPEAK_IN_LOCALDEFENSE_RANK w)
                 \<or> (GetChannelId c0 = CHANNEL_ID_WORLD_DEFENSE
                     \<and> visualRank plr < SPEAK_IN_WORLDDEFENSE_RANK w)
              then (c0, SendToOne w (MakeMuted (m_name c0)) guid)
              else
                (let (c1, pinfo1) = index_players c0 guid;
                     moderator = IsModerator pinfo1 in
                 if m_moderate c1 \<and> \<not> moderator
                    \<and> sec_level (GetSecurity plr) < sec_level SEC_GAMEMASTER
                 then (c1, SendToOne w (MakeNotModerator (m_name c1)) guid)
                 else if CONFIG_UINT32_CHANNEL_RESTRICTED_LANGUAGE_MODE w \<noteq> 0
                         \<and> restricted w c1 \<and> \<not> CheckPublicMessageLanguage w txt
                 then (c1, SendToOne w (MakeMuted (m_name c1)) guid)
                 else
                   (let lang1 = (if CONFIG_BOOL_ALLOW_TWO_SIDE_INTERACTION_CHANNEL w
                                 then LANG_UNIVERSAL else lang);
                        data = CHAT_MSG_CHANNEL txt lang1 guid (GetName plr) (m_name c1) (rank plr)
                    in (c1, SendMessage w c1 data (if moderator then 0 else guid)))))))"

definition Invite :: "World \<Rightarrow> Player \<Rightarrow> string \<Rightarrow> Channel \<Rightarrow> Channel \<times> Sent" where
  "Invite w plr targetName c =
     (let guid = GetObjectGuid plr in
      if \<not> IsOn c guid then (c, SendToOne w (MakeNotMember (m_name c)) guid)
      else
        (case GetPlayerByName w targetName of
           None \<Rightarrow> (c, SendToOne w (MakePlayerNotFound (m_name c) targetName) guid)
         | Some target \<Rightarrow>
             (let targetGuid = GetObjectGuid target in
              if IsOn c targetGuid
              then (c, SendToOne w (MakePlayerAlreadyMember (m_name c) targetGuid) guid)
              else if IsBanned c targetGuid
              then (c, SendToOne w (MakePlayerInviteBanned (m_name c) targetName) guid)
              else if GetTeam target \<noteq> GetTeam plr
                      \<and> \<not> CONFIG_BOOL_ALLOW_TWO_SIDE_INTERACTION_CHANNEL w
              then (c, SendToOne w (MakeInviteWrongFaction (m_name c)) guid)
              else
                (c, (if \<not> HasIgnore target guid
                     then SendToOne w (MakeInvite (m_name c) guid) targetGuid else [])
                    @ SendToOne w (MakePlayerInvited (m_name c) targetName) guid))))"

definition SendWhoOwner :: "World \<Rightarrow> Player \<Rightarrow> Channel \<Rightarrow> Sent" where
  "SendWhoOwner w plr c =
     (let guid = GetObjectGuid plr in
      if \<not> IsOn c guid then SendToOne w (MakeNotMember (m_name c)) guid
      else SendToOne w (MakeChannelOwner w (m_name c) guid) guid)"

definition List :: "World \<Rightarrow> Player \<Rightarrow> Channel \<Rightarrow> Sent" where
  "List w plr c =
     (let guid = GetObjectGuid plr in
      if \<not> IsOn c guid then SendToOne w (MakeNotMember (m_name c)) guid
      else
        (let visibilityCheck = (GetSecurity plr = SEC_PLAYER);
             visibilityThreshold = unat (CONFIG_UINT32_GM_LEVEL_IN_WHO_LIST w);
             shown = concat (map (\<lambda>i.
               (case GetPlayer w (fst i) of
                  None \<Rightarrow> []
                | Some member \<Rightarrow>
                    if visibilityCheck
                       \<and> (sec_level (GetSecurity member) > visibilityThreshold
                           \<or> \<not> IsVisibleGloballyFor w member plr)
                    then [] else [(fst i, flags (snd i))])) (m_players c))
         in SendToOne w (SMSG_CHANNEL_LIST (m_name c) (GetFlags c) shown) guid))"

section \<open>Sequences of commands\<close>

datatype command =
    CmdJoin Player string
  | CmdLeave Player bool
  | CmdKickOrBan Player string bool
  | CmdUnBan Player string
  | CmdPassword Player string
  | CmdSetMode Player string bool bool
  | CmdSetOwner Player string
  | CmdSendWhoOwner Player
  | CmdList Player
  | CmdAnnounce Player
  | CmdModerate Player
  | CmdSay Player "string option" "32 word"
  | CmdInvite Player string
  | CmdSetStatic bool bool

fun exec :: "World \<Rightarrow> command \<Rightarrow> Channel \<Rightarrow> Channel \<times> Sent" where
  "exec w (CmdJoin plr password) c = Join w plr password c"
| "exec w (CmdLeave plr send) c = Leave w plr send c"
| "exec w (CmdKickOrBan plr targetName ban) c = KickOrBan w plr targetName ban c"
| "exec w (CmdUnBan plr targetName) c = UnBan w plr targetName c"
| "exec w (CmdPassword plr password) c = Password w plr password c"
| "exec w (CmdSetMode plr targetName moderator setv) c = SetMode w plr targetName moderator setv c"
| "exec w (CmdSetOwner plr targetName) c = SetOwner_cmd w plr targetName c"
| "exec w (CmdSendWhoOwner plr) c = (c, SendWhoOwner w plr c)"
| "exec w (CmdList plr) c = (c, List w plr c)"
| "exec w (CmdAnnounce plr) c = Announce w plr c"
| "exec w (CmdModerate plr) c = Moderate w plr c"
| "exec w (CmdSay plr text lang) c = Say w plr text lang c"
| "exec w (CmdInvite plr targetName) c = Invite w plr targetName c"
| "exec w (CmdSetStatic state command) c = (case SetStatic w state command c of (c1, out1, r) \<Rightarrow> (c1, out1))"

text \<open>
  A run is a list of commands, each issued in the world as it is at that moment (players
  log in and out, security levels and configuration change between commands).
\<close>

fun run :: "(World \<times> command) list \<Rightarrow> Channel \<Rightarrow> Channel" where
  "run [] c = c"
| "run ((w, cmd) # rest) c = run rest (fst (exec w cmd c))"


section \<open>Predicates on channel states\<close>

text \<open>
  The identities in the member table, and the table being well formed: every entry carries
  its own key in its \<open>player\<close> field, as \<open>Join\<close> writes it.
\<close>

definition members :: "Channel \<Rightarrow> ObjectGuid set" where
  "members c = fst ` set (m_players c)"

definition table_wf :: "Channel \<Rightarrow> bool" where
  "table_wf c = (\<forall>e \<in> set (m_players c). player (snd e) = fst e)"

text \<open>
  The owner invariant of spec section 8: a non-empty \<open>m_ownerGuid\<close> is a key of the member
  table, and the entry under it has the moderator and the owner bit.
\<close>

definition owner_ok :: "Channel \<Rightarrow> bool" where
  "owner_ok c =
     (m_ownerGuid c \<noteq> 0 \<longrightarrow>
        m_ownerGuid c \<in> members c \<and>
        (\<forall>e \<in> set (m_players c). fst e = m_ownerGuid c \<longrightarrow> IsModerator (snd e) \<and> IsOwner (snd e)))"

text \<open>A public channel (built-in or static) has no owner.\<close>

definition public_ownerless :: "Channel \<Rightarrow> bool" where
  "public_ownerless c = (IsPublic c \<longrightarrow> m_ownerGuid c = 0)"

text \<open>No banned identity is a member.\<close>

definition ban_disjoint :: "Channel \<Rightarrow> bool" where
  "ban_disjoint c = (m_banned c \<inter> members c = {})"

text \<open>
  A \<open>SetOwner\<close> command on a public channel passes its authority check only for an actor of
  game-master security or above (or one with an empty guid, which no player has). A run is
  \<open>admissible\<close> when it contains no such command.
\<close>

fun cmd_ok :: "command \<Rightarrow> Channel \<Rightarrow> bool" where
  "cmd_ok (CmdSetOwner plr targetName) c =
     (IsPublic c \<longrightarrow>
        GetObjectGuid plr \<noteq> 0 \<and> sec_level (GetSecurity plr) < sec_level SEC_GAMEMASTER)"
| "cmd_ok cmd c = True"

fun admissible :: "(World \<times> command) list \<Rightarrow> Channel \<Rightarrow> bool" where
  "admissible [] c = True"
| "admissible ((w, cmd) # rest) c = (cmd_ok cmd c \<and> admissible rest (fst (exec w cmd c)))"

section \<open>A concrete world\<close>

text \<open>
  Four players of one faction, all online: Alice, Bob and Carol with player security, and
  Gm with game-master security. Carol has Alice and Bob on her ignore list. The auto-static
  threshold is off and no language restriction is configured.
\<close>

definition alice :: Player where
  "alice = \<lparr>GetObjectGuid = 1, GetName = ''Alice'', GetSecurity = SEC_PLAYER, GetTeam = 0,
     GetGuildId = 0, visualRank = 0, rank = 0, GetChatTag = [], HasIgnore = (\<lambda>g. False)\<rparr>"

definition bob :: Player where
  "bob = \<lparr>GetObjectGuid = 2, GetName = ''Bob'', GetSecurity = SEC_PLAYER, GetTeam = 0,
     GetGuildId = 0, visualRank = 0, rank = 0, GetChatTag = [], HasIgnore = (\<lambda>g. False)\<rparr>"

definition carol :: Player where
  "carol = \<lparr>GetObjectGuid = 3, GetName = ''Carol'', GetSecurity = SEC_PLAYER, GetTeam = 0,
     GetGuildId = 0, visualRank = 0, rank = 0, GetChatTag = [],
     HasIgnore = (\<lambda>g. g = 1 \<or> g = 2)\<rparr>"

definition gm :: Player where
  "gm = \<lparr>GetObjectGuid = 4, GetName = ''Gm'', GetSecurity = SEC_GAMEMASTER, GetTeam = 0,
     GetGuildId = 0, visualRank = 0, rank = 0, GetChatTag = [], HasIgnore = (\<lambda>g. False)\<rparr>"

definition world0 :: World where
  "world0 =
     \<lparr>GetPlayer = (\<lambda>g. if g = 1 then Some alice else if g = 2 then Some bob
                        else if g = 3 then Some carol else if g = 4 then Some gm else None),
      GetPlayerByName = (\<lambda>n. if n = ''Alice'' then Some alice else if n = ''Bob'' then Some bob
                        else if n = ''Carol'' then Some carol else if n = ''Gm'' then Some gm
                        else None),
      GetPlayerNameByGUID = (\<lambda>g. if g = 1 then Some ''Alice'' else if g = 2 then Some ''Bob''
                        else if g = 3 then Some ''Carol'' else if g = 4 then Some ''Gm'' else None),
      CheckPublicMessageLanguage = (\<lambda>t. True),
      IsVisibleGloballyFor = (\<lambda>a b. True),
      CONFIG_BOOL_CHANNEL_GM_JOIN_SILENTLY = False,
      CONFIG_BOOL_ALLOW_TWO_SIDE_INTERACTION_CHANNEL = False,
      CONFIG_UINT32_CHANNEL_RESTRICTED_LANGUAGE_MODE = 0,
      CONFIG_UINT32_CHANNEL_STATIC_AUTO_TRESHOLD = 0,
      CONFIG_UINT32_GM_LEVEL_IN_WHO_LIST = 0,
      SPEAK_IN_LOCALDEFENSE_RANK = 0,
      SPEAK_IN_WORLDDEFENSE_RANK = 0\<rparr>"

text \<open>The built-in channel "General" of the channel catalog, and a custom channel.\<close>

definition general_channel :: Channel where
  "general_channel = Channel_new world0 (Some \<lparr>ChannelID = 1, dbc_flags = 0\<rparr>) ''General''"

definition test_channel :: Channel where
  "test_channel = Channel_new world0 None ''test''"

text \<open>The same world with language-restriction mode 3 and a filter that rejects every text.\<close>

definition world_strict :: World where
  "world_strict = world0\<lparr>CheckPublicMessageLanguage := (\<lambda>t. False),
                         CONFIG_UINT32_CHANNEL_RESTRICTED_LANGUAGE_MODE := 3\<rparr>"

section \<open>Role bits and the member table\<close>



lemma IsModerator_bit: "IsModerator p = bit (flags p) 1"
  using and_exp_eq_0_iff_not_bit[of "flags p" 1]
  by (simp add: IsModerator_def MEMBER_FLAG_MODERATOR_def)

lemma IsOwner_bit: "IsOwner p = bit (flags p) 0"
  using and_exp_eq_0_iff_not_bit[of "flags p" 0]
  by (simp add: IsOwner_def MEMBER_FLAG_OWNER_def)

lemma IsMuted_bit: "IsMuted p = bit (flags p) 3"
  using and_exp_eq_0_iff_not_bit[of "flags p" 3]
  by (simp add: IsMuted_def MEMBER_FLAG_MUTED_def)

lemma IsModerator_SetModerator [simp]: "IsModerator (PlayerInfo_SetModerator b p) = b"
  by (simp add: IsModerator_bit PlayerInfo_SetModerator_def MEMBER_FLAG_MODERATOR_def bit_simps)

lemma IsOwner_SetModerator [simp]: "IsOwner (PlayerInfo_SetModerator b p) = IsOwner p"
  by (simp add: IsOwner_bit PlayerInfo_SetModerator_def MEMBER_FLAG_MODERATOR_def bit_simps)

lemma IsModerator_SetOwner [simp]: "IsModerator (PlayerInfo_SetOwner b p) = IsModerator p"
  by (simp add: IsModerator_bit PlayerInfo_SetOwner_def MEMBER_FLAG_OWNER_def bit_simps)

lemma IsOwner_SetOwner [simp]: "IsOwner (PlayerInfo_SetOwner b p) = b"
  by (simp add: IsOwner_bit PlayerInfo_SetOwner_def MEMBER_FLAG_OWNER_def bit_simps)

lemma IsModerator_SetMuted [simp]: "IsModerator (PlayerInfo_SetMuted b p) = IsModerator p"
  by (simp add: IsModerator_bit PlayerInfo_SetMuted_def MEMBER_FLAG_MUTED_def bit_simps)

lemma IsOwner_SetMuted [simp]: "IsOwner (PlayerInfo_SetMuted b p) = IsOwner p"
  by (simp add: IsOwner_bit PlayerInfo_SetMuted_def MEMBER_FLAG_MUTED_def bit_simps)

lemma IsMuted_SetMuted [simp]: "IsMuted (PlayerInfo_SetMuted b p) = b"
  by (simp add: IsMuted_bit PlayerInfo_SetMuted_def MEMBER_FLAG_MUTED_def bit_simps)

lemma player_SetModerator [simp]: "player (PlayerInfo_SetModerator b p) = player p"
  by (simp add: PlayerInfo_SetModerator_def)

lemma player_SetOwner [simp]: "player (PlayerInfo_SetOwner b p) = player p"
  by (simp add: PlayerInfo_SetOwner_def)

lemma player_SetMuted [simp]: "player (PlayerInfo_SetMuted b p) = player p"
  by (simp add: PlayerInfo_SetMuted_def)

lemma SetModerator_False_id: "\<not> IsModerator p \<Longrightarrow> PlayerInfo_SetModerator False p = p"
proof -
  assume a: "\<not> IsModerator p"
  have g: "\<And>(x::8 word) n. \<not> bit x n \<Longrightarrow> x AND NOT (2 ^ n) = x"
    by (rule bit_eqI) (auto simp add: bit_and_iff bit_not_iff bit_exp_iff)
  have "flags p AND NOT MEMBER_FLAG_MODERATOR = flags p"
    using a g[of "flags p" 1] by (simp add: IsModerator_bit MEMBER_FLAG_MODERATOR_def)
  then show ?thesis by (simp add: PlayerInfo_SetModerator_def)
qed


lemma IsOn_members: "IsOn c g = (g \<in> members c)"
  by (simp add: IsOn_def members_def players_find_def map_of_eq_None_iff)

lemma set_players_insert [simp]: "set (players_insert g v pl) = insert (g, v) (set pl)"
  by (induction g v pl rule: players_insert.induct) auto

lemma set_players_erase [simp]: "set (players_erase g pl) = {e \<in> set pl. fst e \<noteq> g}"
  by (auto simp: players_erase_def)

lemma map_fst_players_apply [simp]: "map fst (players_apply f g pl) = map fst pl"
  by (induction pl) (auto simp: players_apply_def)

lemma set_players_apply:
  "set (players_apply f g pl) = (\<lambda>e. if fst e = g then (fst e, f (snd e)) else e) ` set pl"
  by (simp add: players_apply_def)

lemma players_index_present: "players_find pl g = Some p \<Longrightarrow> players_index pl g = pl"
  by (simp add: players_index_def)

lemma players_index_member: "g \<in> fst ` set pl \<Longrightarrow> players_index pl g = pl"
  by (auto simp: players_index_def players_find_def map_of_eq_None_iff split: option.splits)

lemma set_players_index:
  "set (players_index pl g) =
     (if g \<in> fst ` set pl then set pl else insert (g, \<lparr>player = 0, flags = 0\<rparr>) (set pl))"
proof (cases "map_of pl g")
  case None
  then have "g \<notin> fst ` set pl" by (simp add: map_of_eq_None_iff)
  with None show ?thesis by (simp add: players_index_def players_find_def)
next
  case (Some a)
  then have "g \<in> fst ` set pl" by (metis map_of_eq_None_iff option.distinct(1))
  with Some show ?thesis by (simp add: players_index_def players_find_def)
qed

lemma index_players_IsOn: "IsOn c g \<Longrightarrow> index_players c g = (c, players_get (m_players c) g)"
  by (simp add: index_players_def IsOn_members members_def players_index_member)

lemma players_find_in_set: "players_find pl g = Some p \<Longrightarrow> (g, p) \<in> set pl"
  by (simp add: players_find_def map_of_SomeD)

lemma players_get_in_set: "g \<in> fst ` set pl \<Longrightarrow> (g, players_get pl g) \<in> set pl"
  by (auto simp: players_get_def players_find_def map_of_eq_None_iff dest: map_of_SomeD split: option.splits)

lemma members_modify_player: "members (modify_player f g c) = insert g (members c)"
proof -
  have "members (modify_player f g c) = set (map fst (players_apply f g (players_index (m_players c) g)))"
    by (simp add: members_def modify_player_def del: map_fst_players_apply)
  also have "\<dots> = fst ` set (players_index (m_players c) g)" by simp
  also have "\<dots> = insert g (members c)"
    by (auto simp: set_players_index members_def)
  finally show ?thesis .
qed

lemma set_modify_player_member:
  "g \<in> members c \<Longrightarrow>
   set (m_players (modify_player f g c)) =
     (\<lambda>e. if fst e = g then (fst e, f (snd e)) else e) ` set (m_players c)"
  by (simp add: members_def modify_player_def set_players_apply players_index_member)

lemma modify_player_member:
  "g \<in> members c \<Longrightarrow> modify_player f g c = c\<lparr>m_players := players_apply f g (m_players c)\<rparr>"
  by (simp add: members_def modify_player_def players_index_member)

text \<open>SetOwner to a member or to nobody.\<close>

lemma first_moderator_in: "first_moderator pl = Some g \<Longrightarrow> \<exists>e \<in> set pl. g = player (snd e) \<and> IsModerator (snd e)"
  by (induction pl) (auto split: if_splits)

lemma SelectNewOwner_member:
  "table_wf c \<Longrightarrow> SelectNewOwner c = 0 \<or> SelectNewOwner c \<in> members c"
  by (auto simp: SelectNewOwner_def table_wf_def members_def image_iff
      dest!: first_moderator_in split: option.splits list.splits) 

lemma SetOwner_state:
  "fst (SetOwner w guid ex c) =
     (let c1 = (case players_find (m_players c) (m_ownerGuid c) of
                  Some p \<Rightarrow> if m_ownerGuid c \<noteq> 0 then
                     c\<lparr>m_players := players_apply
                         (\<lambda>x. PlayerInfo_SetOwner False (PlayerInfo_SetModerator (guid \<noteq> 0) p))
                         (m_ownerGuid c) (m_players c)\<rparr> else c
                | None \<Rightarrow> c);
          c2 = c1\<lparr>m_ownerGuid := guid\<rparr>
      in if guid \<noteq> 0
         then modify_player (PlayerInfo_SetOwner True) guid
                (modify_player (PlayerInfo_SetModerator True) guid c2)
         else c2)"
  by (simp add: SetOwner_def Let_def modify_player_def split: option.splits prod.splits)

lemma keys_players_apply [simp]: "fst ` set (players_apply f g pl) = fst ` set pl"
proof -
  have "fst ` set (players_apply f g pl) = set (map fst (players_apply f g pl))"
    by (simp del: map_fst_players_apply)
  then show ?thesis by simp
qed

lemma members_apply [simp]:
  "members (c\<lparr>m_players := players_apply f g (m_players c)\<rparr>) = members c"
  by (simp add: members_def)

lemma members_owner_update [simp]: "members (c\<lparr>m_ownerGuid := g\<rparr>) = members c"
  by (simp add: members_def)

lemma table_wf_owner_update [simp]: "table_wf (c\<lparr>m_ownerGuid := g\<rparr>) = table_wf c"
  by (simp add: table_wf_def)

lemma SetOwner_frame:
  "m_banned (fst (SetOwner w guid ex c)) = m_banned c"
  "m_static (fst (SetOwner w guid ex c)) = m_static c"
  "m_channelId (fst (SetOwner w guid ex c)) = m_channelId c"
  "m_password (fst (SetOwner w guid ex c)) = m_password c"
  "m_announce (fst (SetOwner w guid ex c)) = m_announce c"
  "m_moderate (fst (SetOwner w guid ex c)) = m_moderate c"
  "m_flags (fst (SetOwner w guid ex c)) = m_flags c"
  "m_name (fst (SetOwner w guid ex c)) = m_name c"
  "m_realmzone (fst (SetOwner w guid ex c)) = m_realmzone c"
  "m_ownerGuid (fst (SetOwner w guid ex c)) = guid"
  by (simp_all add: SetOwner_state Let_def modify_player_def split: option.splits)

lemma SetOwner_players:
  assumes "guid = 0 \<or> guid \<in> members c"
  shows "m_players (fst (SetOwner w guid ex c)) =
     (let pl1 = (case players_find (m_players c) (m_ownerGuid c) of
                  Some p \<Rightarrow>
                    if m_ownerGuid c \<noteq> 0
                    then players_apply
                           (\<lambda>x. PlayerInfo_SetOwner False (PlayerInfo_SetModerator (guid \<noteq> 0) p))
                           (m_ownerGuid c) (m_players c)
                    else m_players c
                | None \<Rightarrow> m_players c)
      in if guid \<noteq> 0
         then players_apply (PlayerInfo_SetOwner True) guid
                (players_apply (PlayerInfo_SetModerator True) guid pl1)
         else pl1)"
proof (cases "guid = 0")
  case True
  then show ?thesis by (simp add: SetOwner_state Let_def split: option.splits)
next
  case False
  with assms have "guid \<in> fst ` set (m_players c)" by (simp add: members_def)
  then show ?thesis using False
    by (simp add: SetOwner_state Let_def modify_player_def players_index_member
        split: option.splits)
qed

lemma SetOwner_keys:
  assumes "guid = 0 \<or> guid \<in> members c"
  shows "map fst (m_players (fst (SetOwner w guid ex c))) = map fst (m_players c)"
  by (simp add: SetOwner_players[OF assms] Let_def split: option.splits)

lemma SetOwner_members:
  assumes "guid = 0 \<or> guid \<in> members c"
  shows "members (fst (SetOwner w guid ex c)) = members c"
  by (simp add: members_def SetOwner_players[OF assms] Let_def split: option.splits)

lemma SetOwner_wf:
  assumes wf: "table_wf c" and g: "guid = 0 \<or> guid \<in> members c"
  shows "table_wf (fst (SetOwner w guid ex c))"
proof -
  have "\<And>p. players_find (m_players c) (m_ownerGuid c) = Some p \<Longrightarrow> player p = m_ownerGuid c"
    using wf by (auto simp: table_wf_def dest!: players_find_in_set)
  then show ?thesis using wf
    by (auto simp add: table_wf_def SetOwner_players[OF g] Let_def set_players_apply
        split: option.splits)
qed

lemma SetOwner_owner_ok:
  assumes g: "guid = 0 \<or> guid \<in> members c"
  shows "owner_ok (fst (SetOwner w guid ex c))"
proof (cases "guid = 0")
  case True
  then show ?thesis by (simp add: owner_ok_def SetOwner_frame)
next
  case False
  let ?c' = "fst (SetOwner w guid ex c)"
  have o: "m_ownerGuid ?c' = guid" by (simp add: SetOwner_frame)
  have m: "guid \<in> members ?c'" using g False by (simp add: SetOwner_members)
  have "\<forall>e \<in> set (m_players ?c'). fst e = guid \<longrightarrow> IsModerator (snd e) \<and> IsOwner (snd e)"
    using False
    by (auto simp add: SetOwner_players[OF g] Let_def set_players_apply split: option.splits)
  then show ?thesis using o m False by (simp add: owner_ok_def)
qed

lemma SetModerator_frame:
  "m_banned (fst (SetModerator w g b c)) = m_banned c"
  "m_static (fst (SetModerator w g b c)) = m_static c"
  "m_channelId (fst (SetModerator w g b c)) = m_channelId c"
  "m_password (fst (SetModerator w g b c)) = m_password c"
  "m_announce (fst (SetModerator w g b c)) = m_announce c"
  "m_moderate (fst (SetModerator w g b c)) = m_moderate c"
  "m_flags (fst (SetModerator w g b c)) = m_flags c"
  "m_name (fst (SetModerator w g b c)) = m_name c"
  "m_realmzone (fst (SetModerator w g b c)) = m_realmzone c"
  "m_ownerGuid (fst (SetModerator w g b c)) = m_ownerGuid c"
  by (simp_all add: SetModerator_def Let_def split: option.splits)

lemma SetMute_frame:
  "m_banned (fst (SetMute w g b c)) = m_banned c"
  "m_static (fst (SetMute w g b c)) = m_static c"
  "m_channelId (fst (SetMute w g b c)) = m_channelId c"
  "m_password (fst (SetMute w g b c)) = m_password c"
  "m_announce (fst (SetMute w g b c)) = m_announce c"
  "m_moderate (fst (SetMute w g b c)) = m_moderate c"
  "m_flags (fst (SetMute w g b c)) = m_flags c"
  "m_name (fst (SetMute w g b c)) = m_name c"
  "m_realmzone (fst (SetMute w g b c)) = m_realmzone c"
  "m_ownerGuid (fst (SetMute w g b c)) = m_ownerGuid c"
  by (simp_all add: SetMute_def Let_def split: option.splits)

lemma SetModerator_players:
  "m_players (fst (SetModerator w g b c)) =
     (case players_find (m_players c) g of
        None \<Rightarrow> m_players c
      | Some p \<Rightarrow> if IsModerator p \<noteq> b
                  then players_apply (PlayerInfo_SetModerator b) g (m_players c)
                  else m_players c)"
  by (simp add: SetModerator_def Let_def split: option.splits)

lemma SetMute_players:
  "m_players (fst (SetMute w g b c)) =
     (case players_find (m_players c) g of
        None \<Rightarrow> m_players c
      | Some p \<Rightarrow> if IsMuted p \<noteq> b
                  then players_apply (PlayerInfo_SetMuted b) g (m_players c)
                  else m_players c)"
  by (simp add: SetMute_def Let_def split: option.splits)

lemma SetModerator_state:
  "fst (SetModerator w g b c) = c\<lparr>m_players := m_players (fst (SetModerator w g b c))\<rparr>"
  by (simp add: SetModerator_def Let_def split: option.splits)

lemma players_find_distinct:
  "distinct (map fst pl) \<Longrightarrow> (k, p) \<in> set pl \<Longrightarrow> players_find pl k = Some p"
  by (simp add: players_find_def)

text \<open>The stripping loop in closed form, on a well-formed table with distinct keys.\<close>

lemma strip_moderators_state:
  "table_wf c \<Longrightarrow> distinct (map fst (m_players c)) \<Longrightarrow>
   fst (strip_moderators w ks c) =
     c\<lparr>m_players := map (\<lambda>e. if fst e \<in> set ks
                               then (fst e, PlayerInfo_SetModerator False (snd e)) else e)
                         (m_players c)\<rparr>"
proof (induction ks arbitrary: c)
  case Nil
  then show ?case by simp
next
  case (Cons k ks)
  show ?case
  proof (cases "players_find (m_players c) k")
    case None
    then have "k \<notin> fst ` set (m_players c)"
      by (simp add: players_find_def map_of_eq_None_iff)
    then have "map (\<lambda>e. if fst e \<in> set (k # ks)
                               then (fst e, PlayerInfo_SetModerator False (snd e)) else e)
                         (m_players c)
             = map (\<lambda>e. if fst e \<in> set ks
                               then (fst e, PlayerInfo_SetModerator False (snd e)) else e)
                         (m_players c)"
      by (intro map_cong) (auto simp: image_iff)
    then show ?thesis using None Cons by simp
  next
    case (Some i)
    then have iin: "(k, i) \<in> set (m_players c)" by (rule players_find_in_set)
    have only: "\<And>e. e \<in> set (m_players c) \<Longrightarrow> fst e = k \<Longrightarrow> snd e = i"
    proof -
      fix e assume e: "e \<in> set (m_players c)" "fst e = k"
      then have "(k, snd e) \<in> set (m_players c)" by (metis prod.collapse)
      then have "players_find (m_players c) k = Some (snd e)"
        using Cons.prems(2) by (rule players_find_distinct[rotated])
      then show "snd e = i" using Some by simp
    qed
    show ?thesis
    proof (cases "IsModerator i")
      case False
      have "map (\<lambda>e. if fst e \<in> set (k # ks)
                               then (fst e, PlayerInfo_SetModerator False (snd e)) else e)
                         (m_players c)
             = map (\<lambda>e. if fst e \<in> set ks
                               then (fst e, PlayerInfo_SetModerator False (snd e)) else e)
                         (m_players c)"
        using only False by (intro map_cong) (auto simp: SetModerator_False_id)
      then show ?thesis using Some False Cons by simp
    next
      case True
      have pk: "player i = k" using Cons.prems(1) iin by (auto simp: table_wf_def)
      let ?c1 = "c\<lparr>m_players := players_apply (PlayerInfo_SetModerator False) k (m_players c)\<rparr>"
      have c1: "fst (SetModerator w k False c) = ?c1"
        using Some True by (simp add: SetModerator_def Let_def)
      have wf1: "table_wf ?c1" using Cons.prems(1) by (auto simp: table_wf_def set_players_apply)
      have d1: "distinct (map fst (m_players ?c1))" using Cons.prems(2) by simp
      have idem: "\<And>p. PlayerInfo_SetModerator False (PlayerInfo_SetModerator False p)
                        = PlayerInfo_SetModerator False p"
        by (simp add: SetModerator_False_id)
      have "map (\<lambda>e. if fst e \<in> set ks
                               then (fst e, PlayerInfo_SetModerator False (snd e)) else e)
                (players_apply (PlayerInfo_SetModerator False) k (m_players c))
           = map (\<lambda>e. if fst e \<in> set (k # ks)
                               then (fst e, PlayerInfo_SetModerator False (snd e)) else e)
                         (m_players c)"
        by (auto simp: players_apply_def idem)
      then have "fst (strip_moderators w ks ?c1) =
         c\<lparr>m_players := map (\<lambda>e. if fst e \<in> set (k # ks)
                               then (fst e, PlayerInfo_SetModerator False (snd e)) else e)
                         (m_players c)\<rparr>"
        using Cons.IH[OF wf1 d1] by simp
      then show ?thesis using Some True pk c1
        by (simp add: split_beta)
    qed
  qed
qed

lemma strip_all_state:
  assumes "table_wf c" "distinct (map fst (m_players c))"
  shows "fst (strip_moderators w (map fst (m_players c)) c) =
     c\<lparr>m_players := map (\<lambda>e. (fst e, PlayerInfo_SetModerator False (snd e))) (m_players c)\<rparr>"
proof -
  have "map (\<lambda>e. if fst e \<in> set (map fst (m_players c))
                               then (fst e, PlayerInfo_SetModerator False (snd e)) else e)
                         (m_players c)
        = map (\<lambda>e. (fst e, PlayerInfo_SetModerator False (snd e))) (m_players c)"
    by (intro map_cong) auto
  then show ?thesis using strip_moderators_state[OF assms, of w "map fst (m_players c)"] by simp
qed

text \<open>Without assumptions: the loop touches nothing but role bits.\<close>

lemma strip_moderators_frame:
  "m_banned (fst (strip_moderators w ks c)) = m_banned c \<and>
   m_static (fst (strip_moderators w ks c)) = m_static c \<and>
   m_channelId (fst (strip_moderators w ks c)) = m_channelId c \<and>
   m_password (fst (strip_moderators w ks c)) = m_password c \<and>
   m_announce (fst (strip_moderators w ks c)) = m_announce c \<and>
   m_moderate (fst (strip_moderators w ks c)) = m_moderate c \<and>
   m_flags (fst (strip_moderators w ks c)) = m_flags c \<and>
   m_name (fst (strip_moderators w ks c)) = m_name c \<and>
   m_realmzone (fst (strip_moderators w ks c)) = m_realmzone c \<and>
   m_ownerGuid (fst (strip_moderators w ks c)) = m_ownerGuid c \<and>
   map fst (m_players (fst (strip_moderators w ks c))) = map fst (m_players c) \<and>
   (table_wf c \<longrightarrow> table_wf (fst (strip_moderators w ks c)))"
proof (induction ks arbitrary: c)
  case Nil
  then show ?case by simp
next
  case (Cons k ks)
  have wf: "\<And>g. table_wf c \<Longrightarrow> table_wf (fst (SetModerator w g False c))"
    by (auto simp: table_wf_def SetModerator_players set_players_apply split: option.splits)
  have keys: "\<And>g. map fst (m_players (fst (SetModerator w g False c))) = map fst (m_players c)"
    by (simp add: SetModerator_players split: option.splits)
  show ?case
  proof (cases "players_find (m_players c) k")
    case None
    then show ?thesis using Cons[of c] by simp
  next
    case (Some i)
    show ?thesis
    proof (cases "IsModerator i")
      case False
      then show ?thesis using Some Cons[of c] by simp
    next
      case True
      then show ?thesis
        using Some Cons[of "fst (SetModerator w (player i) False c)"] wf keys
        by (simp add: split_beta SetModerator_frame)
    qed
  qed
qed

lemma SendToAll_players:
  "m_players c1 = m_players c2 \<Longrightarrow> SendToAll w c1 d = SendToAll w c2 d"
  by (simp add: SendToAll_def)

lemma SetStatic_blocked:
  "IsConstant c \<or> \<not> HasFlag c CHANNEL_FLAG_CUSTOM \<or> m_static c = state
   \<or> (state \<and> m_password c \<noteq> [])
   \<or> (\<not> command \<and> (CONFIG_UINT32_CHANNEL_STATIC_AUTO_TRESHOLD w = 0
        \<or> state \<noteq> (GetNumPlayers c \<ge> CONFIG_UINT32_CHANNEL_STATIC_AUTO_TRESHOLD w)))
   \<Longrightarrow> SetStatic w state command c = (c, [], False)"
  by (auto simp add: SetStatic_def Let_def)

lemma moderate_off_id: "\<not> m_moderate c \<Longrightarrow> c\<lparr>m_moderate := False\<rparr> = c"
  by (cases c) simp

lemma announce_off_id: "\<not> m_announce c \<Longrightarrow> c\<lparr>m_announce := False\<rparr> = c"
  by (cases c) simp

lemma SetStatic_to_static:
  assumes "\<not> IsConstant c" "HasFlag c CHANNEL_FLAG_CUSTOM" "\<not> m_static c" "m_password c = []"
    "command \<or> (CONFIG_UINT32_CHANNEL_STATIC_AUTO_TRESHOLD w \<noteq> 0
        \<and> GetNumPlayers c \<ge> CONFIG_UINT32_CHANNEL_STATIC_AUTO_TRESHOLD w)"
  shows "SetStatic w True command c =
     (let s = strip_moderators w (map fst (m_players c)) c;
          ow = (if m_ownerGuid c \<noteq> 0 then SetOwner w 0 SetOwner_exclaim_default (fst s)
               else (fst s, []))
      in ((fst ow)\<lparr>m_moderate := False, m_announce := False, m_static := True\<rparr>,
          snd s @ snd ow
            @ (if m_moderate c then SendToAll w (fst ow) (MakeModerationOff (m_name c) 0) else [])
            @ (if m_announce c then SendToAll w (fst ow) (MakeAnnouncementsOff (m_name c) 0) else []),
          True))"
proof -
  note fr = strip_moderators_frame[of w "map fst (m_players c)" c]
  let ?s = "strip_moderators w (map fst (m_players c)) c"
  let ?o = "(if m_ownerGuid c \<noteq> 0 then SetOwner w 0 SetOwner_exclaim_default (fst ?s)
               else (fst ?s, []))"
  have f: "m_moderate (fst ?o) = m_moderate c" "m_announce (fst ?o) = m_announce c"
          "m_name (fst ?o) = m_name c"
    using fr by (simp_all add: SetOwner_frame)
  have go: "\<not> (IsConstant c \<or> \<not> HasFlag c CHANNEL_FLAG_CUSTOM \<or> m_static c = True)"
           "\<not> (True \<and> m_password c \<noteq> [])"
           "\<not> (\<not> command \<and> (CONFIG_UINT32_CHANNEL_STATIC_AUTO_TRESHOLD w = 0
              \<or> True \<noteq> (GetNumPlayers c \<ge> CONFIG_UINT32_CHANNEL_STATIC_AUTO_TRESHOLD w)))"
    using assms by auto
  have "SetStatic w True command c =
      (let c2 = fst ?o;
           c3 = (if m_moderate c2 then c2\<lparr>m_moderate := False\<rparr> else c2);
           out3 = (if m_moderate c2 then SendToAll w (c2\<lparr>m_moderate := False\<rparr>)
                      (MakeModerationOff (m_name c2) 0) else []);
           c4 = (if m_announce c3 then c3\<lparr>m_announce := False\<rparr> else c3);
           out4 = (if m_announce c3 then SendToAll w (c3\<lparr>m_announce := False\<rparr>)
                      (MakeAnnouncementsOff (m_name c3) 0) else [])
       in (c4\<lparr>m_static := True\<rparr>, snd ?s @ snd ?o @ out3 @ out4, True))"
    unfolding SetStatic_def using go fr
    by (simp add: Let_def split_beta)
  also have "\<dots> = ((fst ?o)\<lparr>m_moderate := False, m_announce := False, m_static := True\<rparr>,
          snd ?s @ snd ?o
            @ (if m_moderate c then SendToAll w (fst ?o) (MakeModerationOff (m_name c) 0) else [])
            @ (if m_announce c then SendToAll w (fst ?o) (MakeAnnouncementsOff (m_name c) 0) else []),
          True)"
    using f by (simp add: Let_def moderate_off_id announce_off_id SendToAll_def)
  finally show ?thesis by (simp add: Let_def)
qed

lemma SetStatic_to_dynamic:
  assumes "\<not> IsConstant c" "HasFlag c CHANNEL_FLAG_CUSTOM" "m_static c"
    "command \<or> (CONFIG_UINT32_CHANNEL_STATIC_AUTO_TRESHOLD w \<noteq> 0
        \<and> \<not> GetNumPlayers c \<ge> CONFIG_UINT32_CHANNEL_STATIC_AUTO_TRESHOLD w)"
  shows "SetStatic w False command c =
     (let ow = (if m_ownerGuid c = 0 then SetOwner w (SelectNewOwner c) SetOwner_exclaim_default c
               else (c, []))
      in ((fst ow)\<lparr>m_static := False\<rparr>, snd ow, True))"
proof -
  have go: "\<not> (IsConstant c \<or> \<not> HasFlag c CHANNEL_FLAG_CUSTOM \<or> m_static c = False)"
           "\<not> (\<not> command \<and> (CONFIG_UINT32_CHANNEL_STATIC_AUTO_TRESHOLD w = 0
              \<or> False \<noteq> (GetNumPlayers c \<ge> CONFIG_UINT32_CHANNEL_STATIC_AUTO_TRESHOLD w)))"
    using assms by auto
  show ?thesis unfolding SetStatic_def using go
    by (simp add: Let_def split_beta)
qed

lemma IsPublic_SetOwner [simp]: "IsPublic (fst (SetOwner w g ex c)) = IsPublic c"
  by (simp add: IsPublic_def IsConstant_def SetOwner_frame)

lemma succession_pres:
  assumes wf: "table_wf c"
  shows "table_wf (fst (SetOwner w (SelectNewOwner c) ex c))"
    and "owner_ok (fst (SetOwner w (SelectNewOwner c) ex c))"
    and "map fst (m_players (fst (SetOwner w (SelectNewOwner c) ex c))) = map fst (m_players c)"
    and "members (fst (SetOwner w (SelectNewOwner c) ex c)) = members c"
  using SelectNewOwner_member[OF wf]
  by (simp_all add: SetOwner_wf[OF wf] SetOwner_owner_ok SetOwner_keys SetOwner_members)

lemma SetStatic_cases:
  obtains (blocked) "SetStatic w state command c = (c, [], False)"
  | (to_static) "state" "\<not> IsConstant c" "HasFlag c CHANNEL_FLAG_CUSTOM" "\<not> m_static c"
      "m_password c = []"
      "command \<or> (CONFIG_UINT32_CHANNEL_STATIC_AUTO_TRESHOLD w \<noteq> 0
        \<and> GetNumPlayers c \<ge> CONFIG_UINT32_CHANNEL_STATIC_AUTO_TRESHOLD w)"
  | (to_dynamic) "\<not> state" "\<not> IsConstant c" "HasFlag c CHANNEL_FLAG_CUSTOM" "m_static c"
      "command \<or> (CONFIG_UINT32_CHANNEL_STATIC_AUTO_TRESHOLD w \<noteq> 0
        \<and> \<not> GetNumPlayers c \<ge> CONFIG_UINT32_CHANNEL_STATIC_AUTO_TRESHOLD w)"
proof (cases "IsConstant c \<or> \<not> HasFlag c CHANNEL_FLAG_CUSTOM \<or> m_static c = state
   \<or> (state \<and> m_password c \<noteq> [])
   \<or> (\<not> command \<and> (CONFIG_UINT32_CHANNEL_STATIC_AUTO_TRESHOLD w = 0
        \<or> state \<noteq> (GetNumPlayers c \<ge> CONFIG_UINT32_CHANNEL_STATIC_AUTO_TRESHOLD w)))")
  case True
  then show ?thesis using blocked SetStatic_blocked by blast
next
  case False
  then show ?thesis using to_static to_dynamic by (cases state) auto
qed

lemma SetStatic_pres:
  assumes wf: "table_wf c"
  shows "table_wf (fst (SetStatic w state command c))"
    and "map fst (m_players (fst (SetStatic w state command c))) = map fst (m_players c)"
    and "m_banned (fst (SetStatic w state command c)) = m_banned c"
    and "owner_ok c \<Longrightarrow> public_ownerless c \<Longrightarrow>
         owner_ok (fst (SetStatic w state command c))
         \<and> public_ownerless (fst (SetStatic w state command c))"
proof -
  let ?c' = "fst (SetStatic w state command c)"
  have "table_wf ?c' \<and> map fst (m_players ?c') = map fst (m_players c) \<and> m_banned ?c' = m_banned c
        \<and> (owner_ok c \<longrightarrow> public_ownerless c \<longrightarrow> owner_ok ?c' \<and> public_ownerless ?c')"
  proof (cases rule: SetStatic_cases[of w state command c])
    case blocked
    then show ?thesis using wf by simp
  next
    case to_static
    note fr = strip_moderators_frame[of w "map fst (m_players c)" c]
    let ?s = "fst (strip_moderators w (map fst (m_players c)) c)"
    let ?ow = "(if m_ownerGuid c \<noteq> 0 then SetOwner w 0 SetOwner_exclaim_default ?s
               else (?s, []))"
    have st: "?c' = (fst ?ow)\<lparr>m_moderate := False, m_announce := False, m_static := True\<rparr>"
      using SetStatic_to_static[OF to_static(2-6)] to_static(1) by (simp add: Let_def)
    have wfs: "table_wf ?s" using fr wf by simp
    have a: "table_wf (fst ?ow)" using wfs by (simp add: SetOwner_wf)
    have b: "map fst (m_players (fst ?ow)) = map fst (m_players c)"
      using fr by (simp add: SetOwner_keys)
    have c: "m_banned (fst ?ow) = m_banned c" using fr by (simp add: SetOwner_frame)
    have d: "m_ownerGuid (fst ?ow) = 0" using fr by (simp add: SetOwner_frame)
    show ?thesis using a b c d unfolding st
      by (simp add: table_wf_def owner_ok_def public_ownerless_def)
  next
    case to_dynamic
    let ?ow = "(if m_ownerGuid c = 0 then SetOwner w (SelectNewOwner c) SetOwner_exclaim_default c
               else (c, []))"
    have st: "?c' = (fst ?ow)\<lparr>m_static := False\<rparr>"
      using SetStatic_to_dynamic[OF to_dynamic(2-5)] to_dynamic(1) by (simp add: Let_def)
    have a: "table_wf (fst ?ow)" using wf by (simp add: succession_pres)
    have b: "map fst (m_players (fst ?ow)) = map fst (m_players c)"
      using wf by (simp add: succession_pres)
    have c: "m_banned (fst ?ow) = m_banned c" by (simp add: SetOwner_frame)
    have d: "owner_ok c \<Longrightarrow> owner_ok (fst ?ow)" using wf by (simp add: succession_pres)
    have e: "m_channelId (fst ?ow) = m_channelId c" by (simp add: SetOwner_frame)
    have f: "owner_ok ((fst ?ow)\<lparr>m_static := False\<rparr>) = owner_ok (fst ?ow)"
      by (simp add: owner_ok_def members_def)
    show ?thesis using a b c d e to_dynamic(2) unfolding st f
      by (simp add: table_wf_def public_ownerless_def IsPublic_def IsConstant_def)
  qed
  then show "table_wf ?c'" "map fst (m_players ?c') = map fst (m_players c)" "m_banned ?c' = m_banned c"
    "owner_ok c \<Longrightarrow> public_ownerless c \<Longrightarrow> owner_ok ?c' \<and> public_ownerless ?c'"
    by simp_all
qed

lemma distinct_players_insert:
  "g \<notin> fst ` set pl \<Longrightarrow> distinct (map fst pl) \<Longrightarrow> distinct (map fst (players_insert g v pl))"
proof (induction g v pl rule: players_insert.induct)
  case (1 g v)
  then show ?case by simp
next
  case (2 g v k x pl)
  have "fst ` set (players_insert g v pl) = insert g (fst ` set pl)" by simp
  then show ?case using 2 by auto
qed

lemma IsPublic_players_update [simp]: "IsPublic (c\<lparr>m_players := pl\<rparr>) = IsPublic c"
  by (simp add: IsPublic_def IsConstant_def)

lemma IsPublic_modify_player [simp]: "IsPublic (modify_player f g c) = IsPublic c"
  by (simp add: modify_player_def)

lemma modify_player_frame [simp]:
  "m_banned (modify_player f g c) = m_banned c"
  "m_ownerGuid (modify_player f g c) = m_ownerGuid c"
  "m_name (modify_player f g c) = m_name c"
  by (simp_all add: modify_player_def)

text \<open>Join\<close>

lemma Join_fail:
  "IsOn c (GetObjectGuid plr) \<or> IsBanned c (GetObjectGuid plr)
   \<or> (m_password c \<noteq> [] \<and> pw \<noteq> m_password c)
   \<or> (GetGuildId plr \<noteq> 0 \<and> GetFlags c = 0x38)
   \<Longrightarrow> fst (Join w plr pw c) = c"
  by (auto simp add: Join_def Let_def)

lemma Join_state:
  assumes "\<not> IsOn c (GetObjectGuid plr)" "\<not> IsBanned c (GetObjectGuid plr)"
    "m_password c = [] \<or> pw = m_password c"
    "GetGuildId plr = 0 \<or> GetFlags c \<noteq> 0x38"
  shows "fst (Join w plr pw c) =
     (let guid = GetObjectGuid plr;
          c1 = modify_player (\<lambda>pinfo. pinfo\<lparr>player := guid, flags := MEMBER_FLAG_NONE\<rparr>) guid c;
          c2 = (if \<not> IsPublic c \<and> m_ownerGuid c = 0
                then fst (SetOwner w guid (length (m_players c1) > 1) c1) else c1)
      in fst (SetStatic w True False c2))"
  using assms by (auto simp add: Join_def Let_def split_beta)

lemma join_entry:
  assumes "g \<notin> members c"
  shows "set (m_players (modify_player (\<lambda>pinfo. pinfo\<lparr>player := g, flags := MEMBER_FLAG_NONE\<rparr>) g c))
         = insert (g, \<lparr>player = g, flags = MEMBER_FLAG_NONE\<rparr>) (set (m_players c))"
    and "distinct (map fst (m_players c)) \<Longrightarrow>
         distinct (map fst (m_players (modify_player (\<lambda>pinfo. pinfo\<lparr>player := g, flags := MEMBER_FLAG_NONE\<rparr>) g c)))"
proof -
  have n: "g \<notin> fst ` set (m_players c)" using assms by (simp add: members_def)
  then have i: "players_index (m_players c) g = players_insert g \<lparr>player = 0, flags = 0\<rparr> (m_players c)"
    by (simp add: players_index_def players_find_def map_of_eq_None_iff[symmetric])
  show "set (m_players (modify_player (\<lambda>pinfo. pinfo\<lparr>player := g, flags := MEMBER_FLAG_NONE\<rparr>) g c))
         = insert (g, \<lparr>player = g, flags = MEMBER_FLAG_NONE\<rparr>) (set (m_players c))"
    using n by (auto simp add: modify_player_def i set_players_apply image_iff)
  show "distinct (map fst (m_players c)) \<Longrightarrow>
         distinct (map fst (m_players (modify_player (\<lambda>pinfo. pinfo\<lparr>player := g, flags := MEMBER_FLAG_NONE\<rparr>) g c)))"
    using n by (simp add: modify_player_def i distinct_players_insert)
qed

lemma Join_pres:
  assumes wf: "table_wf c"
  shows "table_wf (fst (Join w plr pw c))"
    and "distinct (map fst (m_players c)) \<Longrightarrow> distinct (map fst (m_players (fst (Join w plr pw c))))"
    and "ban_disjoint c \<Longrightarrow> ban_disjoint (fst (Join w plr pw c))"
    and "owner_ok c \<Longrightarrow> public_ownerless c \<Longrightarrow>
         owner_ok (fst (Join w plr pw c)) \<and> public_ownerless (fst (Join w plr pw c))"
proof -
  let ?c' = "fst (Join w plr pw c)"
  let ?g = "GetObjectGuid plr"
  have "table_wf ?c'
     \<and> (distinct (map fst (m_players c)) \<longrightarrow> distinct (map fst (m_players ?c')))
     \<and> (ban_disjoint c \<longrightarrow> ban_disjoint ?c')
     \<and> (owner_ok c \<longrightarrow> public_ownerless c \<longrightarrow> owner_ok ?c' \<and> public_ownerless ?c')"
  proof (cases "IsOn c ?g \<or> IsBanned c ?g \<or> (m_password c \<noteq> [] \<and> pw \<noteq> m_password c)
                 \<or> (GetGuildId plr \<noteq> 0 \<and> GetFlags c = 0x38)")
    case True
    then show ?thesis using wf by (simp add: Join_fail)
  next
    case False
    let ?c1 = "modify_player (\<lambda>pinfo. pinfo\<lparr>player := ?g, flags := MEMBER_FLAG_NONE\<rparr>) ?g c"
    let ?c2 = "(if \<not> IsPublic c \<and> m_ownerGuid c = 0
                then fst (SetOwner w ?g (length (m_players ?c1) > 1) ?c1) else ?c1)"
    have st: "?c' = fst (SetStatic w True False ?c2)"
      using False Join_state[of c plr pw w] by (simp add: Let_def)
    have nm: "?g \<notin> members c" using False by (simp add: IsOn_members)
    have nb: "?g \<notin> m_banned c" using False by (simp add: IsBanned_def)
    note e = join_entry[OF nm]
    have wf1: "table_wf ?c1" using wf by (simp add: table_wf_def e(1))
    have m1: "members ?c1 = insert ?g (members c)" by (simp add: members_modify_player)
    have g1: "?g = 0 \<or> ?g \<in> members ?c1" using m1 by simp
    have wf2: "table_wf ?c2" using wf1 g1 by (simp add: SetOwner_wf)
    have k2: "map fst (m_players ?c2) = map fst (m_players ?c1)"
      using g1 by (simp add: SetOwner_keys)
    have b2: "m_banned ?c2 = m_banned c" by (simp add: SetOwner_frame)
    have ok1: "owner_ok c \<Longrightarrow> owner_ok ?c1"
      using nm by (auto simp add: owner_ok_def m1 e(1))
    have ok2: "owner_ok c \<Longrightarrow> owner_ok ?c2" using ok1 g1 by (simp add: SetOwner_owner_ok)
    have p2: "public_ownerless c \<Longrightarrow> public_ownerless ?c2"
      by (simp add: public_ownerless_def SetOwner_frame)
    note ss = SetStatic_pres[OF wf2, of w True False]
    have d: "distinct (map fst (m_players c)) \<longrightarrow> distinct (map fst (m_players ?c'))"
      unfolding st ss(2) k2 using e(2) by simp
    have "members ?c' = members ?c1"
      using ss(2) k2 unfolding st members_def by (metis list.set_map)
    then have bd: "ban_disjoint c \<longrightarrow> ban_disjoint ?c'"
      using nb m1 ss(3) b2 unfolding st by (auto simp add: ban_disjoint_def)
    show ?thesis using ss(1) d bd ss(4) ok2 p2 unfolding st by blast
  qed
  then show "table_wf ?c'"
    "distinct (map fst (m_players c)) \<Longrightarrow> distinct (map fst (m_players ?c'))"
    "ban_disjoint c \<Longrightarrow> ban_disjoint ?c'"
    "owner_ok c \<Longrightarrow> public_ownerless c \<Longrightarrow> owner_ok ?c' \<and> public_ownerless ?c'"
    by simp_all
qed

text \<open>Removing a member, followed by succession when \<open>changeowner\<close> holds on a non-public channel.\<close>

lemma remove_pres:
  fixes c :: Channel and g :: ObjectGuid and changeowner :: bool and w :: World and ex :: bool
  assumes wf: "table_wf c"
  defines "c2 \<equiv> c\<lparr>m_players := players_erase g (m_players c)\<rparr>"
  defines "c3 \<equiv> (if changeowner \<and> \<not> IsPublic c
                   then fst (SetOwner w (SelectNewOwner c2) ex c2) else c2)"
  shows "table_wf c3"
    and "distinct (map fst (m_players c)) \<Longrightarrow> distinct (map fst (m_players c3))"
    and "members c3 = members c - {g}"
    and "m_banned c3 = m_banned c"
    and "owner_ok c \<Longrightarrow> public_ownerless c \<Longrightarrow> (m_ownerGuid c = g \<and> g \<noteq> 0 \<longrightarrow> changeowner)
         \<Longrightarrow> owner_ok c3 \<and> public_ownerless c3"
proof -
  have wf2: "table_wf c2" using wf by (simp add: c2_def table_wf_def)
  have m2: "members c2 = members c - {g}" by (auto simp add: c2_def members_def image_iff)
  have d2: "distinct (map fst (m_players c)) \<Longrightarrow> distinct (map fst (m_players c2))"
    by (simp add: c2_def players_erase_def distinct_map_filter)
  note su = succession_pres[OF wf2, of w ex]
  show "table_wf c3" using wf2 su(1) by (simp add: c3_def)
  show "distinct (map fst (m_players c)) \<Longrightarrow> distinct (map fst (m_players c3))"
    using d2 su(3) by (simp add: c3_def)
  show "members c3 = members c - {g}" using m2 su(4) by (simp add: c3_def)
  show "m_banned c3 = m_banned c" by (simp add: c3_def c2_def SetOwner_frame)
  show "owner_ok c3 \<and> public_ownerless c3"
    if ok: "owner_ok c" and po: "public_ownerless c"
      and ch: "m_ownerGuid c = g \<and> g \<noteq> 0 \<longrightarrow> changeowner"
  proof (cases "changeowner \<and> \<not> IsPublic c")
    case True
    then show ?thesis using su(2)
      by (simp add: c3_def public_ownerless_def c2_def)
  next
    case False
    have p: "public_ownerless c2" using po by (simp add: public_ownerless_def c2_def)
    have "owner_ok c2"
    proof (cases "m_ownerGuid c = 0")
      case True then show ?thesis by (simp add: owner_ok_def c2_def)
    next
      case nz: False
      have "m_ownerGuid c \<noteq> g"
      proof
        assume eq: "m_ownerGuid c = g"
        then have "changeowner" using ch nz by simp
        then have "IsPublic c" using False by simp
        then show False using po nz by (simp add: public_ownerless_def)
      qed
      then show ?thesis using ok nz m2
        by (auto simp add: owner_ok_def c2_def)
    qed
    moreover have "c3 = c2" using False by (auto simp add: c3_def)
    ultimately show ?thesis using p by simp
  qed
qed

lemma Leave_state:
  "fst (Leave w plr send c) =
     (let guid = GetObjectGuid plr in
      if \<not> IsOn c guid then c
      else
        (let c2 = c\<lparr>m_players := players_erase guid (m_players c)\<rparr>
         in if IsOwner (players_get (m_players c) guid) \<and> \<not> IsPublic c
            then fst (SetOwner w (SelectNewOwner c2) (length (m_players c2) > 1) c2)
            else c2))"
  by (simp add: Leave_def Let_def index_players_IsOn split_beta)

lemma Leave_pres:
  assumes wf: "table_wf c"
  shows "table_wf (fst (Leave w plr send c))"
    and "distinct (map fst (m_players c)) \<Longrightarrow> distinct (map fst (m_players (fst (Leave w plr send c))))"
    and "ban_disjoint c \<Longrightarrow> ban_disjoint (fst (Leave w plr send c))"
    and "owner_ok c \<Longrightarrow> public_ownerless c \<Longrightarrow>
         owner_ok (fst (Leave w plr send c)) \<and> public_ownerless (fst (Leave w plr send c))"
proof -
  let ?g = "GetObjectGuid plr"
  let ?c' = "fst (Leave w plr send c)"
  have "table_wf ?c'
     \<and> (distinct (map fst (m_players c)) \<longrightarrow> distinct (map fst (m_players ?c')))
     \<and> (ban_disjoint c \<longrightarrow> ban_disjoint ?c')
     \<and> (owner_ok c \<longrightarrow> public_ownerless c \<longrightarrow> owner_ok ?c' \<and> public_ownerless ?c')"
  proof (cases "IsOn c ?g")
    case False
    then show ?thesis using wf by (simp add: Leave_state)
  next
    case True
    let ?ch = "IsOwner (players_get (m_players c) ?g)"
    note r = remove_pres[OF wf, where g = ?g and changeowner = ?ch and w = w
                 and ex = "length (m_players (c\<lparr>m_players := players_erase ?g (m_players c)\<rparr>)) > 1"]
    have st: "?c' = (if ?ch \<and> \<not> IsPublic c
            then fst (SetOwner w (SelectNewOwner (c\<lparr>m_players := players_erase ?g (m_players c)\<rparr>))
                   (length (m_players (c\<lparr>m_players := players_erase ?g (m_players c)\<rparr>)) > 1)
                   (c\<lparr>m_players := players_erase ?g (m_players c)\<rparr>))
            else c\<lparr>m_players := players_erase ?g (m_players c)\<rparr>)"
      using True by (simp add: Leave_state Let_def)
    have "(?g, players_get (m_players c) ?g) \<in> set (m_players c)"
      using True by (simp add: IsOn_members members_def players_get_in_set)
    then have ch: "owner_ok c \<Longrightarrow> m_ownerGuid c = ?g \<and> ?g \<noteq> 0 \<longrightarrow> ?ch"
      by (auto simp add: owner_ok_def)
    have bd: "ban_disjoint c \<longrightarrow> ban_disjoint ?c'"
      unfolding st using r(3) r(4) by (auto simp add: ban_disjoint_def)
    show ?thesis unfolding st using r(1) r(2) r(5) ch bd[unfolded st] by blast
  qed
  then show "table_wf ?c'"
    "distinct (map fst (m_players c)) \<Longrightarrow> distinct (map fst (m_players ?c'))"
    "ban_disjoint c \<Longrightarrow> ban_disjoint ?c'"
    "owner_ok c \<Longrightarrow> public_ownerless c \<Longrightarrow> owner_ok ?c' \<and> public_ownerless ?c'"
    by simp_all
qed

lemma KickOrBan_NotMember:
  "\<not> IsOn c (GetObjectGuid plr) \<Longrightarrow>
   KickOrBan w plr tn ban c = (c, SendToOne w (MakeNotMember (m_name c)) (GetObjectGuid plr))"
  by (simp add: KickOrBan_def Let_def)

lemma KickOrBan_NotModerator:
  "IsOn c (GetObjectGuid plr) \<Longrightarrow>
   \<not> IsModerator (players_get (m_players c) (GetObjectGuid plr)) \<Longrightarrow>
   sec_level (GetSecurity plr) < sec_level SEC_GAMEMASTER \<Longrightarrow>
   KickOrBan w plr tn ban c = (c, SendToOne w (MakeNotModerator (m_name c)) (GetObjectGuid plr))"
  by (simp add: KickOrBan_def Let_def index_players_IsOn)

lemma KickOrBan_PlayerNotFound:
  "IsOn c (GetObjectGuid plr) \<Longrightarrow>
   IsModerator (players_get (m_players c) (GetObjectGuid plr))
     \<or> \<not> sec_level (GetSecurity plr) < sec_level SEC_GAMEMASTER \<Longrightarrow>
   (case GetPlayerByName w tn of None \<Rightarrow> True | Some target \<Rightarrow> \<not> IsOn c (GetObjectGuid target)) \<Longrightarrow>
   KickOrBan w plr tn ban c = (c, SendToOne w (MakePlayerNotFound (m_name c) tn) (GetObjectGuid plr))"
  by (auto simp add: KickOrBan_def Let_def index_players_IsOn split: option.splits)

lemma KickOrBan_unfold:
  assumes "IsOn c (GetObjectGuid plr)" "GetPlayerByName w tn = Some target"
    "IsOn c (GetObjectGuid target)"
  shows "KickOrBan w plr tn ban c =
     (if \<not> IsModerator (players_get (m_players c) (GetObjectGuid plr))
         \<and> sec_level (GetSecurity plr) < sec_level SEC_GAMEMASTER
      then (c, SendToOne w (MakeNotModerator (m_name c)) (GetObjectGuid plr))
      else if sec_level (GetSecurity plr) < sec_level SEC_GAMEMASTER
              \<and> m_ownerGuid c = GetObjectGuid target \<and> GetObjectGuid plr \<noteq> m_ownerGuid c
      then (c, SendToOne w (MakeNotOwner (m_name c)) (GetObjectGuid plr))
      else
        (let (c1, data) =
               (if ban \<and> \<not> IsBanned c (GetObjectGuid target)
                then (c\<lparr>m_banned := insert (GetObjectGuid target) (m_banned c)\<rparr>,
                      MakePlayerBanned (m_name c) (GetObjectGuid target) (GetObjectGuid plr))
                else (c, MakePlayerKicked (m_name c) (GetObjectGuid target) (GetObjectGuid plr)));
             out1 = SendToAll w c1 data;
             c2 = c1\<lparr>m_players := players_erase (GetObjectGuid target) (m_players c1)\<rparr>;
             (c3, out2) =
               (if m_ownerGuid c = GetObjectGuid target \<and> \<not> IsPublic c2
                then SetOwner w (SelectNewOwner c2) (length (m_players c2) > 1) c2
                else (c2, []))
         in (c3, out1 @ out2)))"
  by (simp add: KickOrBan_def Let_def index_players_IsOn assms split del: if_split cong: if_cong)

lemma KickOrBan_proceeds:
  assumes "IsOn c (GetObjectGuid plr)" "GetPlayerByName w tn = Some target"
    "IsOn c (GetObjectGuid target)"
    "\<not> (\<not> IsModerator (players_get (m_players c) (GetObjectGuid plr))
         \<and> sec_level (GetSecurity plr) < sec_level SEC_GAMEMASTER)"
    "\<not> (sec_level (GetSecurity plr) < sec_level SEC_GAMEMASTER
        \<and> m_ownerGuid c = GetObjectGuid target \<and> GetObjectGuid plr \<noteq> m_ownerGuid c)"
  shows "KickOrBan w plr tn ban c =
     (let guid = GetObjectGuid plr; tg = GetObjectGuid target;
          c1 = (if ban \<and> \<not> IsBanned c tg then c\<lparr>m_banned := insert tg (m_banned c)\<rparr> else c);
          data = (if ban \<and> \<not> IsBanned c tg then MakePlayerBanned (m_name c) tg guid
                  else MakePlayerKicked (m_name c) tg guid);
          c2 = c1\<lparr>m_players := players_erase tg (m_players c1)\<rparr>;
          ow = (if m_ownerGuid c = tg \<and> \<not> IsPublic c
                then SetOwner w (SelectNewOwner c2) (length (m_players c2) > 1) c2
                else (c2, []))
      in (fst ow, SendToAll w c data @ snd ow))"
proof -
  note u = KickOrBan_unfold[OF assms(1-3), of ban, unfolded if_not_P[OF assms(4)] if_not_P[OF assms(5)]]
  have p: "\<And>B. IsPublic (c\<lparr>m_banned := B\<rparr>) = IsPublic c"
    by (simp add: IsPublic_def IsConstant_def)
  show ?thesis
  proof (cases "ban \<and> \<not> IsBanned c (GetObjectGuid target)")
    case b: True
    show ?thesis
    proof (cases "m_ownerGuid c = GetObjectGuid target \<and> \<not> IsPublic c")
      case True
      show ?thesis unfolding u
        by (simp add: Let_def if_P[OF b] if_P[OF True] p split_beta SendToAll_def
            split del: if_split)
    next
      case False
      show ?thesis unfolding u
        by (simp add: Let_def if_P[OF b] if_not_P[OF False] p SendToAll_def
            split del: if_split)
    qed
  next
    case b: False
    show ?thesis
    proof (cases "m_ownerGuid c = GetObjectGuid target \<and> \<not> IsPublic c")
      case True
      show ?thesis unfolding u
        by (simp add: Let_def if_not_P[OF b] if_P[OF True] split_beta split del: if_split)
    next
      case False
      show ?thesis unfolding u
        by (simp add: Let_def if_not_P[OF b] if_not_P[OF False] split del: if_split)
    qed
  qed
qed

lemma KickOrBan_cases:
  obtains (fail) "fst (KickOrBan w plr tn ban c) = c"
  | (success) target where "GetPlayerByName w tn = Some target"
      "IsOn c (GetObjectGuid target)"
      "fst (KickOrBan w plr tn ban c) =
         (let tg = GetObjectGuid target;
              c1 = (if ban \<and> \<not> IsBanned c tg then c\<lparr>m_banned := insert tg (m_banned c)\<rparr> else c);
              c2 = c1\<lparr>m_players := players_erase tg (m_players c1)\<rparr>
          in if m_ownerGuid c = tg \<and> \<not> IsPublic c
             then fst (SetOwner w (SelectNewOwner c2) (length (m_players c2) > 1) c2)
             else c2)"
proof (cases "IsOn c (GetObjectGuid plr)")
  case False
  then show ?thesis using fail by (simp add: KickOrBan_NotMember)
next
  case on: True
  show ?thesis
  proof (cases "IsModerator (players_get (m_players c) (GetObjectGuid plr))
                       \<or> \<not> sec_level (GetSecurity plr) < sec_level SEC_GAMEMASTER")
    case False
    then show ?thesis using on fail by (simp add: KickOrBan_NotModerator)
  next
    case auth: True
    show ?thesis
    proof (cases "GetPlayerByName w tn")
      case None
      then show ?thesis using fail KickOrBan_PlayerNotFound[OF on auth, of w tn ban] by simp
    next
      case (Some target)
      show ?thesis
      proof (cases "IsOn c (GetObjectGuid target)")
        case False
        then show ?thesis using fail Some KickOrBan_PlayerNotFound[OF on auth, of w tn ban] by simp
      next
        case ton: True
        note u = KickOrBan_unfold[OF on Some ton, of ban]
        have nm: "\<not> (\<not> IsModerator (players_get (m_players c) (GetObjectGuid plr))
         \<and> sec_level (GetSecurity plr) < sec_level SEC_GAMEMASTER)" using auth by blast
        show ?thesis
        proof (cases "sec_level (GetSecurity plr) < sec_level SEC_GAMEMASTER
                      \<and> m_ownerGuid c = GetObjectGuid target
                      \<and> GetObjectGuid plr \<noteq> m_ownerGuid c")
          case True
          have "fst (KickOrBan w plr tn ban c) = c"
            unfolding u if_not_P[OF nm] if_P[OF True] by simp
          then show ?thesis using fail by simp
        next
          case False
          have "fst (KickOrBan w plr tn ban c) =
            (let tg = GetObjectGuid target;
              c1 = (if ban \<and> \<not> IsBanned c tg then c\<lparr>m_banned := insert tg (m_banned c)\<rparr> else c);
              c2 = c1\<lparr>m_players := players_erase tg (m_players c1)\<rparr>
             in if m_ownerGuid c = tg \<and> \<not> IsPublic c
                then fst (SetOwner w (SelectNewOwner c2) (length (m_players c2) > 1) c2)
                else c2)"
          proof (cases "m_ownerGuid c = GetObjectGuid target \<and> \<not> IsPublic c")
            case True
            show ?thesis
              by (simp add: KickOrBan_proceeds[OF on Some ton nm False] Let_def if_P[OF True]
                  split del: if_split)
          next
            case nch: False
            show ?thesis
              by (simp add: KickOrBan_proceeds[OF on Some ton nm False] Let_def if_not_P[OF nch]
                  split del: if_split)
          qed
          then show ?thesis using success[OF Some ton] by simp
        qed
      qed
    qed
  qed
qed

lemma banned_update_preds [simp]:
  "table_wf (c\<lparr>m_banned := B\<rparr>) = table_wf c"
  "owner_ok (c\<lparr>m_banned := B\<rparr>) = owner_ok c"
  "public_ownerless (c\<lparr>m_banned := B\<rparr>) = public_ownerless c"
  "members (c\<lparr>m_banned := B\<rparr>) = members c"
  "IsPublic (c\<lparr>m_banned := B\<rparr>) = IsPublic c"
  by (simp_all add: table_wf_def owner_ok_def public_ownerless_def members_def IsPublic_def IsConstant_def)

lemma KickOrBan_pres:
  assumes wf: "table_wf c"
  shows "table_wf (fst (KickOrBan w plr tn ban c))"
    and "distinct (map fst (m_players c)) \<Longrightarrow>
         distinct (map fst (m_players (fst (KickOrBan w plr tn ban c))))"
    and "ban_disjoint c \<Longrightarrow> ban_disjoint (fst (KickOrBan w plr tn ban c))"
    and "owner_ok c \<Longrightarrow> public_ownerless c \<Longrightarrow>
         owner_ok (fst (KickOrBan w plr tn ban c)) \<and> public_ownerless (fst (KickOrBan w plr tn ban c))"
proof -
  let ?c' = "fst (KickOrBan w plr tn ban c)"
  have R: "table_wf r
     \<and> (distinct (map fst (m_players c)) \<longrightarrow> distinct (map fst (m_players r)))
     \<and> (ban_disjoint c \<longrightarrow> ban_disjoint r)
     \<and> (owner_ok c \<longrightarrow> public_ownerless c \<longrightarrow> owner_ok r \<and> public_ownerless r)"
    if r: "r = (let c1 = (if ban \<and> \<not> IsBanned c tg then c\<lparr>m_banned := insert tg (m_banned c)\<rparr> else c);
                   c2 = c1\<lparr>m_players := players_erase tg (m_players c1)\<rparr>
               in if m_ownerGuid c = tg \<and> \<not> IsPublic c
                  then fst (SetOwner w (SelectNewOwner c2) (length (m_players c2) > 1) c2)
                  else c2)" for r tg
  proof -
    let ?c1 = "(if ban \<and> \<not> IsBanned c tg then c\<lparr>m_banned := insert tg (m_banned c)\<rparr> else c)"
    have wf1: "table_wf ?c1" using wf by simp
    have o1: "m_ownerGuid ?c1 = m_ownerGuid c" "IsPublic ?c1 = IsPublic c"
      "m_players ?c1 = m_players c" "members ?c1 = members c"
      "owner_ok ?c1 = owner_ok c" "public_ownerless ?c1 = public_ownerless c"
      by simp_all
    note rp = remove_pres[OF wf1, where g = tg and changeowner = "m_ownerGuid c = tg" and w = w
        and ex = "length (m_players (?c1\<lparr>m_players := players_erase tg (m_players ?c1)\<rparr>)) > 1"]
    have r': "r = (if m_ownerGuid c = tg \<and> \<not> IsPublic ?c1
                   then fst (SetOwner w (SelectNewOwner (?c1\<lparr>m_players := players_erase tg (m_players ?c1)\<rparr>))
                          (length (m_players (?c1\<lparr>m_players := players_erase tg (m_players ?c1)\<rparr>)) > 1)
                          (?c1\<lparr>m_players := players_erase tg (m_players ?c1)\<rparr>))
                   else ?c1\<lparr>m_players := players_erase tg (m_players ?c1)\<rparr>)"
      unfolding r Let_def o1(2) ..
    have b: "m_banned r \<subseteq> insert tg (m_banned c)" unfolding r' rp(4) by auto
    have m: "members r = members c - {tg}" unfolding r' rp(3) o1(4) ..
    have bd: "ban_disjoint c \<longrightarrow> ban_disjoint r" using b m by (auto simp add: ban_disjoint_def)
    have d: "distinct (map fst (m_players c)) \<longrightarrow> distinct (map fst (m_players r))"
      unfolding r' using rp(2) o1(3) by simp
    have ok: "owner_ok c \<longrightarrow> public_ownerless c \<longrightarrow> owner_ok r \<and> public_ownerless r"
      unfolding r' using rp(5) o1 by simp
    show ?thesis using rp(1) d bd ok unfolding r' by blast
  qed
  have "table_wf ?c'
     \<and> (distinct (map fst (m_players c)) \<longrightarrow> distinct (map fst (m_players ?c')))
     \<and> (ban_disjoint c \<longrightarrow> ban_disjoint ?c')
     \<and> (owner_ok c \<longrightarrow> public_ownerless c \<longrightarrow> owner_ok ?c' \<and> public_ownerless ?c')"
  proof (cases rule: KickOrBan_cases[of w plr tn ban c])
    case fail
    then show ?thesis using wf by simp
  next
    case (success target)
    show ?thesis using R[of "fst (KickOrBan w plr tn ban c)" "GetObjectGuid target"] success(3)
      by (simp add: Let_def)
  qed
  then show "table_wf ?c'"
    "distinct (map fst (m_players c)) \<Longrightarrow> distinct (map fst (m_players ?c'))"
    "ban_disjoint c \<Longrightarrow> ban_disjoint ?c'"
    "owner_ok c \<Longrightarrow> public_ownerless c \<Longrightarrow> owner_ok ?c' \<and> public_ownerless ?c'"
    by simp_all
qed

lemma settings_update_preds [simp]:
  "table_wf (c\<lparr>m_password := pw\<rparr>) = table_wf c"
  "owner_ok (c\<lparr>m_password := pw\<rparr>) = owner_ok c"
  "public_ownerless (c\<lparr>m_password := pw\<rparr>) = public_ownerless c"
  "ban_disjoint (c\<lparr>m_password := pw\<rparr>) = ban_disjoint c"
  "table_wf (c\<lparr>m_announce := a\<rparr>) = table_wf c"
  "owner_ok (c\<lparr>m_announce := a\<rparr>) = owner_ok c"
  "public_ownerless (c\<lparr>m_announce := a\<rparr>) = public_ownerless c"
  "ban_disjoint (c\<lparr>m_announce := a\<rparr>) = ban_disjoint c"
  "table_wf (c\<lparr>m_moderate := a\<rparr>) = table_wf c"
  "owner_ok (c\<lparr>m_moderate := a\<rparr>) = owner_ok c"
  "public_ownerless (c\<lparr>m_moderate := a\<rparr>) = public_ownerless c"
  "ban_disjoint (c\<lparr>m_moderate := a\<rparr>) = ban_disjoint c"
  by (simp_all add: table_wf_def owner_ok_def public_ownerless_def ban_disjoint_def members_def
      IsPublic_def IsConstant_def)

lemma UnBan_fst:
  "fst (UnBan w plr tn c) = c \<or> (\<exists>t. fst (UnBan w plr tn c) = c\<lparr>m_banned := m_banned c - {t}\<rparr>)"
  by (cases "IsOn c (GetObjectGuid plr)")
     (auto simp add: UnBan_def Let_def index_players_IsOn split: option.splits)

lemma Password_fst:
  "fst (Password w plr pw c) = c \<or> fst (Password w plr pw c) = c\<lparr>m_password := pw\<rparr>"
  by (cases "IsOn c (GetObjectGuid plr)")
     (auto simp add: Password_def Let_def index_players_IsOn)

lemma Announce_fst:
  "fst (Announce w plr c) = c \<or> fst (Announce w plr c) = c\<lparr>m_announce := \<not> m_announce c\<rparr>"
  by (cases "IsOn c (GetObjectGuid plr)")
     (auto simp add: Announce_def Let_def index_players_IsOn)

lemma Moderate_fst:
  "fst (Moderate w plr c) = c \<or> fst (Moderate w plr c) = c\<lparr>m_moderate := \<not> m_moderate c\<rparr>"
  by (cases "IsOn c (GetObjectGuid plr)")
     (auto simp add: Moderate_def Let_def index_players_IsOn)

lemma Say_fst: "fst (Say w plr text lang c) = c"
  by (cases "IsOn c (GetObjectGuid plr)")
     (auto simp add: Say_def Let_def index_players_IsOn split: option.splits)

lemma Invite_fst: "fst (Invite w plr tn c) = c"
  by (auto simp add: Invite_def Let_def split: option.splits)

lemma SetMode_fst:
  "fst (SetMode w plr tn moderator setv c) = c
   \<or> (\<exists>tg. tg \<noteq> m_ownerGuid c \<and> fst (SetMode w plr tn moderator setv c) = fst (SetModerator w tg setv c))
   \<or> (\<exists>tg. fst (SetMode w plr tn moderator setv c) = fst (SetMute w tg setv c))"
proof (cases "IsOn c (GetObjectGuid plr)")
  case False
  then show ?thesis by (simp add: SetMode_def Let_def)
next
  case on: True
  show ?thesis
  proof (cases "GetPlayerByName w tn")
    case None
    then show ?thesis using on by (simp add: SetMode_def Let_def index_players_IsOn)
  next
    case (Some target)
    show ?thesis
    proof (cases moderator)
      case False
      then show ?thesis using on Some
        by (auto simp add: SetMode_def Let_def index_players_IsOn)
    next
      case True
      show ?thesis
      proof (cases "GetObjectGuid target = m_ownerGuid c")
        case False
        then show ?thesis using on Some True
          by (auto simp add: SetMode_def Let_def index_players_IsOn)
      next
        case ow: True
        then have "fst (SetMode w plr tn moderator setv c) = c" using on Some True
          by (auto simp add: SetMode_def Let_def index_players_IsOn)
        then show ?thesis by simp
      qed
    qed
  qed
qed

lemma SetOwner_cmd_fst:
  "fst (SetOwner_cmd w plr tn c) = c
   \<or> (\<exists>tg ex. IsOn c tg
        \<and> (\<not> sec_level (GetSecurity plr) < sec_level SEC_GAMEMASTER \<or> GetObjectGuid plr = m_ownerGuid c)
        \<and> fst (SetOwner_cmd w plr tn c) = fst (SetOwner w tg ex c))"
  by (auto simp add: SetOwner_cmd_def Let_def split: option.splits)

lemma SetModerator_pres:
  "table_wf c \<Longrightarrow> table_wf (fst (SetModerator w g b c))"
  "map fst (m_players (fst (SetModerator w g b c))) = map fst (m_players c)"
  "owner_ok c \<Longrightarrow> g \<noteq> m_ownerGuid c \<Longrightarrow> owner_ok (fst (SetModerator w g b c))"
  "public_ownerless c \<Longrightarrow> public_ownerless (fst (SetModerator w g b c))"
  "ban_disjoint c \<Longrightarrow> ban_disjoint (fst (SetModerator w g b c))"
proof -
  show k: "map fst (m_players (fst (SetModerator w g b c))) = map fst (m_players c)"
    by (simp add: SetModerator_players split: option.splits)
  have m: "members (fst (SetModerator w g b c)) = members c"
    unfolding members_def using k by (metis list.set_map)
  show "table_wf c \<Longrightarrow> table_wf (fst (SetModerator w g b c))"
    by (auto simp: table_wf_def SetModerator_players set_players_apply split: option.splits)
  show "owner_ok c \<Longrightarrow> g \<noteq> m_ownerGuid c \<Longrightarrow> owner_ok (fst (SetModerator w g b c))"
    unfolding owner_ok_def m
    by (auto simp: SetModerator_frame SetModerator_players set_players_apply split: option.splits)
  show "public_ownerless c \<Longrightarrow> public_ownerless (fst (SetModerator w g b c))"
    by (simp add: public_ownerless_def IsPublic_def IsConstant_def SetModerator_frame)
  show "ban_disjoint c \<Longrightarrow> ban_disjoint (fst (SetModerator w g b c))"
    by (simp add: ban_disjoint_def m SetModerator_frame)
qed

lemma SetMute_pres:
  "table_wf c \<Longrightarrow> table_wf (fst (SetMute w g b c))"
  "map fst (m_players (fst (SetMute w g b c))) = map fst (m_players c)"
  "owner_ok c \<Longrightarrow> owner_ok (fst (SetMute w g b c))"
  "public_ownerless c \<Longrightarrow> public_ownerless (fst (SetMute w g b c))"
  "ban_disjoint c \<Longrightarrow> ban_disjoint (fst (SetMute w g b c))"
proof -
  show k: "map fst (m_players (fst (SetMute w g b c))) = map fst (m_players c)"
    by (simp add: SetMute_players split: option.splits)
  have m: "members (fst (SetMute w g b c)) = members c"
    unfolding members_def using k by (metis list.set_map)
  show "table_wf c \<Longrightarrow> table_wf (fst (SetMute w g b c))"
    by (auto simp: table_wf_def SetMute_players set_players_apply split: option.splits)
  show "owner_ok c \<Longrightarrow> owner_ok (fst (SetMute w g b c))"
    unfolding owner_ok_def m
    by (auto simp: SetMute_frame SetMute_players set_players_apply split: option.splits)
  show "public_ownerless c \<Longrightarrow> public_ownerless (fst (SetMute w g b c))"
    by (simp add: public_ownerless_def IsPublic_def IsConstant_def SetMute_frame)
  show "ban_disjoint c \<Longrightarrow> ban_disjoint (fst (SetMute w g b c))"
    by (simp add: ban_disjoint_def m SetMute_frame)
qed

lemma SetOwner_cmd_pres:
  assumes wf: "table_wf c"
  shows "table_wf (fst (SetOwner_cmd w plr tn c))"
    and "distinct (map fst (m_players c)) \<Longrightarrow>
         distinct (map fst (m_players (fst (SetOwner_cmd w plr tn c))))"
    and "ban_disjoint c \<Longrightarrow> ban_disjoint (fst (SetOwner_cmd w plr tn c))"
    and "owner_ok c \<Longrightarrow> public_ownerless c \<Longrightarrow> cmd_ok (CmdSetOwner plr tn) c \<Longrightarrow>
         owner_ok (fst (SetOwner_cmd w plr tn c)) \<and> public_ownerless (fst (SetOwner_cmd w plr tn c))"
proof -
  let ?c' = "fst (SetOwner_cmd w plr tn c)"
  have "table_wf ?c'
     \<and> (distinct (map fst (m_players c)) \<longrightarrow> distinct (map fst (m_players ?c')))
     \<and> (ban_disjoint c \<longrightarrow> ban_disjoint ?c')
     \<and> (owner_ok c \<longrightarrow> public_ownerless c \<longrightarrow> cmd_ok (CmdSetOwner plr tn) c
          \<longrightarrow> owner_ok ?c' \<and> public_ownerless ?c')"
  proof -
    consider (same) "?c' = c"
      | (owner) tg ex where "IsOn c tg"
          "\<not> sec_level (GetSecurity plr) < sec_level SEC_GAMEMASTER
                 \<or> GetObjectGuid plr = m_ownerGuid c"
          "?c' = fst (SetOwner w tg ex c)"
      using SetOwner_cmd_fst[of w plr tn c] by blast
    then show ?thesis
    proof cases
    case same
    then show ?thesis using wf by simp
  next
    case (owner tg ex)
    note on = owner(1) and auth = owner(2) and st = owner(3)
    have g: "tg = 0 \<or> tg \<in> members c" using on by (simp add: IsOn_members)
    have np: "public_ownerless c \<Longrightarrow> cmd_ok (CmdSetOwner plr tn) c \<Longrightarrow> \<not> IsPublic c"
      using auth by (auto simp add: public_ownerless_def)
    show ?thesis unfolding st
      using SetOwner_wf[OF wf g, where w = w and ex = ex] SetOwner_keys[OF g, where w = w and ex = ex]
        SetOwner_members[OF g, where w = w and ex = ex]
        SetOwner_owner_ok[OF g, where w = w and ex = ex] np
      by (auto simp add: ban_disjoint_def SetOwner_frame public_ownerless_def)
  qed
  qed
  then show "table_wf ?c'"
    "distinct (map fst (m_players c)) \<Longrightarrow> distinct (map fst (m_players ?c'))"
    "ban_disjoint c \<Longrightarrow> ban_disjoint ?c'"
    "owner_ok c \<Longrightarrow> public_ownerless c \<Longrightarrow> cmd_ok (CmdSetOwner plr tn) c \<Longrightarrow>
         owner_ok ?c' \<and> public_ownerless ?c'"
    by simp_all
qed

lemma SetMode_pres:
  assumes wf: "table_wf c"
  shows "table_wf (fst (SetMode w plr tn moderator setv c))"
    and "distinct (map fst (m_players c)) \<Longrightarrow>
         distinct (map fst (m_players (fst (SetMode w plr tn moderator setv c))))"
    and "ban_disjoint c \<Longrightarrow> ban_disjoint (fst (SetMode w plr tn moderator setv c))"
    and "owner_ok c \<Longrightarrow> public_ownerless c \<Longrightarrow>
         owner_ok (fst (SetMode w plr tn moderator setv c))
         \<and> public_ownerless (fst (SetMode w plr tn moderator setv c))"
proof -
  let ?c' = "fst (SetMode w plr tn moderator setv c)"
  have "table_wf ?c'
     \<and> (distinct (map fst (m_players c)) \<longrightarrow> distinct (map fst (m_players ?c')))
     \<and> (ban_disjoint c \<longrightarrow> ban_disjoint ?c')
     \<and> (owner_ok c \<longrightarrow> public_ownerless c \<longrightarrow> owner_ok ?c' \<and> public_ownerless ?c')"
  proof -
    consider (same) "?c' = c"
      | (smod) tg where "tg \<noteq> m_ownerGuid c" "?c' = fst (SetModerator w tg setv c)"
      | (smute) tg where "?c' = fst (SetMute w tg setv c)"
      using SetMode_fst[of w plr tn moderator setv c] by blast
    then show ?thesis
    proof cases
    case same
    then show ?thesis using wf by simp
  next
    case (smod tg)
    note st = smod(2)
    from smod show ?thesis unfolding st using wf SetModerator_pres[where c = c and w = w and g = tg and b = setv] by simp
  next
    case (smute tg)
    note st = smute(1)
    show ?thesis unfolding st using wf SetMute_pres[where c = c and w = w and g = tg and b = setv] by simp
  qed
  qed
  then show "table_wf ?c'"
    "distinct (map fst (m_players c)) \<Longrightarrow> distinct (map fst (m_players ?c'))"
    "ban_disjoint c \<Longrightarrow> ban_disjoint ?c'"
    "owner_ok c \<Longrightarrow> public_ownerless c \<Longrightarrow> owner_ok ?c' \<and> public_ownerless ?c'"
    by simp_all
qed

lemma ban_disjoint_shrink: "ban_disjoint c \<Longrightarrow> ban_disjoint (c\<lparr>m_banned := m_banned c - {t}\<rparr>)"
  by (auto simp add: ban_disjoint_def)

lemma players_banned_update [simp]: "m_players (c\<lparr>m_banned := B\<rparr>) = m_players c"
  by simp

lemma exec_pres:
  assumes wf: "table_wf c"
  shows "table_wf (fst (exec w cmd c))"
    and "distinct (map fst (m_players c)) \<Longrightarrow> distinct (map fst (m_players (fst (exec w cmd c))))"
    and "ban_disjoint c \<Longrightarrow> ban_disjoint (fst (exec w cmd c))"
    and "owner_ok c \<Longrightarrow> public_ownerless c \<Longrightarrow> cmd_ok cmd c \<Longrightarrow>
         owner_ok (fst (exec w cmd c)) \<and> public_ownerless (fst (exec w cmd c))"
proof -
  let ?c' = "fst (exec w cmd c)"
  have "table_wf ?c'
     \<and> (distinct (map fst (m_players c)) \<longrightarrow> distinct (map fst (m_players ?c')))
     \<and> (ban_disjoint c \<longrightarrow> ban_disjoint ?c')
     \<and> (owner_ok c \<longrightarrow> public_ownerless c \<longrightarrow> cmd_ok cmd c \<longrightarrow> owner_ok ?c' \<and> public_ownerless ?c')"
  proof (cases cmd)
    case (CmdJoin plr pw)
    then show ?thesis using Join_pres[OF wf, where w = w and plr = plr and pw = pw] by simp
  next
    case (CmdLeave plr send)
    then show ?thesis using Leave_pres[OF wf, where w = w and plr = plr and send = send] by simp
  next
    case (CmdKickOrBan plr tn ban)
    then show ?thesis using KickOrBan_pres[OF wf, where w = w and plr = plr and tn = tn and ban = ban] by simp
  next
    case (CmdUnBan plr tn)
    then show ?thesis using wf UnBan_fst[of w plr tn c] by (auto simp add: ban_disjoint_shrink)
  next
    case (CmdPassword plr pw)
    then show ?thesis using wf Password_fst[of w plr pw c] by auto
  next
    case (CmdSetMode plr tn moderator setv)
    then show ?thesis using SetMode_pres[OF wf, where w = w and plr = plr and tn = tn and moderator = moderator and setv = setv] by simp
  next
    case (CmdSetOwner plr tn)
    then show ?thesis using SetOwner_cmd_pres[OF wf, where w = w and plr = plr and tn = tn] by simp
  next
    case (CmdSendWhoOwner plr)
    then show ?thesis using wf by simp
  next
    case (CmdList plr)
    then show ?thesis using wf by simp
  next
    case (CmdAnnounce plr)
    then show ?thesis using wf Announce_fst[of w plr c] by auto
  next
    case (CmdModerate plr)
    then show ?thesis using wf Moderate_fst[of w plr c] by auto
  next
    case (CmdSay plr msg lang)
    then show ?thesis using wf by (simp add: Say_fst)
  next
    case (CmdInvite plr tn)
    then show ?thesis using wf by (simp add: Invite_fst)
  next
    case (CmdSetStatic state command)
    have e: "?c' = fst (SetStatic w state command c)"
      using CmdSetStatic by (simp add: split_beta)
    have k: "map fst (m_players ?c') = map fst (m_players c)"
      unfolding e by (rule SetStatic_pres(2)[OF wf])
    have m: "members ?c' = members c" unfolding members_def using k by (metis list.set_map)
    have b: "m_banned ?c' = m_banned c" unfolding e by (rule SetStatic_pres(3)[OF wf])
    show ?thesis using SetStatic_pres(1,4)[OF wf, where w = w and state = state and command = command] k m b unfolding e[symmetric]
      by (simp add: ban_disjoint_def)
  qed
  then show "table_wf ?c'"
    "distinct (map fst (m_players c)) \<Longrightarrow> distinct (map fst (m_players ?c'))"
    "ban_disjoint c \<Longrightarrow> ban_disjoint ?c'"
    "owner_ok c \<Longrightarrow> public_ownerless c \<Longrightarrow> cmd_ok cmd c \<Longrightarrow> owner_ok ?c' \<and> public_ownerless ?c'"
    by simp_all
qed

lemma run_pres:
  "table_wf c \<Longrightarrow> table_wf (run cmds c)"
  "table_wf c \<Longrightarrow> distinct (map fst (m_players c)) \<Longrightarrow> distinct (map fst (m_players (run cmds c)))"
  "table_wf c \<Longrightarrow> ban_disjoint c \<Longrightarrow> ban_disjoint (run cmds c)"
proof -
  show "table_wf c \<Longrightarrow> table_wf (run cmds c)"
    by (induction cmds arbitrary: c) (auto simp add: exec_pres)
  show "table_wf c \<Longrightarrow> distinct (map fst (m_players c)) \<Longrightarrow> distinct (map fst (m_players (run cmds c)))"
    by (induction cmds arbitrary: c) (auto simp add: exec_pres)
  show "table_wf c \<Longrightarrow> ban_disjoint c \<Longrightarrow> ban_disjoint (run cmds c)"
    by (induction cmds arbitrary: c) (auto simp add: exec_pres)
qed

lemma run_owner_pres:
  "table_wf c \<Longrightarrow> owner_ok c \<Longrightarrow> public_ownerless c \<Longrightarrow> admissible cmds c \<Longrightarrow>
   owner_ok (run cmds c) \<and> public_ownerless (run cmds c)"
proof (induction cmds arbitrary: c)
  case Nil
  then show ?case by simp
next
  case (Cons a cmds)
  obtain w cmd where a: "a = (w, cmd)" by (cases a)
  have ok: "cmd_ok cmd c" and ad: "admissible cmds (fst (exec w cmd c))"
    using Cons.prems(4) a by simp_all
  note e = exec_pres[OF Cons.prems(1), where w = w and cmd = cmd]
  show ?case unfolding a using Cons.IH[OF e(1) _ _ ad] e(4)[OF Cons.prems(2,3) ok] by simp
qed

lemma admissible_take: "admissible cmds c \<Longrightarrow> admissible (take n cmds) c"
proof (induction cmds arbitrary: c n)
  case Nil
  then show ?case by simp
next
  case (Cons a cmds)
  obtain w cmd where a: "a = (w, cmd)" by (cases a)
  show ?case using Cons a by (cases n) auto
qed

lemma Channel_new_preds:
  "table_wf (Channel_new w ch name)" "distinct (map fst (m_players (Channel_new w ch name)))"
  "ban_disjoint (Channel_new w ch name)" "owner_ok (Channel_new w ch name)"
  "public_ownerless (Channel_new w ch name)"
  by (simp_all add: Channel_new_def table_wf_def ban_disjoint_def owner_ok_def public_ownerless_def
      split: option.splits)

lemma owner_ok_flags:
  assumes "owner_ok c" "m_ownerGuid c \<noteq> 0"
  shows "IsOn c (m_ownerGuid c)"
    and "GetPlayerFlags c (m_ownerGuid c) AND MEMBER_FLAG_MODERATOR \<noteq> 0"
proof -
  have m: "m_ownerGuid c \<in> members c" using assms by (simp add: owner_ok_def)
  then show "IsOn c (m_ownerGuid c)" by (simp add: IsOn_members)
  from m have i: "(m_ownerGuid c, players_get (m_players c) (m_ownerGuid c)) \<in> set (m_players c)"
    by (simp add: members_def players_get_in_set)
  then have "IsModerator (players_get (m_players c) (m_ownerGuid c))"
    using assms by (auto simp add: owner_ok_def)
  moreover have "GetPlayerFlags c (m_ownerGuid c) = flags (players_get (m_players c) (m_ownerGuid c))"
    by (simp add: GetPlayerFlags_def players_get_def split: option.splits)
  ultimately show "GetPlayerFlags c (m_ownerGuid c) AND MEMBER_FLAG_MODERATOR \<noteq> 0"
    by (simp add: IsModerator_def)
qed

section \<open>The claims\<close>

text \<open>
  Claim C1 (owner invariant). As stated, for every sequence of channel operations from a fresh
  channel, a non-empty \<open>m_ownerGuid\<close> names a member holding the moderator bit. The code
  does not keep this: \<open>SetOwner(Player*, name)\<close> lets an actor of game-master security
  name an owner on a public channel, and \<open>Leave\<close> and \<open>KickOrBan\<close> run succession on
  non-public channels only. On the built-in channel "General": Gm joins, Bob joins, Gm makes
  Bob owner, Bob leaves; the owner guid is still Bob's and Bob is no member.
\<close>

theorem owner_invariant_counterexample:
  "m_ownerGuid (run [(world0, CmdJoin gm []), (world0, CmdJoin bob []),
                     (world0, CmdSetOwner gm ''Bob''), (world0, CmdLeave bob True)]
                  general_channel) \<noteq> 0
   \<and> \<not> IsOn (run [(world0, CmdJoin gm []), (world0, CmdJoin bob []),
                     (world0, CmdSetOwner gm ''Bob''), (world0, CmdLeave bob True)]
                  general_channel)
             (m_ownerGuid (run [(world0, CmdJoin gm []), (world0, CmdJoin bob []),
                     (world0, CmdSetOwner gm ''Bob''), (world0, CmdLeave bob True)]
                  general_channel))"
  by code_simp

text \<open>
  Claim C1, amended. For every run from a fresh channel in which no \<open>SetOwner\<close> command is
  issued on a public channel by an actor of game-master security or above (nor by an actor
  with an empty guid), after every command of the run: if \<open>m_ownerGuid\<close> is non-empty, it
  is a member and its flags include the moderator bit.
\<close>

theorem owner_invariant_admissible:
  assumes "admissible cmds (Channel_new w0 ch name)"
  shows "m_ownerGuid (run (take n cmds) (Channel_new w0 ch name)) \<noteq> 0 \<longrightarrow>
         IsOn (run (take n cmds) (Channel_new w0 ch name))
              (m_ownerGuid (run (take n cmds) (Channel_new w0 ch name)))
         \<and> GetPlayerFlags (run (take n cmds) (Channel_new w0 ch name))
              (m_ownerGuid (run (take n cmds) (Channel_new w0 ch name)))
             AND MEMBER_FLAG_MODERATOR \<noteq> 0"
proof -
  have "admissible (take n cmds) (Channel_new w0 ch name)"
    using assms by (rule admissible_take)
  then have "owner_ok (run (take n cmds) (Channel_new w0 ch name))"
    using run_owner_pres[OF Channel_new_preds(1,4,5)] by blast
  then show ?thesis using owner_ok_flags by blast
qed

theorem owner_invariant_admissible_witness:
  "admissible [(world0, CmdJoin alice []), (world0, CmdJoin bob []),
               (world0, CmdSetOwner alice ''Bob''), (world0, CmdLeave bob True)]
              (Channel_new world0 None ''test'')
   \<and> m_ownerGuid (run (take 4 [(world0, CmdJoin alice []), (world0, CmdJoin bob []),
               (world0, CmdSetOwner alice ''Bob''), (world0, CmdLeave bob True)])
              (Channel_new world0 None ''test'')) = 1
   \<and> IsOn (run (take 4 [(world0, CmdJoin alice []), (world0, CmdJoin bob []),
               (world0, CmdSetOwner alice ''Bob''), (world0, CmdLeave bob True)])
              (Channel_new world0 None ''test'')) 1
   \<and> GetPlayerFlags (run (take 4 [(world0, CmdJoin alice []), (world0, CmdJoin bob []),
               (world0, CmdSetOwner alice ''Bob''), (world0, CmdLeave bob True)])
              (Channel_new world0 None ''test'')) 1 AND MEMBER_FLAG_MODERATOR \<noteq> 0"
proof -
  let ?cmds = "[(world0, CmdJoin alice []), (world0, CmdJoin bob []),
               (world0, CmdSetOwner alice ''Bob''), (world0, CmdLeave bob True)]"
  have a: "admissible ?cmds (Channel_new world0 None ''test'')" by code_simp
  have o: "m_ownerGuid (run (take 4 ?cmds) (Channel_new world0 None ''test'')) = 1" by code_simp
  show ?thesis
    using a o owner_invariant_admissible[OF a, of 4] by simp
qed

lemma KickOrBan_ban_effect:
  assumes wf: "table_wf c"
    and "IsOn c (GetObjectGuid plr)" "GetPlayerByName w tn = Some target"
    "IsOn c (GetObjectGuid target)"
    "\<not> (\<not> IsModerator (players_get (m_players c) (GetObjectGuid plr))
         \<and> sec_level (GetSecurity plr) < sec_level SEC_GAMEMASTER)"
    "\<not> (sec_level (GetSecurity plr) < sec_level SEC_GAMEMASTER
        \<and> m_ownerGuid c = GetObjectGuid target \<and> GetObjectGuid plr \<noteq> m_ownerGuid c)"
  shows "members (fst (KickOrBan w plr tn ban c)) = members c - {GetObjectGuid target}"
    and "m_banned (fst (KickOrBan w plr tn ban c)) =
           (if ban then insert (GetObjectGuid target) (m_banned c) else m_banned c)"
proof -
  let ?tg = "GetObjectGuid target"
  let ?c1 = "(if ban \<and> \<not> IsBanned c ?tg then c\<lparr>m_banned := insert ?tg (m_banned c)\<rparr> else c)"
  let ?c2 = "?c1\<lparr>m_players := players_erase ?tg (m_players ?c1)\<rparr>"
  have wf1: "table_wf ?c1" using wf by simp
  have p1: "IsPublic ?c1 = IsPublic c" by simp
  note rp = remove_pres[OF wf1, where g = ?tg and changeowner = "m_ownerGuid c = ?tg" and w = w
        and ex = "length (m_players ?c2) > 1"]
  have st: "fst (KickOrBan w plr tn ban c) =
      (if m_ownerGuid c = ?tg \<and> \<not> IsPublic ?c1
       then fst (SetOwner w (SelectNewOwner ?c2) (length (m_players ?c2) > 1) ?c2)
       else ?c2)"
    unfolding p1
  proof (cases "m_ownerGuid c = ?tg \<and> \<not> IsPublic c")
    case True
    show "fst (KickOrBan w plr tn ban c) =
      (if m_ownerGuid c = ?tg \<and> \<not> IsPublic c
       then fst (SetOwner w (SelectNewOwner ?c2) (length (m_players ?c2) > 1) ?c2)
       else ?c2)"
      by (simp add: KickOrBan_proceeds[OF assms(2-6)] Let_def if_P[OF True] split del: if_split)
  next
    case False
    show "fst (KickOrBan w plr tn ban c) =
      (if m_ownerGuid c = ?tg \<and> \<not> IsPublic c
       then fst (SetOwner w (SelectNewOwner ?c2) (length (m_players ?c2) > 1) ?c2)
       else ?c2)"
      by (simp add: KickOrBan_proceeds[OF assms(2-6)] Let_def if_not_P[OF False] split del: if_split)
  qed
  show "members (fst (KickOrBan w plr tn ban c)) = members c - {?tg}"
    unfolding st rp(3) by simp
  show "m_banned (fst (KickOrBan w plr tn ban c)) =
           (if ban then insert ?tg (m_banned c) else m_banned c)"
    unfolding st rp(4) by (auto simp add: IsBanned_def)
qed

text \<open>
  Claim C2 (ban/membership disjointness). In every state reached from a fresh channel by any
  sequence of commands, no banned identity is a member. In such a state a \<open>KickOrBan\<close>
  with \<open>ban = true\<close> that passes its checks (actor a member, moderator or game master;
  target resolved and a member; not the owner-protection case) leaves the target in the ban
  set and out of the member table, the two still being disjoint; and a \<open>Join\<close> by a banned
  identity changes nothing and sends the joiner the Banned notice only.
\<close>

theorem banned_members_disjoint:
  assumes "c = run cmds (Channel_new w0 ch name)"
  shows "m_banned c \<inter> members c = {}
   \<and> (IsOn c (GetObjectGuid plr)
      \<and> (IsModerator (players_get (m_players c) (GetObjectGuid plr))
          \<or> \<not> sec_level (GetSecurity plr) < sec_level SEC_GAMEMASTER)
      \<and> GetPlayerByName w tn = Some target \<and> IsOn c (GetObjectGuid target)
      \<and> \<not> (sec_level (GetSecurity plr) < sec_level SEC_GAMEMASTER
            \<and> m_ownerGuid c = GetObjectGuid target \<and> GetObjectGuid plr \<noteq> m_ownerGuid c)
      \<longrightarrow> GetObjectGuid target \<in> m_banned (fst (KickOrBan w plr tn True c))
          \<and> \<not> IsOn (fst (KickOrBan w plr tn True c)) (GetObjectGuid target)
          \<and> m_banned (fst (KickOrBan w plr tn True c))
              \<inter> members (fst (KickOrBan w plr tn True c)) = {})
   \<and> (IsBanned c (GetObjectGuid joiner)
      \<longrightarrow> Join w joiner pw c = (c, SendToOne w (MakeBanned (m_name c)) (GetObjectGuid joiner)))"
proof -
  have wf: "table_wf c" unfolding assms by (rule run_pres(1)[OF Channel_new_preds(1)])
  have bd: "ban_disjoint c" unfolding assms
    by (rule run_pres(3)[OF Channel_new_preds(1) Channel_new_preds(3)])
  have 1: "m_banned c \<inter> members c = {}" using bd by (simp add: ban_disjoint_def)
  have 2: "GetObjectGuid target \<in> m_banned (fst (KickOrBan w plr tn True c))
          \<and> \<not> IsOn (fst (KickOrBan w plr tn True c)) (GetObjectGuid target)
          \<and> m_banned (fst (KickOrBan w plr tn True c))
              \<inter> members (fst (KickOrBan w plr tn True c)) = {}"
    if h: "IsOn c (GetObjectGuid plr)"
      "IsModerator (players_get (m_players c) (GetObjectGuid plr))
          \<or> \<not> sec_level (GetSecurity plr) < sec_level SEC_GAMEMASTER"
      "GetPlayerByName w tn = Some target" "IsOn c (GetObjectGuid target)"
      "\<not> (sec_level (GetSecurity plr) < sec_level SEC_GAMEMASTER
            \<and> m_ownerGuid c = GetObjectGuid target \<and> GetObjectGuid plr \<noteq> m_ownerGuid c)"
  proof -
    have nm: "\<not> (\<not> IsModerator (players_get (m_players c) (GetObjectGuid plr))
         \<and> sec_level (GetSecurity plr) < sec_level SEC_GAMEMASTER)" using h(2) by blast
    note e = KickOrBan_ban_effect[OF wf h(1) h(3) h(4) nm h(5), of True]
    show ?thesis using 1 unfolding e IsOn_members by auto
  qed
  have 3: "Join w joiner pw c = (c, SendToOne w (MakeBanned (m_name c)) (GetObjectGuid joiner))"
    if b: "IsBanned c (GetObjectGuid joiner)"
  proof -
    have "\<not> IsOn c (GetObjectGuid joiner)"
      using b 1 by (auto simp add: IsBanned_def IsOn_members)
    then show ?thesis using b by (simp add: Join_def Let_def)
  qed
  show ?thesis using 1 2 3 by blast
qed

theorem banned_members_disjoint_witness:
  "m_banned (run [(world0, CmdJoin alice []), (world0, CmdJoin bob [])] (Channel_new world0 None ''test''))
     \<inter> members (run [(world0, CmdJoin alice []), (world0, CmdJoin bob [])] (Channel_new world0 None ''test'')) = {}
   \<and> GetObjectGuid bob \<in> m_banned (fst (KickOrBan world0 alice ''Bob'' True
        (run [(world0, CmdJoin alice []), (world0, CmdJoin bob [])] (Channel_new world0 None ''test''))))
   \<and> \<not> IsOn (fst (KickOrBan world0 alice ''Bob'' True
        (run [(world0, CmdJoin alice []), (world0, CmdJoin bob [])] (Channel_new world0 None ''test''))))
        (GetObjectGuid bob)
   \<and> Join world0 bob []
        (run [(world0, CmdJoin alice []), (world0, CmdJoin bob []), (world0, CmdKickOrBan alice ''Bob'' True)]
           (Channel_new world0 None ''test''))
      = (run [(world0, CmdJoin alice []), (world0, CmdJoin bob []), (world0, CmdKickOrBan alice ''Bob'' True)]
           (Channel_new world0 None ''test''),
         [(2, SMSG_CHANNEL_NOTIFY CHAT_BANNED_NOTICE ''test'' [])])"
proof -
  let ?c = "run [(world0, CmdJoin alice []), (world0, CmdJoin bob [])] (Channel_new world0 None ''test'')"
  let ?d = "run [(world0, CmdJoin alice []), (world0, CmdJoin bob []), (world0, CmdKickOrBan alice ''Bob'' True)]
           (Channel_new world0 None ''test'')"
  have h1: "IsOn ?c (GetObjectGuid alice)
      \<and> (IsModerator (players_get (m_players ?c) (GetObjectGuid alice))
          \<or> \<not> sec_level (GetSecurity alice) < sec_level SEC_GAMEMASTER)
      \<and> GetPlayerByName world0 ''Bob'' = Some bob \<and> IsOn ?c (GetObjectGuid bob)
      \<and> \<not> (sec_level (GetSecurity alice) < sec_level SEC_GAMEMASTER
            \<and> m_ownerGuid ?c = GetObjectGuid bob \<and> GetObjectGuid alice \<noteq> m_ownerGuid ?c)"
    by code_simp
  have h2: "IsBanned ?d (GetObjectGuid bob)" by code_simp
  have h3: "SendToOne world0 (MakeBanned (m_name ?d)) (GetObjectGuid bob)
            = [(2, SMSG_CHANNEL_NOTIFY CHAT_BANNED_NOTICE ''test'' [])]" by code_simp
  show ?thesis
    using banned_members_disjoint[OF refl, of "[(world0, CmdJoin alice []), (world0, CmdJoin bob [])]"
            world0 None "''test''" alice world0 "''Bob''" bob]
          banned_members_disjoint[OF refl, of "[(world0, CmdJoin alice []), (world0, CmdJoin bob []),
              (world0, CmdKickOrBan alice ''Bob'' True)]" world0 None "''test''" _ _ _ _ bob "[]"]
          h1 h2 h3
    by simp
qed

lemma first_moderator_append:
  "\<forall>e \<in> set pre. \<not> IsModerator (snd e) \<Longrightarrow> first_moderator (pre @ pl) = first_moderator pl"
  by (induction pre) auto

lemma first_moderator_none:
  "\<forall>e \<in> set pl. \<not> IsModerator (snd e) \<Longrightarrow> first_moderator pl = None"
  by (induction pl) auto

lemma first_moderator_unique:
  "(k, i) \<in> set pl \<Longrightarrow> IsModerator i \<Longrightarrow>
   \<forall>e \<in> set pl. IsModerator (snd e) \<longrightarrow> e = (k, i) \<Longrightarrow>
   first_moderator pl = Some (player i)"
  by (induction pl) auto

text \<open>
  Claim C5 (succession determinism). On a well-formed table \<open>SelectNewOwner\<close> returns the
  first member, in iteration order, whose flags include moderator; when no member is a
  moderator, the first member of the table; on an empty table, the empty guid. With member
  \<open>a\<close> (no moderator), \<open>b\<close> (moderator) and \<open>d\<close> (no moderator) inserted in that order, it
  returns \<open>b\<close>, whatever the order of their guids.
\<close>

theorem SelectNewOwner_first_moderator:
  assumes "table_wf c"
  shows "(m_players c = pre @ (k, i) # post \<and> (\<forall>e \<in> set pre. \<not> IsModerator (snd e))
            \<and> IsModerator i \<longrightarrow> SelectNewOwner c = k)
       \<and> ((\<forall>e \<in> set (m_players c). \<not> IsModerator (snd e)) \<and> m_players c = (k, i) # post
            \<longrightarrow> SelectNewOwner c = k)
       \<and> (m_players c = [] \<longrightarrow> SelectNewOwner c = 0)
       \<and> (a \<noteq> b \<and> b \<noteq> d \<and> a \<noteq> d \<and> \<not> IsModerator pa \<and> IsModerator pb \<and> \<not> IsModerator pd
            \<and> m_players c = players_insert d pd (players_insert b pb (players_insert a pa []))
            \<longrightarrow> SelectNewOwner c = b)"
proof -
  have 1: "SelectNewOwner c = k"
    if "m_players c = pre @ (k, i) # post" "\<forall>e \<in> set pre. \<not> IsModerator (snd e)" "IsModerator i"
  proof -
    have "player i = k" using assms that(1) by (auto simp add: table_wf_def)
    then show ?thesis using that by (simp add: SelectNewOwner_def first_moderator_append)
  qed
  have 2: "SelectNewOwner c = k"
    if "\<forall>e \<in> set (m_players c). \<not> IsModerator (snd e)" "m_players c = (k, i) # post"
  proof -
    have "player i = k" using assms that(2) by (auto simp add: table_wf_def)
    then show ?thesis using that first_moderator_none[OF that(1)] by (simp add: SelectNewOwner_def)
  qed
  have 3: "m_players c = [] \<Longrightarrow> SelectNewOwner c = 0"
    by (simp add: SelectNewOwner_def)
  have 4: "SelectNewOwner c = b"
    if h: "a \<noteq> b" "b \<noteq> d" "a \<noteq> d" "\<not> IsModerator pa" "IsModerator pb" "\<not> IsModerator pd"
      "m_players c = players_insert d pd (players_insert b pb (players_insert a pa []))"
  proof -
    have s: "set (m_players c) = {(a, pa), (b, pb), (d, pd)}" unfolding h(7) by auto
    have "player pb = b" using assms s by (auto simp add: table_wf_def)
    moreover have "first_moderator (m_players c) = Some (player pb)"
      by (rule first_moderator_unique[where k = b]) (use s h in auto)
    ultimately show ?thesis by (simp add: SelectNewOwner_def)
  qed
  show ?thesis using 1 2 3 4 by blast
qed

theorem SelectNewOwner_first_moderator_witness:
  "table_wf (run [(world0, CmdJoin alice []), (world0, CmdJoin bob []), (world0, CmdJoin carol []),
            (world0, CmdSetOwner alice ''Bob''), (world0, CmdSetMode bob ''Alice'' True False)] test_channel)
   \<and> m_players (run [(world0, CmdJoin alice []), (world0, CmdJoin bob []), (world0, CmdJoin carol []),
            (world0, CmdSetOwner alice ''Bob''), (world0, CmdSetMode bob ''Alice'' True False)] test_channel)
      = [(1, \<lparr>player = 1, flags = 0\<rparr>)] @ (2, \<lparr>player = 2, flags = 3\<rparr>) # [(3, \<lparr>player = 3, flags = 0\<rparr>)]
   \<and> SelectNewOwner (run [(world0, CmdJoin alice []), (world0, CmdJoin bob []), (world0, CmdJoin carol []),
            (world0, CmdSetOwner alice ''Bob''), (world0, CmdSetMode bob ''Alice'' True False)] test_channel) = 2
   \<and> SelectNewOwner (test_channel\<lparr>m_players := [(1, \<lparr>player = 1, flags = 0\<rparr>), (3, \<lparr>player = 3, flags = 8\<rparr>)]\<rparr>) = 1
   \<and> SelectNewOwner test_channel = 0
   \<and> SelectNewOwner (test_channel\<lparr>m_players :=
        players_insert 3 \<lparr>player = 3, flags = 0\<rparr> (players_insert 7 \<lparr>player = 7, flags = 2\<rparr>
          (players_insert 5 \<lparr>player = 5, flags = 0\<rparr> []))\<rparr>) = 7"
proof -
  let ?c = "run [(world0, CmdJoin alice []), (world0, CmdJoin bob []), (world0, CmdJoin carol []),
            (world0, CmdSetOwner alice ''Bob''), (world0, CmdSetMode bob ''Alice'' True False)] test_channel"
  let ?pA = "\<lparr>player = 1, flags = 0\<rparr> :: PlayerInfo"
  let ?pB = "\<lparr>player = 2, flags = 3\<rparr> :: PlayerInfo"
  let ?pC = "\<lparr>player = 3, flags = 0\<rparr> :: PlayerInfo"
  let ?e = "test_channel\<lparr>m_players := [(1, \<lparr>player = 1, flags = 0\<rparr>), (3, \<lparr>player = 3, flags = 8\<rparr>)]\<rparr>"
  let ?f = "test_channel\<lparr>m_players :=
        players_insert 3 \<lparr>player = 3, flags = 0\<rparr> (players_insert 7 \<lparr>player = 7, flags = 2\<rparr>
          (players_insert 5 \<lparr>player = 5, flags = 0\<rparr> []))\<rparr>"
  have wf: "table_wf ?c" by code_simp
  have pl: "m_players ?c = [(1, ?pA)] @ (2, ?pB) # [(3, ?pC)]" by code_simp
  have h1: "(\<forall>e \<in> set [(1 :: ObjectGuid, ?pA)]. \<not> IsModerator (snd e)) \<and> IsModerator ?pB" by code_simp
  have wfe: "table_wf ?e" by code_simp
  have h2: "(\<forall>e \<in> set (m_players ?e). \<not> IsModerator (snd e))
            \<and> m_players ?e = (1, \<lparr>player = 1, flags = 0\<rparr>) # [(3, \<lparr>player = 3, flags = 8\<rparr>)]" by code_simp
  have wf0: "table_wf test_channel" by code_simp
  have h3: "m_players test_channel = []" by code_simp
  have wff: "table_wf ?f" by code_simp
  have h4: "(5 :: ObjectGuid) \<noteq> 7 \<and> (7 :: ObjectGuid) \<noteq> 3 \<and> (5 :: ObjectGuid) \<noteq> 3
     \<and> \<not> IsModerator \<lparr>player = 5, flags = 0\<rparr> \<and> IsModerator \<lparr>player = 7, flags = 2\<rparr>
     \<and> \<not> IsModerator \<lparr>player = 3, flags = 0\<rparr>" by code_simp
  have m4: "m_players ?f = players_insert 3 \<lparr>player = 3, flags = 0\<rparr> (players_insert 7 \<lparr>player = 7, flags = 2\<rparr>
          (players_insert 5 \<lparr>player = 5, flags = 0\<rparr> []))" by simp
  show ?thesis
    using wf pl h1 h2 h3 h4 m4
      SelectNewOwner_first_moderator[OF wf, of "[(1, ?pA)]" 2 ?pB "[(3, ?pC)]"]
      SelectNewOwner_first_moderator[OF wfe, of _ 1 "\<lparr>player = 1, flags = 0\<rparr>" "[(3, \<lparr>player = 3, flags = 8\<rparr>)]"]
      SelectNewOwner_first_moderator[OF wf0]
      SelectNewOwner_first_moderator[OF wff, of _ _ _ _ 5 7 3 "\<lparr>player = 5, flags = 0\<rparr>"
         "\<lparr>player = 7, flags = 2\<rparr>" "\<lparr>player = 3, flags = 0\<rparr>"]
    by simp
qed

text \<open>
  Claim C9 (SetMode, owner on themself, moderator role). When the actor is a member that is
  a moderator or has game-master security, the target name resolves, the toggled role is
  moderator and actor and target both are the current owner, \<open>SetMode\<close> returns at once:
  no packet is sent and the channel is unchanged, for granting as for removing.
\<close>

theorem SetMode_owner_self_noop:
  "IsOn c (GetObjectGuid plr)
   \<and> (IsModerator (players_get (m_players c) (GetObjectGuid plr))
       \<or> \<not> sec_level (GetSecurity plr) < sec_level SEC_GAMEMASTER)
   \<and> GetPlayerByName w tn = Some target
   \<and> GetObjectGuid plr = m_ownerGuid c \<and> GetObjectGuid target = m_ownerGuid c
   \<longrightarrow> SetMode w plr tn True setv c = (c, [])"
proof (intro impI, elim conjE)
  assume on: "IsOn c (GetObjectGuid plr)"
    and auth: "IsModerator (players_get (m_players c) (GetObjectGuid plr))
       \<or> \<not> sec_level (GetSecurity plr) < sec_level SEC_GAMEMASTER"
    and t: "GetPlayerByName w tn = Some target"
    and o1: "GetObjectGuid plr = m_ownerGuid c" and o2: "GetObjectGuid target = m_ownerGuid c"
  have nm: "\<not> (\<not> IsModerator (players_get (m_players c) (GetObjectGuid plr))
         \<and> sec_level (GetSecurity plr) < sec_level SEC_GAMEMASTER)" using auth by blast
  have both: "True \<and> GetObjectGuid plr = m_ownerGuid c \<and> GetObjectGuid target = m_ownerGuid c"
    using o1 o2 by simp
  have non: "\<not> \<not> IsOn c (GetObjectGuid plr)" using on by simp
  show "SetMode w plr tn True setv c = (c, [])"
    unfolding SetMode_def Let_def if_not_P[OF non] index_players_IsOn[OF on] prod.case
      if_not_P[OF nm] t option.case if_P[OF both]
    by (rule refl)
qed

theorem SetMode_owner_self_noop_witness:
  "IsOn (run [(world0, CmdJoin alice [])] test_channel) (GetObjectGuid alice)
   \<and> m_ownerGuid (run [(world0, CmdJoin alice [])] test_channel) = GetObjectGuid alice
   \<and> SetMode world0 alice ''Alice'' True False (run [(world0, CmdJoin alice [])] test_channel)
      = (run [(world0, CmdJoin alice [])] test_channel, [])"
proof -
  let ?c = "run [(world0, CmdJoin alice [])] test_channel"
  have h: "IsOn ?c (GetObjectGuid alice)
   \<and> (IsModerator (players_get (m_players ?c) (GetObjectGuid alice))
       \<or> \<not> sec_level (GetSecurity alice) < sec_level SEC_GAMEMASTER)
   \<and> GetPlayerByName world0 ''Alice'' = Some alice
   \<and> GetObjectGuid alice = m_ownerGuid ?c \<and> GetObjectGuid alice = m_ownerGuid ?c" by code_simp
  have r: "SetMode world0 alice ''Alice'' True False ?c = (?c, [])"
    by (rule SetMode_owner_self_noop[THEN mp, OF h])
  have a: "IsOn ?c (GetObjectGuid alice)" using h by blast
  have b: "m_ownerGuid ?c = GetObjectGuid alice" by (rule sym) (use h in blast)
  show ?thesis by (intro conjI a b r)
qed

lemma Password_unfold:
  assumes on: "IsOn c (GetObjectGuid plr)"
  shows "Password w plr pw c =
     (if \<not> IsModerator (players_get (m_players c) (GetObjectGuid plr))
         \<and> sec_level (GetSecurity plr) < sec_level SEC_GAMEMASTER
      then (c, SendToOne w (MakeNotModerator (m_name c)) (GetObjectGuid plr))
      else (c\<lparr>m_password := pw\<rparr>, SendToAll w c (MakePasswordChanged (m_name c) (GetObjectGuid plr))))"
proof -
  have non: "\<not> \<not> IsOn c (GetObjectGuid plr)" using on by simp
  show ?thesis
    unfolding Password_def Let_def if_not_P[OF non] index_players_IsOn[OF on] prod.case
    by (simp add: SendToAll_def split del: if_split cong: if_cong)
qed

lemma SetStatic_keys_to_static:
  "map fst (m_players (fst (SetStatic w True command c))) = map fst (m_players c)"
proof (cases rule: SetStatic_cases[of w True command c])
  case blocked
  then show ?thesis by simp
next
  case to_static
  note fr = strip_moderators_frame[of w "map fst (m_players c)" c]
  show ?thesis
    using fr by (simp add: SetStatic_to_static[OF to_static(2-6)] Let_def SetOwner_keys)
next
  case to_dynamic
  then show ?thesis by simp
qed

text \<open>
  Claim C10 (Password). A non-member actor gets the NotMember notice and a member that is no
  moderator and has less than game-master security gets NotModerator, the channel unchanged
  in both cases. Otherwise the password is replaced by the given string, whatever it was
  before, and PasswordChanged naming the actor is sent to all members. When the new password
  is empty, \<open>Join\<close> on the resulting channel no longer depends on the password supplied,
  and an explicit conversion to static succeeds exactly when the channel is custom, not
  built-in and not yet static.
\<close>

theorem Password_spec:
  "(\<not> IsOn c (GetObjectGuid plr) \<longrightarrow>
      Password w plr pw c = (c, SendToOne w (MakeNotMember (m_name c)) (GetObjectGuid plr)))
   \<and> (IsOn c (GetObjectGuid plr)
       \<and> \<not> IsModerator (players_get (m_players c) (GetObjectGuid plr))
       \<and> sec_level (GetSecurity plr) < sec_level SEC_GAMEMASTER \<longrightarrow>
      Password w plr pw c = (c, SendToOne w (MakeNotModerator (m_name c)) (GetObjectGuid plr)))
   \<and> (IsOn c (GetObjectGuid plr)
       \<and> (IsModerator (players_get (m_players c) (GetObjectGuid plr))
           \<or> \<not> sec_level (GetSecurity plr) < sec_level SEC_GAMEMASTER) \<longrightarrow>
      Password w plr pw c =
        (c\<lparr>m_password := pw\<rparr>,
         SendToAll w c (MakePasswordChanged (m_name c) (GetObjectGuid plr)))
      \<and> (pw = [] \<longrightarrow>
           Join w2 joiner pw1 (fst (Password w plr pw c)) = Join w2 joiner pw2 (fst (Password w plr pw c))
           \<and> snd (snd (SetStatic w2 True True (fst (Password w plr pw c))))
               = (\<not> IsConstant c \<and> HasFlag c CHANNEL_FLAG_CUSTOM \<and> \<not> m_static c)))"
proof -
  have 1: "Password w plr pw c = (c, SendToOne w (MakeNotMember (m_name c)) (GetObjectGuid plr))"
    if "\<not> IsOn c (GetObjectGuid plr)"
    using that by (simp add: Password_def Let_def)
  have 2: "Password w plr pw c = (c, SendToOne w (MakeNotModerator (m_name c)) (GetObjectGuid plr))"
    if on: "IsOn c (GetObjectGuid plr)"
      and nm: "\<not> IsModerator (players_get (m_players c) (GetObjectGuid plr))
               \<and> sec_level (GetSecurity plr) < sec_level SEC_GAMEMASTER"
    unfolding Password_unfold[OF on] if_P[OF nm] by (rule refl)
  have 3: "Password w plr pw c =
        (c\<lparr>m_password := pw\<rparr>,
         SendToAll w c (MakePasswordChanged (m_name c) (GetObjectGuid plr)))"
    if on: "IsOn c (GetObjectGuid plr)"
      and auth: "IsModerator (players_get (m_players c) (GetObjectGuid plr))
           \<or> \<not> sec_level (GetSecurity plr) < sec_level SEC_GAMEMASTER"
  proof -
    have nm: "\<not> (\<not> IsModerator (players_get (m_players c) (GetObjectGuid plr))
               \<and> sec_level (GetSecurity plr) < sec_level SEC_GAMEMASTER)" using auth by blast
    show ?thesis unfolding Password_unfold[OF on] if_not_P[OF nm] by (rule refl)
  qed
  have 4: "Join w2 joiner pw1 (c\<lparr>m_password := []\<rparr>) = Join w2 joiner pw2 (c\<lparr>m_password := []\<rparr>)"
    by (simp add: Join_def split del: if_split cong: if_cong)
  have 5: "snd (snd (SetStatic w2 True True (c\<lparr>m_password := []\<rparr>)))
               = (\<not> IsConstant c \<and> HasFlag c CHANNEL_FLAG_CUSTOM \<and> \<not> m_static c)"
  proof (cases "\<not> IsConstant c \<and> HasFlag c CHANNEL_FLAG_CUSTOM \<and> \<not> m_static c")
    case True
    then have a: "\<not> IsConstant (c\<lparr>m_password := []\<rparr>)" "HasFlag (c\<lparr>m_password := []\<rparr>) CHANNEL_FLAG_CUSTOM"
      "\<not> m_static (c\<lparr>m_password := []\<rparr>)" "m_password (c\<lparr>m_password := []\<rparr>) = []"
      by (simp_all add: IsConstant_def HasFlag_def)
    show ?thesis using True
      by (simp add: SetStatic_to_static[OF a, of True w2] Let_def)
  next
    case False
    then have "IsConstant (c\<lparr>m_password := []\<rparr>) \<or> \<not> HasFlag (c\<lparr>m_password := []\<rparr>) CHANNEL_FLAG_CUSTOM
      \<or> m_static (c\<lparr>m_password := []\<rparr>) = True"
      by (simp add: IsConstant_def HasFlag_def)
    then show ?thesis using False by (simp add: SetStatic_blocked)
  qed
  have 6: "Password w plr pw c =
        (c\<lparr>m_password := pw\<rparr>,
         SendToAll w c (MakePasswordChanged (m_name c) (GetObjectGuid plr)))
      \<and> (pw = [] \<longrightarrow>
           Join w2 joiner pw1 (fst (Password w plr pw c)) = Join w2 joiner pw2 (fst (Password w plr pw c))
           \<and> snd (snd (SetStatic w2 True True (fst (Password w plr pw c))))
               = (\<not> IsConstant c \<and> HasFlag c CHANNEL_FLAG_CUSTOM \<and> \<not> m_static c))"
    if on: "IsOn c (GetObjectGuid plr)"
      and auth: "IsModerator (players_get (m_players c) (GetObjectGuid plr))
           \<or> \<not> sec_level (GetSecurity plr) < sec_level SEC_GAMEMASTER"
  proof -
    have f: "fst (Password w plr pw c) = c\<lparr>m_password := pw\<rparr>"
      by (simp add: 3[OF on auth])
    show ?thesis unfolding f using 3[OF on auth] 4 5 by simp
  qed
  show ?thesis using 1 2 6 by blast
qed


theorem Password_spec_witness:
  "\<not> IsOn test_channel (GetObjectGuid bob)
   \<and> Password world0 bob ''pw'' test_channel
       = (test_channel, [(2, SMSG_CHANNEL_NOTIFY CHAT_NOT_MEMBER_NOTICE ''test'' [])])
   \<and> Password world0 bob ''pw'' (run [(world0, CmdJoin alice []), (world0, CmdJoin bob [])] test_channel)
       = (run [(world0, CmdJoin alice []), (world0, CmdJoin bob [])] test_channel,
          [(2, SMSG_CHANNEL_NOTIFY CHAT_NOT_MODERATOR_NOTICE ''test'' [])])
   \<and> Password world0 alice [] (run [(world0, CmdJoin alice []), (world0, CmdJoin bob []),
                                     (world0, CmdPassword alice ''old'')] test_channel)
       = ((run [(world0, CmdJoin alice []), (world0, CmdJoin bob []),
                (world0, CmdPassword alice ''old'')] test_channel)\<lparr>m_password := []\<rparr>,
          [(1, SMSG_CHANNEL_NOTIFY CHAT_PASSWORD_CHANGED_NOTICE ''test'' [FGuid 1]),
           (2, SMSG_CHANNEL_NOTIFY CHAT_PASSWORD_CHANGED_NOTICE ''test'' [FGuid 1])])
   \<and> Join world0 carol ''guess'' (fst (Password world0 alice []
          (run [(world0, CmdJoin alice []), (world0, CmdJoin bob []),
                (world0, CmdPassword alice ''old'')] test_channel)))
       = Join world0 carol [] (fst (Password world0 alice []
          (run [(world0, CmdJoin alice []), (world0, CmdJoin bob []),
                (world0, CmdPassword alice ''old'')] test_channel)))
   \<and> snd (snd (SetStatic world0 True True (fst (Password world0 alice []
          (run [(world0, CmdJoin alice []), (world0, CmdJoin bob []),
                (world0, CmdPassword alice ''old'')] test_channel)))))"
proof -
  let ?c1 = "run [(world0, CmdJoin alice []), (world0, CmdJoin bob [])] test_channel"
  let ?c2 = "run [(world0, CmdJoin alice []), (world0, CmdJoin bob []),
                (world0, CmdPassword alice ''old'')] test_channel"
  have h0: "\<not> IsOn test_channel (GetObjectGuid bob)" by code_simp
  have o0: "SendToOne world0 (MakeNotMember (m_name test_channel)) (GetObjectGuid bob)
            = [(2, SMSG_CHANNEL_NOTIFY CHAT_NOT_MEMBER_NOTICE ''test'' [])]" by code_simp
  have h1: "IsOn ?c1 (GetObjectGuid bob)
       \<and> \<not> IsModerator (players_get (m_players ?c1) (GetObjectGuid bob))
       \<and> sec_level (GetSecurity bob) < sec_level SEC_GAMEMASTER" by code_simp
  have o1: "SendToOne world0 (MakeNotModerator (m_name ?c1)) (GetObjectGuid bob)
            = [(2, SMSG_CHANNEL_NOTIFY CHAT_NOT_MODERATOR_NOTICE ''test'' [])]" by code_simp
  have h2: "IsOn ?c2 (GetObjectGuid alice)
       \<and> (IsModerator (players_get (m_players ?c2) (GetObjectGuid alice))
           \<or> \<not> sec_level (GetSecurity alice) < sec_level SEC_GAMEMASTER)" by code_simp
  have o2: "SendToAll world0 ?c2 (MakePasswordChanged (m_name ?c2) (GetObjectGuid alice))
            = [(1, SMSG_CHANNEL_NOTIFY CHAT_PASSWORD_CHANGED_NOTICE ''test'' [FGuid 1]),
               (2, SMSG_CHANNEL_NOTIFY CHAT_PASSWORD_CHANGED_NOTICE ''test'' [FGuid 1])]" by code_simp
  have s2: "\<not> IsConstant ?c2 \<and> HasFlag ?c2 CHANNEL_FLAG_CUSTOM \<and> \<not> m_static ?c2" by code_simp
  note a = Password_spec[of test_channel bob world0 "''pw''", THEN conjunct1, THEN mp, OF h0]
  note b = Password_spec[of ?c1 bob world0 "''pw''", THEN conjunct2, THEN conjunct1, THEN mp, OF h1]
  note c = Password_spec[of ?c2 alice world0 "[]" world0 carol "''guess''" "[]",
              THEN conjunct2, THEN conjunct2, THEN mp, OF h2]
  have A: "Password world0 bob ''pw'' test_channel
       = (test_channel, [(2, SMSG_CHANNEL_NOTIFY CHAT_NOT_MEMBER_NOTICE ''test'' [])])"
    by (simp only: a o0)
  have B: "Password world0 bob ''pw'' ?c1
       = (?c1, [(2, SMSG_CHANNEL_NOTIFY CHAT_NOT_MODERATOR_NOTICE ''test'' [])])"
    by (simp only: b o1)
  have C: "Password world0 alice [] ?c2
       = (?c2\<lparr>m_password := []\<rparr>,
          [(1, SMSG_CHANNEL_NOTIFY CHAT_PASSWORD_CHANGED_NOTICE ''test'' [FGuid 1]),
           (2, SMSG_CHANNEL_NOTIFY CHAT_PASSWORD_CHANGED_NOTICE ''test'' [FGuid 1])])"
    by (simp only: c[THEN conjunct1] o2)
  note d = c[THEN conjunct2, THEN mp, OF refl]
  have E: "snd (snd (SetStatic world0 True True (fst (Password world0 alice [] ?c2))))"
    by (rule iffD2[OF d[THEN conjunct2] s2])
  show ?thesis by (intro conjI h0 A B C d[THEN conjunct1] E)
qed

lemma Say_unfold:
  assumes on: "IsOn c (GetObjectGuid plr)"
  shows "Say w plr (Some txt) lang c =
     (if IsMuted (players_get (m_players c) (GetObjectGuid plr))
         \<or> (GetChannelId c = CHANNEL_ID_LOCAL_DEFENSE
             \<and> visualRank plr < SPEAK_IN_LOCALDEFENSE_RANK w)
         \<or> (GetChannelId c = CHANNEL_ID_WORLD_DEFENSE
             \<and> visualRank plr < SPEAK_IN_WORLDDEFENSE_RANK w)
      then (c, SendToOne w (MakeMuted (m_name c)) (GetObjectGuid plr))
      else if m_moderate c \<and> \<not> IsModerator (players_get (m_players c) (GetObjectGuid plr))
              \<and> sec_level (GetSecurity plr) < sec_level SEC_GAMEMASTER
      then (c, SendToOne w (MakeNotModerator (m_name c)) (GetObjectGuid plr))
      else if CONFIG_UINT32_CHANNEL_RESTRICTED_LANGUAGE_MODE w \<noteq> 0
              \<and> restricted w c \<and> \<not> CheckPublicMessageLanguage w txt
      then (c, SendToOne w (MakeMuted (m_name c)) (GetObjectGuid plr))
      else (c, SendMessage w c
                 (CHAT_MSG_CHANNEL txt
                    (if CONFIG_BOOL_ALLOW_TWO_SIDE_INTERACTION_CHANNEL w then LANG_UNIVERSAL else lang)
                    (GetObjectGuid plr) (GetName plr) (m_name c) (rank plr))
                 (if IsModerator (players_get (m_players c) (GetObjectGuid plr)) then 0
                  else GetObjectGuid plr)))"
proof -
  have non: "\<not> \<not> IsOn c (GetObjectGuid plr)" using on by simp
  show ?thesis
    unfolding Say_def Let_def option.case if_not_P[OF non] index_players_IsOn[OF on] prod.case
    by (rule refl)
qed

lemma restricted_iff:
  "(CONFIG_UINT32_CHANNEL_RESTRICTED_LANGUAGE_MODE w \<noteq> 0 \<and> restricted w c) =
   ((CONFIG_UINT32_CHANNEL_RESTRICTED_LANGUAGE_MODE w = 1 \<and> IsConstant c)
    \<or> (CONFIG_UINT32_CHANNEL_RESTRICTED_LANGUAGE_MODE w = 2 \<and> IsPublic c \<and> m_realmzone c)
    \<or> CONFIG_UINT32_CHANNEL_RESTRICTED_LANGUAGE_MODE w = 3)"
  by (auto simp add: restricted_def Let_def)

text \<open>
  Claim C7 (Say: failure gating). The checks of \<open>Say\<close> in the order of the code: a null
  text does nothing; a non-member gets NotMember; a member who is muted, or who speaks in the
  local-defense or world-defense channel below the required honor rank, gets Muted;
  otherwise, on a moderated channel, an actor who is neither moderator nor of game-master
  security gets NotModerator; otherwise, when the language-restriction mode applies to the
  channel (mode 1 on a built-in channel, mode 2 on a public realm-restricted channel, mode
  3 always) and the text fails the public-message-language check, the actor gets Muted.
  Each failure leaves the channel unchanged and sends that one notice to the actor and
  nothing to anyone else; the notice reaches the actor's session when the actor's guid
  resolves to the actor.
\<close>

theorem Say_failures:
  "Say w plr None lang c = (c, [])
   \<and> (\<not> IsOn c (GetObjectGuid plr) \<longrightarrow>
        Say w plr (Some txt) lang c = (c, SendToOne w (MakeNotMember (m_name c)) (GetObjectGuid plr)))
   \<and> (IsOn c (GetObjectGuid plr)
       \<and> (IsMuted (players_get (m_players c) (GetObjectGuid plr))
           \<or> (GetChannelId c = CHANNEL_ID_LOCAL_DEFENSE
               \<and> visualRank plr < SPEAK_IN_LOCALDEFENSE_RANK w)
           \<or> (GetChannelId c = CHANNEL_ID_WORLD_DEFENSE
               \<and> visualRank plr < SPEAK_IN_WORLDDEFENSE_RANK w)) \<longrightarrow>
        Say w plr (Some txt) lang c = (c, SendToOne w (MakeMuted (m_name c)) (GetObjectGuid plr)))
   \<and> (IsOn c (GetObjectGuid plr)
       \<and> \<not> (IsMuted (players_get (m_players c) (GetObjectGuid plr))
           \<or> (GetChannelId c = CHANNEL_ID_LOCAL_DEFENSE
               \<and> visualRank plr < SPEAK_IN_LOCALDEFENSE_RANK w)
           \<or> (GetChannelId c = CHANNEL_ID_WORLD_DEFENSE
               \<and> visualRank plr < SPEAK_IN_WORLDDEFENSE_RANK w))
       \<and> m_moderate c \<and> \<not> IsModerator (players_get (m_players c) (GetObjectGuid plr))
       \<and> sec_level (GetSecurity plr) < sec_level SEC_GAMEMASTER \<longrightarrow>
        Say w plr (Some txt) lang c = (c, SendToOne w (MakeNotModerator (m_name c)) (GetObjectGuid plr)))
   \<and> (IsOn c (GetObjectGuid plr)
       \<and> \<not> (IsMuted (players_get (m_players c) (GetObjectGuid plr))
           \<or> (GetChannelId c = CHANNEL_ID_LOCAL_DEFENSE
               \<and> visualRank plr < SPEAK_IN_LOCALDEFENSE_RANK w)
           \<or> (GetChannelId c = CHANNEL_ID_WORLD_DEFENSE
               \<and> visualRank plr < SPEAK_IN_WORLDDEFENSE_RANK w))
       \<and> \<not> (m_moderate c \<and> \<not> IsModerator (players_get (m_players c) (GetObjectGuid plr))
            \<and> sec_level (GetSecurity plr) < sec_level SEC_GAMEMASTER)
       \<and> ((CONFIG_UINT32_CHANNEL_RESTRICTED_LANGUAGE_MODE w = 1 \<and> IsConstant c)
           \<or> (CONFIG_UINT32_CHANNEL_RESTRICTED_LANGUAGE_MODE w = 2 \<and> IsPublic c \<and> m_realmzone c)
           \<or> CONFIG_UINT32_CHANNEL_RESTRICTED_LANGUAGE_MODE w = 3)
       \<and> \<not> CheckPublicMessageLanguage w txt \<longrightarrow>
        Say w plr (Some txt) lang c = (c, SendToOne w (MakeMuted (m_name c)) (GetObjectGuid plr)))
   \<and> (GetPlayer w (GetObjectGuid plr) = Some plr \<longrightarrow>
        SendToOne w pkt (GetObjectGuid plr) = [(GetObjectGuid plr, pkt)])"
proof -
  let ?mu = "IsMuted (players_get (m_players c) (GetObjectGuid plr))
           \<or> (GetChannelId c = CHANNEL_ID_LOCAL_DEFENSE
               \<and> visualRank plr < SPEAK_IN_LOCALDEFENSE_RANK w)
           \<or> (GetChannelId c = CHANNEL_ID_WORLD_DEFENSE
               \<and> visualRank plr < SPEAK_IN_WORLDDEFENSE_RANK w)"
  let ?mo = "m_moderate c \<and> \<not> IsModerator (players_get (m_players c) (GetObjectGuid plr))
            \<and> sec_level (GetSecurity plr) < sec_level SEC_GAMEMASTER"
  let ?la = "CONFIG_UINT32_CHANNEL_RESTRICTED_LANGUAGE_MODE w \<noteq> 0
              \<and> restricted w c \<and> \<not> CheckPublicMessageLanguage w txt"
  have 0: "Say w plr None lang c = (c, [])" by (simp add: Say_def)
  have 1: "Say w plr (Some txt) lang c = (c, SendToOne w (MakeNotMember (m_name c)) (GetObjectGuid plr))"
    if "\<not> IsOn c (GetObjectGuid plr)"
    using that by (simp add: Say_def Let_def)
  have 2: "Say w plr (Some txt) lang c = (c, SendToOne w (MakeMuted (m_name c)) (GetObjectGuid plr))"
    if on: "IsOn c (GetObjectGuid plr)" and mu: ?mu
    unfolding Say_unfold[OF on] if_P[OF mu] by (rule refl)
  have 3: "Say w plr (Some txt) lang c = (c, SendToOne w (MakeNotModerator (m_name c)) (GetObjectGuid plr))"
    if on: "IsOn c (GetObjectGuid plr)" and mu: "\<not> ?mu" and mo: ?mo
    unfolding Say_unfold[OF on] if_not_P[OF mu] if_P[OF mo] by (rule refl)
  have 4: "Say w plr (Some txt) lang c = (c, SendToOne w (MakeMuted (m_name c)) (GetObjectGuid plr))"
    if on: "IsOn c (GetObjectGuid plr)" and mu: "\<not> ?mu" and mo: "\<not> ?mo"
      and r: "(CONFIG_UINT32_CHANNEL_RESTRICTED_LANGUAGE_MODE w = 1 \<and> IsConstant c)
           \<or> (CONFIG_UINT32_CHANNEL_RESTRICTED_LANGUAGE_MODE w = 2 \<and> IsPublic c \<and> m_realmzone c)
           \<or> CONFIG_UINT32_CHANNEL_RESTRICTED_LANGUAGE_MODE w = 3"
      and l: "\<not> CheckPublicMessageLanguage w txt"
  proof -
    have la: ?la using r l restricted_iff[of w c] by blast
    show ?thesis unfolding Say_unfold[OF on] if_not_P[OF mu] if_not_P[OF mo] if_P[OF la]
      by (rule refl)
  qed
  have 5: "SendToOne w pkt (GetObjectGuid plr) = [(GetObjectGuid plr, pkt)]"
    if "GetPlayer w (GetObjectGuid plr) = Some plr"
    using that by (simp add: SendToOne_def)
  show ?thesis using 0 1 2 3 4 5 by blast
qed


theorem Say_failures_witness:
  "Say world0 bob (Some ''hi'') 7 test_channel
     = (test_channel, [(2, SMSG_CHANNEL_NOTIFY CHAT_NOT_MEMBER_NOTICE ''test'' [])])
   \<and> IsMuted (players_get (m_players (run [(world0, CmdJoin alice []), (world0, CmdJoin bob []),
          (world0, CmdSetMode alice ''Bob'' False True)] test_channel)) (GetObjectGuid bob))
   \<and> Say world0 bob (Some ''hi'') 7
        (run [(world0, CmdJoin alice []), (world0, CmdJoin bob []),
              (world0, CmdSetMode alice ''Bob'' False True)] test_channel)
     = (run [(world0, CmdJoin alice []), (world0, CmdJoin bob []),
              (world0, CmdSetMode alice ''Bob'' False True)] test_channel,
        [(2, SMSG_CHANNEL_NOTIFY CHAT_MUTED_NOTICE ''test'' [])])
   \<and> Say world0 bob (Some ''hi'') 7
        (run [(world0, CmdJoin alice []), (world0, CmdJoin bob []), (world0, CmdModerate alice)]
           test_channel)
     = (run [(world0, CmdJoin alice []), (world0, CmdJoin bob []), (world0, CmdModerate alice)]
           test_channel,
        [(2, SMSG_CHANNEL_NOTIFY CHAT_NOT_MODERATOR_NOTICE ''test'' [])])
   \<and> Say world_strict alice (Some ''hi'') 7 (run [(world0, CmdJoin alice [])] test_channel)
     = (run [(world0, CmdJoin alice [])] test_channel,
        [(1, SMSG_CHANNEL_NOTIFY CHAT_MUTED_NOTICE ''test'' [])])"
proof -
  let ?mu = "\<lambda>w plr c. IsMuted (players_get (m_players c) (GetObjectGuid plr))
           \<or> (GetChannelId c = CHANNEL_ID_LOCAL_DEFENSE
               \<and> visualRank plr < SPEAK_IN_LOCALDEFENSE_RANK w)
           \<or> (GetChannelId c = CHANNEL_ID_WORLD_DEFENSE
               \<and> visualRank plr < SPEAK_IN_WORLDDEFENSE_RANK w)"
  let ?mo = "\<lambda>plr c. m_moderate c \<and> \<not> IsModerator (players_get (m_players c) (GetObjectGuid plr))
            \<and> sec_level (GetSecurity plr) < sec_level SEC_GAMEMASTER"
  let ?cM = "run [(world0, CmdJoin alice []), (world0, CmdJoin bob []),
              (world0, CmdSetMode alice ''Bob'' False True)] test_channel"
  let ?cD = "run [(world0, CmdJoin alice []), (world0, CmdJoin bob []), (world0, CmdModerate alice)]
           test_channel"
  let ?cL = "run [(world0, CmdJoin alice [])] test_channel"
  have ha: "\<not> IsOn test_channel (GetObjectGuid bob)" by code_simp
  have hb: "IsOn ?cM (GetObjectGuid bob) \<and> ?mu world0 bob ?cM" by code_simp
  have im: "IsMuted (players_get (m_players ?cM) (GetObjectGuid bob))" by code_simp
  have hc: "IsOn ?cD (GetObjectGuid bob) \<and> \<not> ?mu world0 bob ?cD
            \<and> m_moderate ?cD \<and> \<not> IsModerator (players_get (m_players ?cD) (GetObjectGuid bob))
            \<and> sec_level (GetSecurity bob) < sec_level SEC_GAMEMASTER" by code_simp
  have hd: "IsOn ?cL (GetObjectGuid alice) \<and> \<not> ?mu world_strict alice ?cL \<and> \<not> ?mo alice ?cL
       \<and> ((CONFIG_UINT32_CHANNEL_RESTRICTED_LANGUAGE_MODE world_strict = 1 \<and> IsConstant ?cL)
           \<or> (CONFIG_UINT32_CHANNEL_RESTRICTED_LANGUAGE_MODE world_strict = 2 \<and> IsPublic ?cL \<and> m_realmzone ?cL)
           \<or> CONFIG_UINT32_CHANNEL_RESTRICTED_LANGUAGE_MODE world_strict = 3)
       \<and> \<not> CheckPublicMessageLanguage world_strict ''hi''" by code_simp
  have ga: "GetPlayer world0 (GetObjectGuid bob) = Some bob" by code_simp
  have gb: "GetPlayer world_strict (GetObjectGuid alice) = Some alice" by code_simp
  have n: "GetObjectGuid bob = 2" "GetObjectGuid alice = 1"
    "MakeNotMember (m_name test_channel) = SMSG_CHANNEL_NOTIFY CHAT_NOT_MEMBER_NOTICE ''test'' []"
    "MakeMuted (m_name ?cM) = SMSG_CHANNEL_NOTIFY CHAT_MUTED_NOTICE ''test'' []"
    "MakeNotModerator (m_name ?cD) = SMSG_CHANNEL_NOTIFY CHAT_NOT_MODERATOR_NOTICE ''test'' []"
    "MakeMuted (m_name ?cL) = SMSG_CHANNEL_NOTIFY CHAT_MUTED_NOTICE ''test'' []"
    by code_simp+
  note A = Say_failures[of world0 bob 7 test_channel "''hi''",
              THEN conjunct2, THEN conjunct1, THEN mp, OF ha]
  note A' = Say_failures[of world0 bob 7 test_channel "''hi''" "MakeNotMember (m_name test_channel)",
              THEN conjunct2, THEN conjunct2, THEN conjunct2, THEN conjunct2, THEN conjunct2, THEN mp, OF ga]
  note B = Say_failures[of world0 bob 7 ?cM "''hi''",
              THEN conjunct2, THEN conjunct2, THEN conjunct1, THEN mp, OF hb]
  note B' = Say_failures[of world0 bob 7 ?cM "''hi''" "MakeMuted (m_name ?cM)",
              THEN conjunct2, THEN conjunct2, THEN conjunct2, THEN conjunct2, THEN conjunct2, THEN mp, OF ga]
  note C = Say_failures[of world0 bob 7 ?cD "''hi''",
              THEN conjunct2, THEN conjunct2, THEN conjunct2, THEN conjunct1, THEN mp, OF hc]
  note C' = Say_failures[of world0 bob 7 ?cD "''hi''" "MakeNotModerator (m_name ?cD)",
              THEN conjunct2, THEN conjunct2, THEN conjunct2, THEN conjunct2, THEN conjunct2, THEN mp, OF ga]
  note D = Say_failures[of world_strict alice 7 ?cL "''hi''",
              THEN conjunct2, THEN conjunct2, THEN conjunct2, THEN conjunct2, THEN conjunct1, THEN mp, OF hd]
  note D' = Say_failures[of world_strict alice 7 ?cL "''hi''" "MakeMuted (m_name ?cL)",
              THEN conjunct2, THEN conjunct2, THEN conjunct2, THEN conjunct2, THEN conjunct2, THEN mp, OF gb]
  have a: "Say world0 bob (Some ''hi'') 7 test_channel
     = (test_channel, [(2, SMSG_CHANNEL_NOTIFY CHAT_NOT_MEMBER_NOTICE ''test'' [])])"
    by (simp only: A n A'[unfolded n])
  have b: "Say world0 bob (Some ''hi'') 7 ?cM = (?cM, [(2, SMSG_CHANNEL_NOTIFY CHAT_MUTED_NOTICE ''test'' [])])"
    by (simp only: B n B'[unfolded n])
  have c: "Say world0 bob (Some ''hi'') 7 ?cD
     = (?cD, [(2, SMSG_CHANNEL_NOTIFY CHAT_NOT_MODERATOR_NOTICE ''test'' [])])"
    by (simp only: C n C'[unfolded n])
  have d: "Say world_strict alice (Some ''hi'') 7 ?cL
     = (?cL, [(1, SMSG_CHANNEL_NOTIFY CHAT_MUTED_NOTICE ''test'' [])])"
    by (simp only: D n D'[unfolded n])
  show ?thesis by (intro conjI a im b c d)
qed

lemma SendMessage_no_sender:
  "SendMessage w c data 0 =
     concat (map (\<lambda>i. case GetPlayer w (fst i) of
                          None \<Rightarrow> []
                        | Some r \<Rightarrow> [(GetObjectGuid r, data)]) (m_players c))"
  unfolding SendMessage_def
  by (rule arg_cong[where f = concat], rule map_cong[OF refl]) (simp split: option.splits)

lemma SendMessage_sender:
  "sender \<noteq> 0 \<Longrightarrow>
   SendMessage w c data sender =
     concat (map (\<lambda>i. case GetPlayer w (fst i) of
                          None \<Rightarrow> []
                        | Some r \<Rightarrow> if HasIgnore r sender then []
                                    else [(GetObjectGuid r, data)]) (m_players c))"
  unfolding SendMessage_def
  by (rule arg_cong[where f = concat], rule map_cong[OF refl]) (simp split: option.splits)

text \<open>
  Claim C3 (who receives a Say). As stated, a moderator's message reaches every member except
  the moderator, and delivery always skips recipients who ignore the sender. The code passes
  the empty guid to \<open>SendMessage\<close> when the sender is a moderator, and \<open>SendMessage\<close>
  uses that argument for the ignore check only: nobody is excluded. Alice, owner and
  moderator of "test", speaks; the payload goes to Alice herself, to Bob, and to Carol, who
  has Alice on her ignore list.
\<close>

theorem Say_moderator_counterexample:
  "IsModerator (players_get (m_players
      (run [(world0, CmdJoin alice []), (world0, CmdJoin bob []), (world0, CmdJoin carol [])]
         test_channel)) (GetObjectGuid alice))
   \<and> HasIgnore carol (GetObjectGuid alice)
   \<and> Say world0 alice (Some ''hi'') 7
        (run [(world0, CmdJoin alice []), (world0, CmdJoin bob []), (world0, CmdJoin carol [])]
           test_channel)
     = (run [(world0, CmdJoin alice []), (world0, CmdJoin bob []), (world0, CmdJoin carol [])]
           test_channel,
        [(GetObjectGuid alice, CHAT_MSG_CHANNEL ''hi'' 7 1 ''Alice'' ''test'' 0),
         (GetObjectGuid bob, CHAT_MSG_CHANNEL ''hi'' 7 1 ''Alice'' ''test'' 0),
         (GetObjectGuid carol, CHAT_MSG_CHANNEL ''hi'' 7 1 ''Alice'' ''test'' 0)])"
  by code_simp

text \<open>
  Claim C3, amended. For every successful \<open>Say\<close> by a sender with a non-empty guid, the
  channel is unchanged and the chat payload is handed, in table order, to every member whose
  guid resolves to a player, the sender included. When the sender holds the moderator role
  no recipient is skipped (ignore lists are not consulted); when the sender is no moderator,
  exactly the recipients who have the sender on their ignore list are skipped.
\<close>

theorem Say_delivery:
  "IsOn c (GetObjectGuid plr) \<and> GetObjectGuid plr \<noteq> 0
   \<and> \<not> (IsMuted (players_get (m_players c) (GetObjectGuid plr))
           \<or> (GetChannelId c = CHANNEL_ID_LOCAL_DEFENSE
               \<and> visualRank plr < SPEAK_IN_LOCALDEFENSE_RANK w)
           \<or> (GetChannelId c = CHANNEL_ID_WORLD_DEFENSE
               \<and> visualRank plr < SPEAK_IN_WORLDDEFENSE_RANK w))
   \<and> \<not> (m_moderate c \<and> \<not> IsModerator (players_get (m_players c) (GetObjectGuid plr))
            \<and> sec_level (GetSecurity plr) < sec_level SEC_GAMEMASTER)
   \<and> \<not> (((CONFIG_UINT32_CHANNEL_RESTRICTED_LANGUAGE_MODE w = 1 \<and> IsConstant c)
           \<or> (CONFIG_UINT32_CHANNEL_RESTRICTED_LANGUAGE_MODE w = 2 \<and> IsPublic c \<and> m_realmzone c)
           \<or> CONFIG_UINT32_CHANNEL_RESTRICTED_LANGUAGE_MODE w = 3)
          \<and> \<not> CheckPublicMessageLanguage w msg)
   \<and> lang_sent = (if CONFIG_BOOL_ALLOW_TWO_SIDE_INTERACTION_CHANNEL w then LANG_UNIVERSAL else lang)
   \<and> data = CHAT_MSG_CHANNEL msg lang_sent (GetObjectGuid plr) (GetName plr) (m_name c) (rank plr)
   \<longrightarrow>
   fst (Say w plr (Some msg) lang c) = c
   \<and> (IsModerator (players_get (m_players c) (GetObjectGuid plr)) \<longrightarrow>
        snd (Say w plr (Some msg) lang c) =
          concat (map (\<lambda>i. case GetPlayer w (fst i) of
                               None \<Rightarrow> []
                             | Some r \<Rightarrow> [(GetObjectGuid r, data)]) (m_players c)))
   \<and> (\<not> IsModerator (players_get (m_players c) (GetObjectGuid plr)) \<longrightarrow>
        snd (Say w plr (Some msg) lang c) =
          concat (map (\<lambda>i. case GetPlayer w (fst i) of
                               None \<Rightarrow> []
                             | Some r \<Rightarrow> if HasIgnore r (GetObjectGuid plr) then []
                                         else [(GetObjectGuid r, data)]) (m_players c)))"
proof (intro impI, elim conjE)
  let ?mu = "IsMuted (players_get (m_players c) (GetObjectGuid plr))
           \<or> (GetChannelId c = CHANNEL_ID_LOCAL_DEFENSE
               \<and> visualRank plr < SPEAK_IN_LOCALDEFENSE_RANK w)
           \<or> (GetChannelId c = CHANNEL_ID_WORLD_DEFENSE
               \<and> visualRank plr < SPEAK_IN_WORLDDEFENSE_RANK w)"
  let ?mo = "m_moderate c \<and> \<not> IsModerator (players_get (m_players c) (GetObjectGuid plr))
            \<and> sec_level (GetSecurity plr) < sec_level SEC_GAMEMASTER"
  let ?la = "CONFIG_UINT32_CHANNEL_RESTRICTED_LANGUAGE_MODE w \<noteq> 0
              \<and> restricted w c \<and> \<not> CheckPublicMessageLanguage w msg"
  assume on: "IsOn c (GetObjectGuid plr)" and nz: "GetObjectGuid plr \<noteq> 0"
    and mu: "\<not> ?mu" and mo: "\<not> ?mo"
    and r: "\<not> (((CONFIG_UINT32_CHANNEL_RESTRICTED_LANGUAGE_MODE w = 1 \<and> IsConstant c)
           \<or> (CONFIG_UINT32_CHANNEL_RESTRICTED_LANGUAGE_MODE w = 2 \<and> IsPublic c \<and> m_realmzone c)
           \<or> CONFIG_UINT32_CHANNEL_RESTRICTED_LANGUAGE_MODE w = 3)
          \<and> \<not> CheckPublicMessageLanguage w msg)"
    and l: "lang_sent = (if CONFIG_BOOL_ALLOW_TWO_SIDE_INTERACTION_CHANNEL w then LANG_UNIVERSAL else lang)"
    and d: "data = CHAT_MSG_CHANNEL msg lang_sent (GetObjectGuid plr) (GetName plr) (m_name c) (rank plr)"
  have la: "\<not> ?la" using r restricted_iff[of w c] by blast
  have s: "Say w plr (Some msg) lang c =
      (c, SendMessage w c data
            (if IsModerator (players_get (m_players c) (GetObjectGuid plr)) then 0
             else GetObjectGuid plr))"
    unfolding Say_unfold[OF on] if_not_P[OF mu] if_not_P[OF mo] if_not_P[OF la] d l by (rule refl)
  have a: "fst (Say w plr (Some msg) lang c) = c" by (simp add: s)
  have b: "snd (Say w plr (Some msg) lang c) =
          concat (map (\<lambda>i. case GetPlayer w (fst i) of
                               None \<Rightarrow> []
                             | Some r \<Rightarrow> [(GetObjectGuid r, data)]) (m_players c))"
    if "IsModerator (players_get (m_players c) (GetObjectGuid plr))"
    using that by (simp add: s SendMessage_no_sender)
  have e: "snd (Say w plr (Some msg) lang c) =
          concat (map (\<lambda>i. case GetPlayer w (fst i) of
                               None \<Rightarrow> []
                             | Some r \<Rightarrow> if HasIgnore r (GetObjectGuid plr) then []
                                         else [(GetObjectGuid r, data)]) (m_players c))"
    if "\<not> IsModerator (players_get (m_players c) (GetObjectGuid plr))"
    using that by (simp add: s SendMessage_sender[OF nz])
  show "fst (Say w plr (Some msg) lang c) = c
   \<and> (IsModerator (players_get (m_players c) (GetObjectGuid plr)) \<longrightarrow>
        snd (Say w plr (Some msg) lang c) =
          concat (map (\<lambda>i. case GetPlayer w (fst i) of
                               None \<Rightarrow> []
                             | Some r \<Rightarrow> [(GetObjectGuid r, data)]) (m_players c)))
   \<and> (\<not> IsModerator (players_get (m_players c) (GetObjectGuid plr)) \<longrightarrow>
        snd (Say w plr (Some msg) lang c) =
          concat (map (\<lambda>i. case GetPlayer w (fst i) of
                               None \<Rightarrow> []
                             | Some r \<Rightarrow> if HasIgnore r (GetObjectGuid plr) then []
                                         else [(GetObjectGuid r, data)]) (m_players c)))"
    using a b e by blast
qed


theorem Say_delivery_witness:
  "snd (Say world0 alice (Some ''hi'') 7
        (run [(world0, CmdJoin alice []), (world0, CmdJoin bob []), (world0, CmdJoin carol [])]
           test_channel))
     = [(1, CHAT_MSG_CHANNEL ''hi'' 7 1 ''Alice'' ''test'' 0),
        (2, CHAT_MSG_CHANNEL ''hi'' 7 1 ''Alice'' ''test'' 0),
        (3, CHAT_MSG_CHANNEL ''hi'' 7 1 ''Alice'' ''test'' 0)]
   \<and> snd (Say world0 bob (Some ''hi'') 7
        (run [(world0, CmdJoin alice []), (world0, CmdJoin bob []), (world0, CmdJoin carol [])]
           test_channel))
     = [(1, CHAT_MSG_CHANNEL ''hi'' 7 2 ''Bob'' ''test'' 0),
        (2, CHAT_MSG_CHANNEL ''hi'' 7 2 ''Bob'' ''test'' 0)]"
proof -
  let ?c = "run [(world0, CmdJoin alice []), (world0, CmdJoin bob []), (world0, CmdJoin carol [])]
           test_channel"
  let ?dA = "CHAT_MSG_CHANNEL ''hi'' 7 1 ''Alice'' ''test'' 0"
  let ?dB = "CHAT_MSG_CHANNEL ''hi'' 7 2 ''Bob'' ''test'' 0"
  let ?hyp = "\<lambda>plr data. IsOn ?c (GetObjectGuid plr) \<and> GetObjectGuid plr \<noteq> 0
   \<and> \<not> (IsMuted (players_get (m_players ?c) (GetObjectGuid plr))
           \<or> (GetChannelId ?c = CHANNEL_ID_LOCAL_DEFENSE
               \<and> visualRank plr < SPEAK_IN_LOCALDEFENSE_RANK world0)
           \<or> (GetChannelId ?c = CHANNEL_ID_WORLD_DEFENSE
               \<and> visualRank plr < SPEAK_IN_WORLDDEFENSE_RANK world0))
   \<and> \<not> (m_moderate ?c \<and> \<not> IsModerator (players_get (m_players ?c) (GetObjectGuid plr))
            \<and> sec_level (GetSecurity plr) < sec_level SEC_GAMEMASTER)
   \<and> \<not> (((CONFIG_UINT32_CHANNEL_RESTRICTED_LANGUAGE_MODE world0 = 1 \<and> IsConstant ?c)
           \<or> (CONFIG_UINT32_CHANNEL_RESTRICTED_LANGUAGE_MODE world0 = 2 \<and> IsPublic ?c \<and> m_realmzone ?c)
           \<or> CONFIG_UINT32_CHANNEL_RESTRICTED_LANGUAGE_MODE world0 = 3)
          \<and> \<not> CheckPublicMessageLanguage world0 ''hi'')
   \<and> (7 :: 32 word) = (if CONFIG_BOOL_ALLOW_TWO_SIDE_INTERACTION_CHANNEL world0 then LANG_UNIVERSAL else 7)
   \<and> data = CHAT_MSG_CHANNEL ''hi'' 7 (GetObjectGuid plr) (GetName plr) (m_name ?c) (rank plr)"
  have hA: "?hyp alice ?dA" by code_simp
  have hB: "?hyp bob ?dB" by code_simp
  have mA: "IsModerator (players_get (m_players ?c) (GetObjectGuid alice))" by code_simp
  have mB: "\<not> IsModerator (players_get (m_players ?c) (GetObjectGuid bob))" by code_simp
  have rA: "concat (map (\<lambda>i. case GetPlayer world0 (fst i) of
                               None \<Rightarrow> []
                             | Some r \<Rightarrow> [(GetObjectGuid r, ?dA)]) (m_players ?c))
            = [(1, ?dA), (2, ?dA), (3, ?dA)]" by code_simp
  have rB: "concat (map (\<lambda>i. case GetPlayer world0 (fst i) of
                               None \<Rightarrow> []
                             | Some r \<Rightarrow> if HasIgnore r (GetObjectGuid bob) then []
                                         else [(GetObjectGuid r, ?dB)]) (m_players ?c))
            = [(1, ?dB), (2, ?dB)]" by code_simp
  note A = Say_delivery[where c = ?c and plr = alice and w = world0 and msg = "''hi''"
             and lang = 7 and lang_sent = 7 and data = ?dA, THEN mp, OF hA,
             THEN conjunct2, THEN conjunct1, THEN mp, OF mA]
  note B = Say_delivery[where c = ?c and plr = bob and w = world0 and msg = "''hi''"
             and lang = 7 and lang_sent = 7 and data = ?dB, THEN mp, OF hB,
             THEN conjunct2, THEN conjunct2, THEN mp, OF mB]
  show ?thesis by (intro conjI trans[OF A rA] trans[OF B rB])
qed

lemma announces_players_update [simp]:
  "announces w plr (c\<lparr>m_players := pl\<rparr>) = announces w plr c"
  by (simp add: announces_def)

lemma Leave_unfold:
  assumes on: "IsOn c (GetObjectGuid plr)"
  shows "Leave w plr send c =
     (let c2 = c\<lparr>m_players := players_erase (GetObjectGuid plr) (m_players c)\<rparr>;
          ow = (if IsOwner (players_get (m_players c) (GetObjectGuid plr)) \<and> \<not> IsPublic c
                then SetOwner w (SelectNewOwner c2) (length (m_players c2) > 1) c2
                else (c2, []))
      in (fst ow,
          (if send then SendToOne w (MakeYouLeft (m_name c)) (GetObjectGuid plr) else [])
          @ (if announces w plr c then SendToAll w c2 (MakeLeft (m_name c) (GetObjectGuid plr)) else [])
          @ snd ow))"
proof -
  have non: "\<not> \<not> IsOn c (GetObjectGuid plr)" using on by simp
  show ?thesis
    unfolding Leave_def Let_def if_not_P[OF non] index_players_IsOn[OF on] prod.case
    by (simp add: split_beta split del: if_split cong: if_cong)
qed

lemma Join_out_prefix:
  assumes "\<not> IsOn c (GetObjectGuid plr)" "\<not> IsBanned c (GetObjectGuid plr)"
    "\<not> (length (m_password c) > 0 \<and> pw \<noteq> m_password c)"
    "\<not> (GetGuildId plr \<noteq> 0 \<and> GetFlags c = 0x38)"
  shows "\<exists>rest. snd (Join w plr pw c) =
     (if announces w plr c then SendToAll w c (MakeJoined (m_name c) (GetObjectGuid plr)) else [])
     @ rest"
  unfolding Join_def Let_def if_not_P[OF assms(1)] if_not_P[OF assms(2)] if_not_P[OF assms(3)]
    if_not_P[OF assms(4)]
  by (simp add: split_beta split del: if_split)

text \<open>
  Claim C8 (Leave of an owner). When a member whose entry carries the owner bit leaves a
  channel that is not public, the packets are: the private "you left" notice if requested;
  then the "left" notice to the remaining members, under the condition that also gates the
  "joined" notice of \<open>Join\<close> (announcements on, and the player below game-master security
  or silent GM joins off); then those of owner succession. Succession runs whatever the
  value of \<open>m_announce\<close>: the new owner is \<open>SelectNewOwner\<close> of the remaining table.
\<close>

theorem Leave_owner_succession:
  "IsOn c (GetObjectGuid plr) \<and> IsOwner (players_get (m_players c) (GetObjectGuid plr))
   \<and> \<not> IsPublic c
   \<and> c2 = c\<lparr>m_players := players_erase (GetObjectGuid plr) (m_players c)\<rparr>
   \<longrightarrow>
   Leave w plr send c =
     (fst (SetOwner w (SelectNewOwner c2) (length (m_players c2) > 1) c2),
      (if send then SendToOne w (MakeYouLeft (m_name c)) (GetObjectGuid plr) else [])
      @ (if m_announce c
            \<and> (sec_level (GetSecurity plr) < sec_level SEC_GAMEMASTER
                \<or> \<not> CONFIG_BOOL_CHANNEL_GM_JOIN_SILENTLY w)
         then SendToAll w c2 (MakeLeft (m_name c) (GetObjectGuid plr)) else [])
      @ snd (SetOwner w (SelectNewOwner c2) (length (m_players c2) > 1) c2))
   \<and> m_ownerGuid (fst (Leave w plr send c)) = SelectNewOwner c2
   \<and> (\<not> IsOn c (GetObjectGuid joiner) \<and> \<not> IsBanned c (GetObjectGuid joiner)
       \<and> (m_password c = [] \<or> pw = m_password c)
       \<and> (GetGuildId joiner = 0 \<or> GetFlags c \<noteq> 0x38)
       \<longrightarrow> (\<exists>rest. snd (Join w joiner pw c) =
             (if m_announce c
                 \<and> (sec_level (GetSecurity joiner) < sec_level SEC_GAMEMASTER
                     \<or> \<not> CONFIG_BOOL_CHANNEL_GM_JOIN_SILENTLY w)
              then SendToAll w c (MakeJoined (m_name c) (GetObjectGuid joiner)) else [])
             @ rest))"
proof (intro impI, elim conjE)
  assume on: "IsOn c (GetObjectGuid plr)"
    and ow: "IsOwner (players_get (m_players c) (GetObjectGuid plr))"
    and np: "\<not> IsPublic c"
    and c2: "c2 = c\<lparr>m_players := players_erase (GetObjectGuid plr) (m_players c)\<rparr>"
  have ch: "IsOwner (players_get (m_players c) (GetObjectGuid plr)) \<and> \<not> IsPublic c"
    using ow np by simp
  have a: "Leave w plr send c =
     (fst (SetOwner w (SelectNewOwner c2) (length (m_players c2) > 1) c2),
      (if send then SendToOne w (MakeYouLeft (m_name c)) (GetObjectGuid plr) else [])
      @ (if m_announce c
            \<and> (sec_level (GetSecurity plr) < sec_level SEC_GAMEMASTER
                \<or> \<not> CONFIG_BOOL_CHANNEL_GM_JOIN_SILENTLY w)
         then SendToAll w c2 (MakeLeft (m_name c) (GetObjectGuid plr)) else [])
      @ snd (SetOwner w (SelectNewOwner c2) (length (m_players c2) > 1) c2))"
    unfolding Leave_unfold[OF on] Let_def if_P[OF ch] c2 announces_def by (rule refl)
  have b: "m_ownerGuid (fst (Leave w plr send c)) = SelectNewOwner c2"
    by (simp add: a SetOwner_frame)
  have j: "\<exists>rest. snd (Join w joiner pw c) =
             (if m_announce c
                 \<and> (sec_level (GetSecurity joiner) < sec_level SEC_GAMEMASTER
                     \<or> \<not> CONFIG_BOOL_CHANNEL_GM_JOIN_SILENTLY w)
              then SendToAll w c (MakeJoined (m_name c) (GetObjectGuid joiner)) else [])
             @ rest"
    if h: "\<not> IsOn c (GetObjectGuid joiner)" "\<not> IsBanned c (GetObjectGuid joiner)"
      "m_password c = [] \<or> pw = m_password c" "GetGuildId joiner = 0 \<or> GetFlags c \<noteq> 0x38"
  proof -
    have p: "\<not> (length (m_password c) > 0 \<and> pw \<noteq> m_password c)" using h(3) by auto
    have g: "\<not> (GetGuildId joiner \<noteq> 0 \<and> GetFlags c = 0x38)" using h(4) by auto
    show ?thesis using Join_out_prefix[OF h(1) h(2) p g, of w] unfolding announces_def .
  qed
  show "Leave w plr send c =
     (fst (SetOwner w (SelectNewOwner c2) (length (m_players c2) > 1) c2),
      (if send then SendToOne w (MakeYouLeft (m_name c)) (GetObjectGuid plr) else [])
      @ (if m_announce c
            \<and> (sec_level (GetSecurity plr) < sec_level SEC_GAMEMASTER
                \<or> \<not> CONFIG_BOOL_CHANNEL_GM_JOIN_SILENTLY w)
         then SendToAll w c2 (MakeLeft (m_name c) (GetObjectGuid plr)) else [])
      @ snd (SetOwner w (SelectNewOwner c2) (length (m_players c2) > 1) c2))
   \<and> m_ownerGuid (fst (Leave w plr send c)) = SelectNewOwner c2
   \<and> (\<not> IsOn c (GetObjectGuid joiner) \<and> \<not> IsBanned c (GetObjectGuid joiner)
       \<and> (m_password c = [] \<or> pw = m_password c)
       \<and> (GetGuildId joiner = 0 \<or> GetFlags c \<noteq> 0x38)
       \<longrightarrow> (\<exists>rest. snd (Join w joiner pw c) =
             (if m_announce c
                 \<and> (sec_level (GetSecurity joiner) < sec_level SEC_GAMEMASTER
                     \<or> \<not> CONFIG_BOOL_CHANNEL_GM_JOIN_SILENTLY w)
              then SendToAll w c (MakeJoined (m_name c) (GetObjectGuid joiner)) else [])
             @ rest))"
    using a b j by blast
qed


theorem Leave_owner_succession_witness:
  "m_announce (run [(world0, CmdJoin alice []), (world0, CmdJoin bob []), (world0, CmdAnnounce alice)]
                 test_channel) = False
   \<and> m_ownerGuid (run [(world0, CmdJoin alice []), (world0, CmdJoin bob []), (world0, CmdAnnounce alice)]
                 test_channel) = 1
   \<and> snd (Leave world0 alice True
        (run [(world0, CmdJoin alice []), (world0, CmdJoin bob []), (world0, CmdAnnounce alice)]
           test_channel))
      = [(1, SMSG_CHANNEL_NOTIFY CHAT_YOU_LEFT_NOTICE ''test'' []),
         (2, SMSG_CHANNEL_NOTIFY CHAT_MODE_CHANGE_NOTICE ''test'' [FGuid 2, FUint8 2, FUint8 3])]
   \<and> m_ownerGuid (fst (Leave world0 alice True
        (run [(world0, CmdJoin alice []), (world0, CmdJoin bob []), (world0, CmdAnnounce alice)]
           test_channel))) = 2
   \<and> snd (Leave world0 alice True
        (run [(world0, CmdJoin alice []), (world0, CmdJoin bob [])] test_channel))
      = [(1, SMSG_CHANNEL_NOTIFY CHAT_YOU_LEFT_NOTICE ''test'' []),
         (2, SMSG_CHANNEL_NOTIFY CHAT_LEFT_NOTICE ''test'' [FGuid 1]),
         (2, SMSG_CHANNEL_NOTIFY CHAT_MODE_CHANGE_NOTICE ''test'' [FGuid 2, FUint8 2, FUint8 3])]
   \<and> (\<exists>rest. snd (Join world0 carol []
        (run [(world0, CmdJoin alice []), (world0, CmdJoin bob [])] test_channel))
      = [(1, SMSG_CHANNEL_NOTIFY CHAT_JOINED_NOTICE ''test'' [FGuid 3]),
         (2, SMSG_CHANNEL_NOTIFY CHAT_JOINED_NOTICE ''test'' [FGuid 3])] @ rest)"
proof -
  let ?cA = "run [(world0, CmdJoin alice []), (world0, CmdJoin bob []), (world0, CmdAnnounce alice)]
                 test_channel"
  let ?cB = "run [(world0, CmdJoin alice []), (world0, CmdJoin bob [])] test_channel"
  let ?a2 = "?cA\<lparr>m_players := players_erase (GetObjectGuid alice) (m_players ?cA)\<rparr>"
  let ?b2 = "?cB\<lparr>m_players := players_erase (GetObjectGuid alice) (m_players ?cB)\<rparr>"
  have hA: "IsOn ?cA (GetObjectGuid alice) \<and> IsOwner (players_get (m_players ?cA) (GetObjectGuid alice))
   \<and> \<not> IsPublic ?cA \<and> ?a2 = ?a2" by code_simp
  have hB: "IsOn ?cB (GetObjectGuid alice) \<and> IsOwner (players_get (m_players ?cB) (GetObjectGuid alice))
   \<and> \<not> IsPublic ?cB \<and> ?b2 = ?b2" by code_simp
  have hJ: "\<not> IsOn ?cB (GetObjectGuid carol) \<and> \<not> IsBanned ?cB (GetObjectGuid carol)
       \<and> (m_password ?cB = [] \<or> [] = m_password ?cB)
       \<and> (GetGuildId carol = 0 \<or> GetFlags ?cB \<noteq> 0x38)" by code_simp
  have an: "m_announce ?cA = False" by code_simp
  have o0: "m_ownerGuid ?cA = 1" by code_simp
  note A = Leave_owner_succession[where c = ?cA and plr = alice and ?c2.0 = ?a2 and w = world0
             and send = True, THEN mp, OF hA]
  note B = Leave_owner_succession[where c = ?cB and plr = alice and ?c2.0 = ?b2 and w = world0
             and send = True and joiner = carol and pw = "[]", THEN mp, OF hB]
  have eA: "(if True then SendToOne world0 (MakeYouLeft (m_name ?cA)) (GetObjectGuid alice) else [])
      @ (if m_announce ?cA
            \<and> (sec_level (GetSecurity alice) < sec_level SEC_GAMEMASTER
                \<or> \<not> CONFIG_BOOL_CHANNEL_GM_JOIN_SILENTLY world0)
         then SendToAll world0 ?a2 (MakeLeft (m_name ?cA) (GetObjectGuid alice)) else [])
      @ snd (SetOwner world0 (SelectNewOwner ?a2) (length (m_players ?a2) > 1) ?a2)
     = [(1, SMSG_CHANNEL_NOTIFY CHAT_YOU_LEFT_NOTICE ''test'' []),
         (2, SMSG_CHANNEL_NOTIFY CHAT_MODE_CHANGE_NOTICE ''test'' [FGuid 2, FUint8 2, FUint8 3])]"
    by code_simp
  have eB: "(if True then SendToOne world0 (MakeYouLeft (m_name ?cB)) (GetObjectGuid alice) else [])
      @ (if m_announce ?cB
            \<and> (sec_level (GetSecurity alice) < sec_level SEC_GAMEMASTER
                \<or> \<not> CONFIG_BOOL_CHANNEL_GM_JOIN_SILENTLY world0)
         then SendToAll world0 ?b2 (MakeLeft (m_name ?cB) (GetObjectGuid alice)) else [])
      @ snd (SetOwner world0 (SelectNewOwner ?b2) (length (m_players ?b2) > 1) ?b2)
     = [(1, SMSG_CHANNEL_NOTIFY CHAT_YOU_LEFT_NOTICE ''test'' []),
         (2, SMSG_CHANNEL_NOTIFY CHAT_LEFT_NOTICE ''test'' [FGuid 1]),
         (2, SMSG_CHANNEL_NOTIFY CHAT_MODE_CHANGE_NOTICE ''test'' [FGuid 2, FUint8 2, FUint8 3])]"
    by code_simp
  have sA: "SelectNewOwner ?a2 = 2" by code_simp
  have jB: "(if m_announce ?cB
                 \<and> (sec_level (GetSecurity carol) < sec_level SEC_GAMEMASTER
                     \<or> \<not> CONFIG_BOOL_CHANNEL_GM_JOIN_SILENTLY world0)
              then SendToAll world0 ?cB (MakeJoined (m_name ?cB) (GetObjectGuid carol)) else [])
          = [(1, SMSG_CHANNEL_NOTIFY CHAT_JOINED_NOTICE ''test'' [FGuid 3]),
             (2, SMSG_CHANNEL_NOTIFY CHAT_JOINED_NOTICE ''test'' [FGuid 3])]" by code_simp
  have 1: "snd (Leave world0 alice True ?cA)
      = [(1, SMSG_CHANNEL_NOTIFY CHAT_YOU_LEFT_NOTICE ''test'' []),
         (2, SMSG_CHANNEL_NOTIFY CHAT_MODE_CHANGE_NOTICE ''test'' [FGuid 2, FUint8 2, FUint8 3])]"
    unfolding A[THEN conjunct1] snd_conv by (rule eA)
  have 2: "m_ownerGuid (fst (Leave world0 alice True ?cA)) = 2"
    by (rule trans[OF A[THEN conjunct2, THEN conjunct1] sA])
  have 3: "snd (Leave world0 alice True ?cB)
      = [(1, SMSG_CHANNEL_NOTIFY CHAT_YOU_LEFT_NOTICE ''test'' []),
         (2, SMSG_CHANNEL_NOTIFY CHAT_LEFT_NOTICE ''test'' [FGuid 1]),
         (2, SMSG_CHANNEL_NOTIFY CHAT_MODE_CHANGE_NOTICE ''test'' [FGuid 2, FUint8 2, FUint8 3])]"
    unfolding B[THEN conjunct1] snd_conv by (rule eB)
  have 4: "\<exists>rest. snd (Join world0 carol [] ?cB)
      = [(1, SMSG_CHANNEL_NOTIFY CHAT_JOINED_NOTICE ''test'' [FGuid 3]),
         (2, SMSG_CHANNEL_NOTIFY CHAT_JOINED_NOTICE ''test'' [FGuid 3])] @ rest"
    using B[THEN conjunct2, THEN conjunct2, THEN mp, OF hJ] unfolding jB .
  show ?thesis by (intro conjI an o0 1 2 3 4)
qed

end
